theory Spec2Isabelle
  imports Complex_Main "HOL-Library.Word"
begin

unbundle bit_operations_syntax

section \<open>Rigid-body physics core: a shallow embedding of physics.cpp\<close>

text \<open>
  The development follows \<^verbatim>\<open>src/physics/physics.cpp\<close>: the contact buffer of
  \<^verbatim>\<open>SolverData\<close>, the narrowphase dispatch, the XPBD substep integrator, the positional
  solver, the velocity reconstruction and the velocity solver.

  Conventions of the embedding.
  \<^item> A C++ \<^verbatim>\<open>float\<close> is a \<^typ>\<open>real\<close>: rounding and overflow are not modelled, and
    every table of the model holds real numbers. A float division by zero makes an
    infinity or a NaN, and the program goes on computing with it. HOL's \<open>x / 0 = 0\<close> is
    never used for that: the quotient is an explicit non-finite value, and when such a
    value reaches what a function hands back or stores, the outcome of that function
    is \<open>NonFinite\<close> or \<open>NonFiniteWritten\<close>, which record that the results are not real
    numbers. Each definition says which of its results those are.
  \<^item> \<^verbatim>\<open>CountT\<close>, \<^verbatim>\<open>int32_t\<close> and \<^verbatim>\<open>uint32_t\<close> counters and indices are
    \<^typ>\<open>nat\<close> (none of them can go negative and no claim depends on wrap-around); the
    raw primitive type tags, which are combined bitwise, are \<^typ>\<open>32 word\<close>.
  \<^item> The ECS context is a record of component tables indexed by entity, together with
    the per-world singletons; \<^verbatim>\<open>ctx.getUnsafe<C>(e)\<close> is the table lookup.
  \<^item> An \<^verbatim>\<open>assert\<close> that fails, a write outside the contact buffer and
    \<^verbatim>\<open>__builtin_unreachable()\<close> are errors of the model.
  \<^item> Record fields cannot be called \<open>x\<close>, \<open>y\<close>, \<open>z\<close>, \<open>w\<close> without capturing these
    names everywhere, so the fields of \<^verbatim>\<open>Vector3\<close> are \<open>vx vy vz\<close>, of \<^verbatim>\<open>Vector4\<close>
    \<open>px py pz pw\<close> and of \<^verbatim>\<open>Quat\<close> \<open>qw qx qy qz\<close>.
\<close>

subsection \<open>Vectors and quaternions\<close>

record Vector3 =
  vx :: real
  vy :: real
  vz :: real

record Vector4 =
  px :: real
  py :: real
  pz :: real
  pw :: real

record Quat =
  qw :: real
  qx :: real
  qy :: real
  qz :: real

text \<open>
  Modelled from the spec: \<^verbatim>\<open>madrona/math.hpp\<close> is not among the sources, so the operators
  of \<^verbatim>\<open>Vector3\<close>, \<^verbatim>\<open>Vector4\<close> and \<^verbatim>\<open>Quat\<close> used by physics.cpp are given their
  standard meaning, the one the specification's notation (\<open>a + b\<close>, \<open>n \<cdot> v\<close>,
  \<open>a \<times> b\<close>, \<open>|v|\<close>, quaternion product, \<open>q\<inverse>\<close>) refers to. Orientations are unit
  quaternions: \<open>Quat_inv\<close> is the conjugate, which is the inverse of a unit quaternion,
  and \<open>rotateVec q v\<close> is \<open>2 (p \<cdot> v) p + (2 w\<^sup>2 - 1) v + 2 w (p \<times> v)\<close> with \<open>p\<close> the
  vector part and \<open>w\<close> the scalar part of \<open>q\<close>, which is the rotation of \<open>v\<close> by a unit
  \<open>q\<close>. The general theorems below use no more of \<open>rotateVec\<close> than that it
  keeps the length of \<open>(0, 0, 1)\<close> under a unit quaternion.
\<close>

definition Vector3_zero :: Vector3 where
  "Vector3_zero = \<lparr>vx = 0, vy = 0, vz = 0\<rparr>"

definition Vector4_zero :: Vector4 where
  "Vector4_zero = \<lparr>px = 0, py = 0, pz = 0, pw = 0\<rparr>"

definition vadd :: "Vector3 \<Rightarrow> Vector3 \<Rightarrow> Vector3" where
  "vadd a b = \<lparr>vx = vx a + vx b, vy = vy a + vy b, vz = vz a + vz b\<rparr>"

definition vsub :: "Vector3 \<Rightarrow> Vector3 \<Rightarrow> Vector3" where
  "vsub a b = \<lparr>vx = vx a - vx b, vy = vy a - vy b, vz = vz a - vz b\<rparr>"

definition vneg :: "Vector3 \<Rightarrow> Vector3" where
  "vneg a = \<lparr>vx = - vx a, vy = - vy a, vz = - vz a\<rparr>"

definition smul :: "real \<Rightarrow> Vector3 \<Rightarrow> Vector3" where
  "smul s a = \<lparr>vx = s * vx a, vy = s * vy a, vz = s * vz a\<rparr>"

definition sdiv :: "Vector3 \<Rightarrow> real \<Rightarrow> Vector3" where
  "sdiv a s = \<lparr>vx = vx a / s, vy = vy a / s, vz = vz a / s\<rparr>"

definition vmul :: "Vector3 \<Rightarrow> Vector3 \<Rightarrow> Vector3" where
  "vmul a b = \<lparr>vx = vx a * vx b, vy = vy a * vy b, vz = vz a * vz b\<rparr>"

definition dot :: "Vector3 \<Rightarrow> Vector3 \<Rightarrow> real" where
  "dot a b = vx a * vx b + vy a * vy b + vz a * vz b"

definition cross :: "Vector3 \<Rightarrow> Vector3 \<Rightarrow> Vector3" where
  "cross a b = \<lparr>vx = vy a * vz b - vz a * vy b,
                vy = vz a * vx b - vx a * vz b,
                vz = vx a * vy b - vy a * vx b\<rparr>"

definition Vector3_length :: "Vector3 \<Rightarrow> real" where
  "Vector3_length a = sqrt (vx a * vx a + vy a * vy a + vz a * vz a)"

definition makeVector4 :: "Vector3 \<Rightarrow> real \<Rightarrow> Vector4" where
  "makeVector4 v s = \<lparr>px = vx v, py = vy v, pz = vz v, pw = s\<rparr>"

definition xyz :: "Vector4 \<Rightarrow> Vector3" where
  "xyz p = \<lparr>vx = px p, vy = py p, vz = pz p\<rparr>"

definition Quat_add :: "Quat \<Rightarrow> Quat \<Rightarrow> Quat" where
  "Quat_add a b = \<lparr>qw = qw a + qw b, qx = qx a + qx b, qy = qy a + qy b, qz = qz a + qz b\<rparr>"

definition Quat_sub :: "Quat \<Rightarrow> Quat \<Rightarrow> Quat" where
  "Quat_sub a b = \<lparr>qw = qw a - qw b, qx = qx a - qx b, qy = qy a - qy b, qz = qz a - qz b\<rparr>"

definition Quat_mul :: "Quat \<Rightarrow> Quat \<Rightarrow> Quat" where
  "Quat_mul a b =
     \<lparr>qw = qw a * qw b - qx a * qx b - qy a * qy b - qz a * qz b,
      qx = qw a * qx b + qx a * qw b + qy a * qz b - qz a * qy b,
      qy = qw a * qy b - qx a * qz b + qy a * qw b + qz a * qx b,
      qz = qw a * qz b + qx a * qy b - qy a * qx b + qz a * qw b\<rparr>"

definition Quat_inv :: "Quat \<Rightarrow> Quat" where
  "Quat_inv q = \<lparr>qw = qw q, qx = - qx q, qy = - qy q, qz = - qz q\<rparr>"

definition Quat_length :: "Quat \<Rightarrow> real" where
  "Quat_length q = sqrt (qw q * qw q + qx q * qx q + qy q * qy q + qz q * qz q)"

definition fromAngularVec :: "Vector3 \<Rightarrow> Quat" where
  "fromAngularVec v = \<lparr>qw = 0, qx = vx v, qy = vy v, qz = vz v\<rparr>"

definition rotateVec :: "Quat \<Rightarrow> Vector3 \<Rightarrow> Vector3" where
  "rotateVec q v =
     (let pure = \<lparr>vx = qx q, vy = qy q, vz = qz q\<rparr>; scalar = qw q
      in vadd (vadd (smul (2 * dot pure v) pure)
                    (smul (2 * scalar * scalar - 1) v))
              (smul (2 * scalar) (cross pure v)))"

subsection \<open>Errors and non-finite floats\<close>

type_synonym Entity = nat

text \<open>
  \<open>NonFinite\<close>: the values the function returns, or stores in the one entity it is
  run on (\<^verbatim>\<open>substepRigidBodies\<close>, \<^verbatim>\<open>setVelocities\<close>), are infinite or NaN.
  \<open>NonFiniteWritten a b\<close>: a solver function has stored infinite or NaN values in
  components of the entities \<open>a\<close> and \<open>b\<close>.
\<close>

datatype error =
    AssertFailed
  | OutOfBounds nat
  | Unreachable
  | NonFinite
  | NonFiniteWritten Entity Entity

text \<open>
  A float that may be non-finite, for the quotients of the unguarded divisions of the
  solver. \<open>fdiv a b\<close> is \<open>a / b\<close> on finite floats; a zero divisor is read as \<open>+0\<close>
  (which is what \<open>w1 + w2 + 0\<close> and a time step of zero are), so the quotient is
  \<open>+\<infinity>\<close>, \<open>-\<infinity>\<close> or NaN by the sign of \<open>a\<close>. \<open>ext_nonzero x\<close> is \<^verbatim>\<open>x != 0.f\<close>,
  \<open>fminf x y\<close> is C's \<^verbatim>\<open>fminf\<close> (the other argument when one is NaN) and \<open>ext_neg\<close>
  is unary minus.
\<close>

datatype ext = Finite real | PosInf | NegInf | NaN

definition fdiv :: "real \<Rightarrow> real \<Rightarrow> ext" where
  "fdiv a b =
     (if b \<noteq> 0 then Finite (a / b)
      else if 0 < a then PosInf else if a < 0 then NegInf else NaN)"

fun ext_nonzero :: "ext \<Rightarrow> bool" where
  "ext_nonzero (Finite x) = (x \<noteq> 0)"
| "ext_nonzero PosInf = True"
| "ext_nonzero NegInf = True"
| "ext_nonzero NaN = True"

fun fminf :: "ext \<Rightarrow> real \<Rightarrow> ext" where
  "fminf (Finite x) y = Finite (min x y)"
| "fminf PosInf y = Finite y"
| "fminf NegInf y = NegInf"
| "fminf NaN y = Finite y"

fun ext_neg :: "ext \<Rightarrow> ext" where
  "ext_neg (Finite x) = Finite (- x)"
| "ext_neg PosInf = NegInf"
| "ext_neg NegInf = PosInf"
| "ext_neg NaN = NaN"

text \<open>
  \<^verbatim>\<open>Quat::normalize\<close> divides by the length; the normal form of the zero quaternion
  is four NaNs.
\<close>

definition Quat_normalize :: "Quat \<Rightarrow> error + Quat" where
  "Quat_normalize q =
     (let l = Quat_length q
      in if l = 0 then Inl NonFinite
         else Inr \<lparr>qw = qw q / l, qx = qx q / l, qy = qy q / l, qz = qz q / l\<rparr>)"

subsection \<open>Components, contacts and the per-world singletons\<close>

datatype 'a Arr4 = Arr4 'a 'a 'a 'a

text \<open>Indexing a C array of four elements; the loops that use it keep \<open>i < 4\<close>.\<close>

fun at4 :: "'a Arr4 \<Rightarrow> nat \<Rightarrow> 'a" where
  "at4 (Arr4 a b c d) i =
     (if i = 0 then a else if i = 1 then b else if i = 2 then c else d)"

record Contact =
  ref :: Entity
  alt :: Entity
  points :: "Vector4 Arr4"
  numPoints :: nat
  normal :: Vector3
  lambdaN :: real

record CollisionEvent =
  ev_a :: Entity
  ev_b :: Entity

record CandidateCollision =
  cand_a :: Entity
  cand_b :: Entity

record Velocity =
  linear :: Vector3
  angular :: Vector3

record SubstepPrevState =
  prevPosition :: Vector3
  prevRotation :: Quat

record SubstepStartState =
  startPosition :: Vector3
  startRotation :: Quat

record SubstepVelocityState =
  prevLinear :: Vector3
  prevAngular :: Vector3

record RigidBodyMetadata =
  invInertiaTensor :: Vector3
  invMass :: real
  muS :: real
  muD :: real

text \<open>
  Modelled from the spec: \<^verbatim>\<open>HalfEdgeMesh\<close> is declared outside the sources. The
  narrowphase uses only \<^verbatim>\<open>getVertexCount()\<close> and \<^verbatim>\<open>vertex(v)\<close>, so a mesh is its
  vertex list.
\<close>

record HalfEdgeMesh =
  mesh_vertices :: "Vector3 list"

definition getVertexCount :: "HalfEdgeMesh \<Rightarrow> nat" where
  "getVertexCount m = length (mesh_vertices m)"

definition vertex :: "HalfEdgeMesh \<Rightarrow> nat \<Rightarrow> Vector3" where
  "vertex m v = mesh_vertices m ! v"

text \<open>
  Modelled from the spec: \<^verbatim>\<open>CollisionPrimitive\<close> is the tagged union
  \<open>{Sphere{radius}, Plane, Hull{halfEdgeMesh}}\<close> with type ranks sphere = 1, hull = 2,
  plane = 4 (its declaration is outside the sources; the ranks are the ones the
  \<^verbatim>\<open>NarrowphaseTest\<close> values of physics.cpp are built from).
\<close>

datatype CollisionPrimitive =
    Sphere real
  | Hull HalfEdgeMesh
  | Plane

fun prim_type :: "CollisionPrimitive \<Rightarrow> 32 word" where
  "prim_type (Sphere r) = 1"
| "prim_type (Hull m) = 2"
| "prim_type Plane = 4"

record ObjectManager =
  primitives :: "nat \<Rightarrow> CollisionPrimitive"
  metadata :: "nat \<Rightarrow> RigidBodyMetadata"

record SolverData =
  contacts :: "Contact list"
  numContacts :: nat
  maxContacts :: nat
  deltaT :: real
  h :: real
  g :: Vector3
  gMagnitude :: real
  restitutionThreshold :: real

definition Contact_zero :: Contact where
  "Contact_zero = \<lparr>ref = 0, alt = 0,
     points = Arr4 Vector4_zero Vector4_zero Vector4_zero Vector4_zero,
     numPoints = 0, normal = Vector3_zero, lambdaN = 0\<rparr>"

text \<open>
  The constructor. The buffer is \<^verbatim>\<open>rawAlloc\<close>ed with room for \<open>max_contacts_per_step\<close>
  contacts; its cells are uninitialised in the program and hold \<open>Contact_zero\<close> here.
  \<^verbatim>\<open>delta_t / (float)num_substeps\<close> is not guarded by the code.
\<close>

definition SolverData_init :: "nat \<Rightarrow> real \<Rightarrow> nat \<Rightarrow> Vector3 \<Rightarrow> error + SolverData" where
  "SolverData_init max_contacts_per_step delta_t num_substeps gravity =
     (if num_substeps = 0 then Inl NonFinite
      else
        (let h' = delta_t / real num_substeps;
             gMagnitude' = Vector3_length gravity
         in Inr \<lparr>contacts = replicate max_contacts_per_step Contact_zero,
                 numContacts = 0,
                 maxContacts = max_contacts_per_step,
                 deltaT = delta_t,
                 h = h',
                 g = gravity,
                 gMagnitude = gMagnitude',
                 restitutionThreshold = 2 * gMagnitude' * h'\<rparr>))"

text \<open>
  The copy loop of \<^verbatim>\<open>addContacts\<close>: \<^verbatim>\<open>contacts[contact_idx + i] = added_contacts[i]\<close>.
  A write at an index outside the allocation is the error \<open>OutOfBounds\<close>.
\<close>

fun writeContacts :: "Contact list \<Rightarrow> nat \<Rightarrow> Contact list \<Rightarrow> error + Contact list" where
  "writeContacts buf idx [] = Inr buf"
| "writeContacts buf idx (c # cs) =
     (if idx < length buf then writeContacts (buf[idx := c]) (Suc idx) cs
      else Inl (OutOfBounds idx))"

text \<open>
  \<^verbatim>\<open>addContacts\<close>: the counter is advanced by the size of the span first
  (\<^verbatim>\<open>fetch_add\<close>), then the old value is asserted to be below \<^verbatim>\<open>maxContacts\<close>, then
  the span is copied.
\<close>

definition addContacts :: "SolverData \<Rightarrow> Contact list \<Rightarrow> error + SolverData" where
  "addContacts solver added_contacts =
     (let contact_idx = numContacts solver;
          solver' = solver\<lparr>numContacts := numContacts solver + length added_contacts\<rparr>
      in if \<not> contact_idx < maxContacts solver then Inl AssertFailed
         else (case writeContacts (contacts solver') contact_idx added_contacts of
                 Inl e \<Rightarrow> Inl e
               | Inr buf \<Rightarrow> Inr (solver'\<lparr>contacts := buf\<rparr>)))"

subsection \<open>The ECS context\<close>

text \<open>
  One table per component type, indexed by entity, the two singletons the physics code
  reads, and the \<^verbatim>\<open>CollisionEvent\<close> temporaries created so far (in creation order).
\<close>

record Context =
  objectID :: "Entity \<Rightarrow> nat"
  position :: "Entity \<Rightarrow> Vector3"
  rotation :: "Entity \<Rightarrow> Quat"
  scale :: "Entity \<Rightarrow> Vector3"
  velocity :: "Entity \<Rightarrow> Velocity"
  prevState :: "Entity \<Rightarrow> SubstepPrevState"
  startState :: "Entity \<Rightarrow> SubstepStartState"
  velState :: "Entity \<Rightarrow> SubstepVelocityState"
  solverData :: SolverData
  objMgr :: ObjectManager
  collisionEvents :: "CollisionEvent list"

subsection \<open>Narrowphase\<close>

datatype NarrowphaseTest =
    SphereSphere
  | HullHull
  | SphereHull
  | PlanePlane
  | SpherePlane
  | HullPlane

text \<open>The enumerators' values; any other value reaches the \<^verbatim>\<open>default\<close> label.\<close>

definition NarrowphaseTest_of :: "32 word \<Rightarrow> NarrowphaseTest option" where
  "NarrowphaseTest_of v =
     (if v = 1 then Some SphereSphere
      else if v = 2 then Some HullHull
      else if v = 3 then Some SphereHull
      else if v = 4 then Some PlanePlane
      else if v = 5 then Some SpherePlane
      else if v = 6 then Some HullPlane
      else None)"

text \<open>
  Modelled from the spec: \<^verbatim>\<open>geometry::CollisionMesh\<close>, \<^verbatim>\<open>geometry::Plane\<close> and
  \<^verbatim>\<open>Manifold\<close> are declared outside the sources; they carry the fields physics.cpp
  reads and writes. \<^verbatim>\<open>doSAT\<close> and \<^verbatim>\<open>doSATPlane\<close> are outside the sources too and
  are parameters of \<open>runNarrowphase\<close>.
\<close>

record CollisionMesh =
  halfEdgeMesh :: HalfEdgeMesh
  vertexCount :: nat
  vertices :: "Vector3 list"
  center :: Vector3

record geometry_Plane =
  plane_point :: Vector3
  plane_normal :: Vector3

record Manifold =
  contactPoints :: "Vector4 Arr4"
  numContactPoints :: nat
  manifold_normal :: Vector3
  aIsReference :: bool

definition base_normal :: Vector3 where
  "base_normal = \<lparr>vx = 0, vy = 0, vz = 1\<rparr>"

text \<open>
  The lambda \<^verbatim>\<open>transformVertex\<close> of the hull branches:
  \<^verbatim>\<open>e_position + e_rotation.rotateVec((math::Vector3)e_scale * v)\<close>, the scale being
  applied per axis (the component-wise product \<open>vmul\<close>) before the rotation.
\<close>

definition transformVertex :: "Context \<Rightarrow> Vector3 \<Rightarrow> Entity \<Rightarrow> Vector3" where
  "transformVertex ctx v e =
     (let e_scale = scale ctx e;
          e_rotation = rotation ctx e;
          e_position = position ctx e
      in vadd e_position (rotateVec e_rotation (vmul e_scale v)))"

text \<open>
  Filling a \<^verbatim>\<open>CollisionMesh\<close> from a half-edge mesh: the count, the scratch array
  of transformed vertices (one per index below the count, in order) and the centre.
\<close>

definition makeCollisionMesh :: "Context \<Rightarrow> HalfEdgeMesh \<Rightarrow> Entity \<Rightarrow> Vector3 \<Rightarrow> CollisionMesh" where
  "makeCollisionMesh ctx hEdge e c =
     \<lparr>halfEdgeMesh = hEdge,
      vertexCount = getVertexCount hEdge,
      vertices = map (\<lambda>v. transformVertex ctx (vertex hEdge v) e) [0..<getVertexCount hEdge],
      center = c\<rparr>"

text \<open>Storing the updated solver singleton back into the context.\<close>

definition withContacts :: "Context \<Rightarrow> Contact list \<Rightarrow> error + Context" where
  "withContacts ctx cs =
     (case addContacts (solverData ctx) cs of
        Inl e \<Rightarrow> Inl e
      | Inr s \<Rightarrow> Inr (ctx\<lparr>solverData := s\<rparr>))"

text \<open>\<^verbatim>\<open>case NarrowphaseTest::SphereSphere\<close>.\<close>

definition narrowphase_SphereSphere ::
  "Context \<Rightarrow> CandidateCollision \<Rightarrow> Entity \<Rightarrow> Entity \<Rightarrow> real \<Rightarrow> real \<Rightarrow> Vector3 \<Rightarrow> Vector3
     \<Rightarrow> error + Context" where
  "narrowphase_SphereSphere ctx candidate_collision a_entity b_entity a_radius b_radius a_pos b_pos =
     (let to_b = vsub b_pos a_pos;
          dist = Vector3_length to_b
      in if dist > 0 \<and> dist < a_radius + b_radius then
           (let mid = sdiv to_b 2;
                to_b_normal = sdiv to_b dist
            in case withContacts ctx
                 [\<lparr>ref = a_entity, alt = b_entity,
                   points = Arr4 (makeVector4 (vadd a_pos mid) (dist / 2))
                                 Vector4_zero Vector4_zero Vector4_zero,
                   numPoints = 1, normal = to_b_normal, lambdaN = 0\<rparr>] of
                 Inl e \<Rightarrow> Inl e
               | Inr ctx' \<Rightarrow>
                   Inr (ctx'\<lparr>collisionEvents := collisionEvents ctx' @
                          [\<lparr>ev_a = cand_a candidate_collision,
                            ev_b = cand_b candidate_collision\<rparr>]\<rparr>))
         else Inr ctx)"

text \<open>\<^verbatim>\<open>case NarrowphaseTest::SpherePlane\<close>.\<close>

definition narrowphase_SpherePlane ::
  "Context \<Rightarrow> Entity \<Rightarrow> Entity \<Rightarrow> real \<Rightarrow> Vector3 \<Rightarrow> Vector3 \<Rightarrow> error + Context" where
  "narrowphase_SpherePlane ctx a_entity b_entity sphere_radius a_pos b_pos =
     (let b_rot = rotation ctx b_entity;
          plane_normal = rotateVec b_rot base_normal;
          d = dot plane_normal b_pos;
          t = dot plane_normal a_pos - d
      in if t < sphere_radius then
           withContacts ctx
             [\<lparr>ref = a_entity, alt = b_entity,
               points = Arr4 (makeVector4 (vadd a_pos (smul sphere_radius plane_normal)) t)
                             Vector4_zero Vector4_zero Vector4_zero,
               numPoints = 1, normal = plane_normal, lambdaN = 0\<rparr>]
         else Inr ctx)"

text \<open>
  \<^verbatim>\<open>case NarrowphaseTest::HullHull\<close>, first the two collision meshes handed to
  \<^verbatim>\<open>doSAT\<close>: both \<^verbatim>\<open>hEdgeA\<close> and \<^verbatim>\<open>hEdgeB\<close> are bound to
  \<^verbatim>\<open>a_prim->hull.halfEdgeMesh\<close>.
\<close>

definition hullHullMeshes ::
  "Context \<Rightarrow> Entity \<Rightarrow> Entity \<Rightarrow> HalfEdgeMesh \<Rightarrow> HalfEdgeMesh \<Rightarrow> Vector3 \<Rightarrow> Vector3
     \<Rightarrow> CollisionMesh \<times> CollisionMesh" where
  "hullHullMeshes ctx a_entity b_entity a_mesh b_mesh a_pos b_pos =
     (let hEdgeA = a_mesh;
          hEdgeB = a_mesh;
          collisionMeshA = makeCollisionMesh ctx hEdgeA a_entity a_pos;
          collisionMeshB = makeCollisionMesh ctx hEdgeB b_entity b_pos
      in (collisionMeshA, collisionMeshB))"

definition narrowphase_HullHull ::
  "(CollisionMesh \<Rightarrow> CollisionMesh \<Rightarrow> Manifold) \<Rightarrow> Context \<Rightarrow> Entity \<Rightarrow> Entity
     \<Rightarrow> HalfEdgeMesh \<Rightarrow> HalfEdgeMesh \<Rightarrow> Vector3 \<Rightarrow> Vector3 \<Rightarrow> error + Context" where
  "narrowphase_HullHull doSAT ctx a_entity b_entity a_mesh b_mesh a_pos b_pos =
     (let (collisionMeshA, collisionMeshB) =
            hullHullMeshes ctx a_entity b_entity a_mesh b_mesh a_pos b_pos;
          manifold = doSAT collisionMeshA collisionMeshB
      in if numContactPoints manifold > 0 then
           withContacts ctx
             [\<lparr>ref = (if aIsReference manifold then a_entity else b_entity),
               alt = (if aIsReference manifold then b_entity else a_entity),
               points = Arr4 (at4 (contactPoints manifold) 0) (at4 (contactPoints manifold) 1)
                             (at4 (contactPoints manifold) 2) (at4 (contactPoints manifold) 3),
               numPoints = numContactPoints manifold,
               normal = manifold_normal manifold, lambdaN = 0\<rparr>]
         else Inr ctx)"

text \<open>\<^verbatim>\<open>case NarrowphaseTest::HullPlane\<close>.\<close>

definition narrowphase_HullPlane ::
  "(geometry_Plane \<Rightarrow> CollisionMesh \<Rightarrow> Manifold) \<Rightarrow> Context \<Rightarrow> Entity \<Rightarrow> Entity
     \<Rightarrow> HalfEdgeMesh \<Rightarrow> Vector3 \<Rightarrow> Vector3 \<Rightarrow> error + Context" where
  "narrowphase_HullPlane doSATPlane ctx a_entity b_entity a_mesh a_pos b_pos =
     (let hEdgeA = a_mesh;
          collisionMeshA = makeCollisionMesh ctx hEdgeA a_entity a_pos;
          b_rot = rotation ctx b_entity;
          plane_normal' = rotateVec b_rot base_normal;
          plane = \<lparr>plane_point = b_pos, plane_normal = plane_normal'\<rparr>;
          manifold = doSATPlane plane collisionMeshA
      in if numContactPoints manifold > 0 then
           withContacts ctx
             [\<lparr>ref = b_entity,
               alt = a_entity,
               points = Arr4 (at4 (contactPoints manifold) 0) (at4 (contactPoints manifold) 1)
                             (at4 (contactPoints manifold) 2) (at4 (contactPoints manifold) 3),
               numPoints = numContactPoints manifold,
               normal = manifold_normal manifold, lambdaN = 0\<rparr>]
         else Inr ctx)"

text \<open>
  \<^verbatim>\<open>runNarrowphase\<close>: resolve the primitives, order the pair by raw type, dispatch on
  the bitwise OR of the two raw types. Reading a member of the primitive union that
  the type tag does not select cannot happen after the dispatch; the model makes
  those branches \<open>Unreachable\<close>.
\<close>

definition runNarrowphase ::
  "(CollisionMesh \<Rightarrow> CollisionMesh \<Rightarrow> Manifold) \<Rightarrow> (geometry_Plane \<Rightarrow> CollisionMesh \<Rightarrow> Manifold)
     \<Rightarrow> Context \<Rightarrow> CandidateCollision \<Rightarrow> error + Context" where
  "runNarrowphase doSAT doSATPlane ctx candidate_collision =
     (let a_obj = objectID ctx (cand_a candidate_collision);
          b_obj = objectID ctx (cand_b candidate_collision);
          obj_mgr = objMgr ctx;
          a_prim0 = primitives obj_mgr a_obj;
          b_prim0 = primitives obj_mgr b_obj;
          raw_type_a0 = prim_type a_prim0;
          raw_type_b0 = prim_type b_prim0;
          a_entity0 = cand_a candidate_collision;
          b_entity0 = cand_b candidate_collision;
          swap = raw_type_a0 > raw_type_b0;
          raw_type_a = (if swap then raw_type_b0 else raw_type_a0);
          raw_type_b = (if swap then raw_type_a0 else raw_type_b0);
          a_entity = (if swap then b_entity0 else a_entity0);
          b_entity = (if swap then a_entity0 else b_entity0);
          a_prim = (if swap then b_prim0 else a_prim0);
          b_prim = (if swap then a_prim0 else b_prim0);
          test_type = NarrowphaseTest_of (raw_type_a OR raw_type_b);
          a_pos = position ctx a_entity;
          b_pos = position ctx b_entity
      in case test_type of
           Some SphereSphere \<Rightarrow>
             (case (a_prim, b_prim) of
                (Sphere a_radius, Sphere b_radius) \<Rightarrow>
                  narrowphase_SphereSphere ctx candidate_collision a_entity b_entity
                    a_radius b_radius a_pos b_pos
              | _ \<Rightarrow> Inl Unreachable)
         | Some PlanePlane \<Rightarrow> Inr ctx
         | Some SpherePlane \<Rightarrow>
             (case a_prim of
                Sphere sphere_radius \<Rightarrow>
                  narrowphase_SpherePlane ctx a_entity b_entity sphere_radius a_pos b_pos
              | _ \<Rightarrow> Inl Unreachable)
         | Some HullHull \<Rightarrow>
             (case (a_prim, b_prim) of
                (Hull a_mesh, Hull b_mesh) \<Rightarrow>
                  narrowphase_HullHull doSAT ctx a_entity b_entity a_mesh b_mesh a_pos b_pos
              | _ \<Rightarrow> Inl Unreachable)
         | Some SphereHull \<Rightarrow> Inl AssertFailed
         | Some HullPlane \<Rightarrow>
             (case a_prim of
                Hull a_mesh \<Rightarrow>
                  narrowphase_HullPlane doSATPlane ctx a_entity b_entity a_mesh a_pos b_pos
              | _ \<Rightarrow> Inl Unreachable)
         | None \<Rightarrow> Inl Unreachable)"

subsection \<open>Counted loops\<close>

text \<open>
  \<^verbatim>\<open>for (CountT i = i0; i < n; i++) body\<close> over a state \<open>s\<close>, where the body may stop
  the run with an error.
\<close>

function forLoop :: "nat \<Rightarrow> nat \<Rightarrow> (nat \<Rightarrow> 's \<Rightarrow> error + 's) \<Rightarrow> 's \<Rightarrow> error + 's" where
  "forLoop i n body s =
     (if i < n then
        (case body i s of
           Inl e \<Rightarrow> Inl e
         | Inr s' \<Rightarrow> forLoop (Suc i) n body s')
      else Inr s)"
  by pat_completeness auto
termination
  by (relation "measure (\<lambda>(i, n, body, s). n - i)") auto

declare forLoop.simps [simp del]

subsection \<open>Solver: the substep integrator\<close>

definition multDiag :: "Vector3 \<Rightarrow> Vector3 \<Rightarrow> Vector3" where
  "multDiag diag v = \<lparr>vx = vx diag * vx v, vy = vy diag * vy v, vz = vz diag * vz v\<rparr>"

text \<open>
  \<^verbatim>\<open>substepRigidBodies\<close> runs once per entity on references to that entity's
  components; here it takes the context and the entity and returns the context with
  the components of that entity written.
\<close>

definition substepRigidBodies :: "Context \<Rightarrow> Entity \<Rightarrow> error + Context" where
  "substepRigidBodies ctx e =
     (let solver = solverData ctx;
          obj_mgr = objMgr ctx;
          metadata' = metadata obj_mgr (objectID ctx e);
          inv_I = invInertiaTensor metadata';
          inv_m = invMass metadata';
          h' = h solver;
          cur_position = position ctx e;
          cur_rotation = rotation ctx e;
          prev_state = \<lparr>prevPosition = cur_position, prevRotation = cur_rotation\<rparr>;
          linear_velocity = linear (velocity ctx e);
          angular_velocity = angular (velocity ctx e);
          vel_state = \<lparr>prevLinear = linear_velocity, prevAngular = angular_velocity\<rparr>;
          linear_velocity1 =
            (if inv_m > 0 then vadd linear_velocity (smul h' (g solver)) else linear_velocity);
          cur_position1 = vadd cur_position (smul h' linear_velocity1);
          I = \<lparr>vx = (if vx inv_I = 0 then 0 else 1 / vx inv_I),
               vy = (if vy inv_I = 0 then 0 else 1 / vy inv_I),
               vz = (if vz inv_I = 0 then 0 else 1 / vz inv_I)\<rparr>;
          torque_ext = Vector3_zero;
          I_angular = multDiag I angular_velocity;
          angular_velocity1 =
            vadd angular_velocity
              (smul h' (multDiag inv_I (vsub torque_ext (cross angular_velocity I_angular))));
          vel1 = (velocity ctx e)\<lparr>angular := angular_velocity1\<rparr>;
          angular_quat = fromAngularVec (smul (0.5 * h') angular_velocity1);
          cur_rotation1 = Quat_add cur_rotation (Quat_mul angular_quat cur_rotation)
      in case Quat_normalize cur_rotation1 of
           Inl err \<Rightarrow> Inl err
         | Inr cur_rotation2 \<Rightarrow>
             Inr (ctx\<lparr>position := (position ctx)(e := cur_position1),
                      rotation := (rotation ctx)(e := cur_rotation2),
                      velocity := (velocity ctx)(e := vel1),
                      prevState := (prevState ctx)(e := prev_state),
                      startState := (startState ctx)
                        (e := \<lparr>startPosition = cur_position1, startRotation = cur_rotation2\<rparr>),
                      velState := (velState ctx)(e := vel_state)\<rparr>))"

subsection \<open>Solver: positions\<close>

definition generalizedInverseMass :: "Vector3 \<Rightarrow> real \<Rightarrow> Vector3 \<Rightarrow> Vector3 \<Rightarrow> real" where
  "generalizedInverseMass local inv_m inv_I n =
     (let lxn = cross local n in inv_m + dot (multDiag inv_I lxn) lxn)"

text \<open>
  \<^verbatim>\<open>applyPositionalUpdate\<close> updates \<open>x1, x2, q1, q2\<close> and \<open>lambda\<close> through references;
  the model returns the five of them. \<open>lambda\<close> is advanced before \<open>lambda_check\<close> is
  consulted, so an early return keeps the new \<open>lambda\<close>.

  The division by \<open>w1 + w2 + alpha_tilde\<close> is not guarded by the code. With a divisor
  of zero the quotient \<open>delta_lambda\<close> is infinite or NaN; so is \<open>lambda\<close> after
  \<^verbatim>\<open>lambda += delta_lambda\<close>, and the code goes on: unless \<open>lambda_check\<close> holds of the
  non-finite \<open>lambda\<close>, \<open>p = delta_lambda * n_world\<close> has infinite or NaN components,
  \<^verbatim>\<open>x1 += p * inv_m1\<close> and \<^verbatim>\<open>x2 -= p * inv_m2\<close> make every component of \<open>x1\<close> and \<open>x2\<close>
  infinite or NaN (NaN for an inverse mass of zero, as \<open>\<infinity> * 0\<close> is NaN), and the
  normalised \<open>q1\<close> and \<open>q2\<close> are NaN. The outcome \<open>NonFinite\<close> stands for these
  results. At both call sites \<open>c > 0\<close> and \<open>alpha_tilde = 0\<close>, the quotient is
  \<open>-\<infinity>\<close>, and \<open>lambda_check\<close> (constantly false, or \<open>lambda \<ge> lambda_threshold\<close>) does
  not hold of it: all five results are non-finite.
\<close>

definition applyPositionalUpdate ::
  "Vector3 \<Rightarrow> Vector3 \<Rightarrow> Quat \<Rightarrow> Quat \<Rightarrow> Vector3 \<Rightarrow> Vector3 \<Rightarrow> real \<Rightarrow> real \<Rightarrow> Vector3 \<Rightarrow> Vector3
     \<Rightarrow> Vector3 \<Rightarrow> Vector3 \<Rightarrow> Vector3 \<Rightarrow> real \<Rightarrow> real \<Rightarrow> real \<Rightarrow> (real \<Rightarrow> bool)
     \<Rightarrow> error + (Vector3 \<times> Vector3 \<times> Quat \<times> Quat \<times> real)" where
  "applyPositionalUpdate x1 x2 q1 q2 r1 r2 inv_m1 inv_m2 inv_I1 inv_I2
       n_world n1 n2 c alpha_tilde lambda lambda_check =
     (let w1 = generalizedInverseMass r1 inv_m1 inv_I1 n1;
          w2 = generalizedInverseMass r2 inv_m2 inv_I2 n2
      in case fdiv (- c - alpha_tilde * lambda) (w1 + w2 + alpha_tilde) of
           Finite delta_lambda \<Rightarrow>
             (let lambda1 = lambda + delta_lambda
              in if lambda_check lambda1 then Inr (x1, x2, q1, q2, lambda1)
                 else
                   (let p = smul delta_lambda n_world;
                        p_local1 = smul delta_lambda n1;
                        p_local2 = smul delta_lambda n2;
                        x1' = vadd x1 (smul inv_m1 p);
                        x2' = vsub x2 (smul inv_m2 p);
                        r1_x_p = cross r1 p_local1;
                        r2_x_p = cross r2 p_local2;
                        q1' = Quat_add q1
                                (Quat_mul (fromAngularVec (smul 0.5 (multDiag inv_I1 r1_x_p))) q1);
                        q2' = Quat_sub q2
                                (Quat_mul (fromAngularVec (smul 0.5 (multDiag inv_I2 r2_x_p))) q2)
                    in case Quat_normalize q1' of
                         Inl e \<Rightarrow> Inl e
                       | Inr q1'' \<Rightarrow>
                           (case Quat_normalize q2' of
                              Inl e \<Rightarrow> Inl e
                            | Inr q2'' \<Rightarrow> Inr (x1', x2', q1'', q2'', lambda1))))
         | _ \<Rightarrow> Inl NonFinite)"

text \<open>
  The state threaded through the contact points of one contact:
  \<open>(x1, x2, q1, q2, lambda_n, lambda_t)\<close>.

  \<^verbatim>\<open>handleContactConstraint\<close>. Once an update has made \<open>x1, x2, q1, q2\<close> non-finite
  they stay so to the end of the function: the tangential update that may follow
  computes its directions from the NaN rotations and adds NaN again. The outcome is
  then \<open>NonFinite\<close>.
\<close>

type_synonym PairState = "Vector3 \<times> Vector3 \<times> Quat \<times> Quat \<times> real \<times> real"

definition handleContactConstraint ::
  "PairState \<Rightarrow> SubstepPrevState \<Rightarrow> SubstepPrevState \<Rightarrow> real \<Rightarrow> real \<Rightarrow> Vector3 \<Rightarrow> Vector3
     \<Rightarrow> real \<Rightarrow> real \<Rightarrow> Vector3 \<Rightarrow> Vector3 \<Rightarrow> Vector3 \<Rightarrow> error + PairState" where
  "handleContactConstraint st prev1 prev2 inv_m1 inv_m2 inv_I1 inv_I2 mu_s1 mu_s2
       r1 r2 n_world =
     (case st of (x1, x2, q1, q2, lambda_n, lambda_t) \<Rightarrow>
        (let p1 = vadd (rotateVec q1 r1) x1;
             p2 = vadd (rotateVec q2 r2) x2;
             d = dot (vsub p1 p2) n_world
         in if d \<le> 0 then Inr st
            else
              (let x1_prev = prevPosition prev1;
                   q1_prev = prevRotation prev1;
                   x2_prev = prevPosition prev2;
                   q2_prev = prevRotation prev2;
                   p1_hat = vadd (rotateVec q1_prev r1) x1_prev;
                   p2_hat = vadd (rotateVec q2_prev r2) x2_prev;
                   n_local1 = rotateVec (Quat_inv q1) n_world;
                   n_local2 = rotateVec (Quat_inv q2) n_world
               in case applyPositionalUpdate x1 x2 q1 q2 r1 r2 inv_m1 inv_m2 inv_I1 inv_I2
                         n_world n_local1 n_local2 d 0 lambda_n (\<lambda>l. False) of
                    Inl e \<Rightarrow> Inl e
                  | Inr (x1a, x2a, q1a, q2a, lambda_n') \<Rightarrow>
                      (let delta_p = vsub (vsub p1 p1_hat) (vsub p2 p2_hat);
                           delta_p_t = vsub delta_p (smul (dot delta_p n_world) n_world);
                           tangential_magnitude = Vector3_length delta_p_t
                       in if tangential_magnitude > 0 then
                            (let tangent_dir = sdiv delta_p_t tangential_magnitude;
                                 tangent_dir_local1 = rotateVec (Quat_inv q1a) tangent_dir;
                                 tangent_dir_local2 = rotateVec (Quat_inv q2a) tangent_dir;
                                 mu_s = 0.5 * (mu_s1 + mu_s2);
                                 lambda_threshold = lambda_n' * mu_s
                             in case applyPositionalUpdate x1a x2a q1a q2a r1 r2 inv_m1 inv_m2
                                       inv_I1 inv_I2 tangent_dir tangent_dir_local1
                                       tangent_dir_local2 tangential_magnitude 0 lambda_t
                                       (\<lambda>lambda. lambda \<ge> lambda_threshold) of
                                  Inl e \<Rightarrow> Inl e
                                | Inr (x1b, x2b, q1b, q2b, lambda_t') \<Rightarrow>
                                    Inr (x1b, x2b, q1b, q2b, lambda_n', lambda_t'))
                          else Inr (x1a, x2a, q1a, q2a, lambda_n', lambda_t)))))"

definition getLocalSpaceContacts ::
  "SubstepStartState \<Rightarrow> SubstepStartState \<Rightarrow> Contact \<Rightarrow> nat \<Rightarrow> Vector3 \<times> Vector3" where
  "getLocalSpaceContacts start1 start2 contact point_idx =
     (let contact1 = xyz (at4 (points contact) point_idx);
          penetration_depth = pw (at4 (points contact) point_idx);
          contact2 = vsub contact1 (smul penetration_depth (normal contact));
          r1 = rotateVec (Quat_inv (startRotation start1)) (vsub contact1 (startPosition start1));
          r2 = rotateVec (Quat_inv (startRotation start2)) (vsub contact2 (startPosition start2))
      in (r1, r2))"

text \<open>
  \<^verbatim>\<open>handleContact\<close>: the four-iteration loop over the contact's points, then the write
  back of both positions and rotations (\<open>ref\<close> first, \<open>alt\<close> second) and of
  \<^verbatim>\<open>contact.lambdaN\<close>. When a point has made the pair's state non-finite, the later
  points keep it so (every constraint value computed from NaN rotations is NaN, which
  is not \<open>\<le> 0\<close>), and the write back stores the non-finite positions and rotations in
  \<open>ref\<close> and \<open>alt\<close>: the outcome is \<open>NonFiniteWritten ref alt\<close>.
\<close>

definition handleContact :: "Context \<Rightarrow> ObjectManager \<Rightarrow> Contact \<Rightarrow> error + (Context \<times> Contact)" where
  "handleContact ctx obj_mgr contact =
     (let prev1 = prevState ctx (ref contact);
          start1 = startState ctx (ref contact);
          metadata1 = metadata obj_mgr (objectID ctx (ref contact));
          prev2 = prevState ctx (alt contact);
          start2 = startState ctx (alt contact);
          metadata2 = metadata obj_mgr (objectID ctx (alt contact));
          lambda_n = 0;
          lambda_t = 0;
          p1 = position ctx (ref contact);
          p2 = position ctx (alt contact);
          q1 = rotation ctx (ref contact);
          q2 = rotation ctx (alt contact);
          inv_m1 = invMass metadata1;
          inv_m2 = invMass metadata2;
          inv_I1 = invInertiaTensor metadata1;
          inv_I2 = invInertiaTensor metadata2;
          mu_s1 = muS metadata1;
          mu_s2 = muS metadata2
      in case forLoop 0 4
                (\<lambda>i st. if i \<ge> numPoints contact then Inr st
                         else (case getLocalSpaceContacts start1 start2 contact i of
                                 (r1, r2) \<Rightarrow>
                                   handleContactConstraint st prev1 prev2 inv_m1 inv_m2
                                     inv_I1 inv_I2 mu_s1 mu_s2 r1 r2 (normal contact)))
                (p1, p2, q1, q2, lambda_n, lambda_t) of
           Inl e \<Rightarrow> Inl (NonFiniteWritten (ref contact) (alt contact))
         | Inr (p1', p2', q1', q2', lambda_n', lambda_t') \<Rightarrow>
             Inr (ctx\<lparr>position := (position ctx)(ref contact := p1', alt contact := p2'),
                      rotation := (rotation ctx)(ref contact := q1', alt contact := q2')\<rparr>,
                  contact\<lparr>lambdaN := lambda_n'\<rparr>))"

text \<open>
  \<^verbatim>\<open>solvePositions\<close>: serial over the first \<open>numContacts\<close> cells of the buffer. A
  counter beyond the allocation makes the read \<open>OutOfBounds\<close>. The run of the model
  ends at the first contact whose solve stores non-finite values, with the two
  entities they were stored in; the program goes on to the next contact.
\<close>

definition solvePositions :: "Context \<Rightarrow> error + Context" where
  "solvePositions ctx0 =
     (let obj_mgr = objMgr ctx0;
          num_contacts = numContacts (solverData ctx0)
      in forLoop 0 num_contacts
           (\<lambda>i ctx.
              if i < length (contacts (solverData ctx)) then
                (case handleContact ctx obj_mgr (contacts (solverData ctx) ! i) of
                   Inl e \<Rightarrow> Inl e
                 | Inr (ctx', contact) \<Rightarrow>
                     Inr (ctx'\<lparr>solverData := (solverData ctx')
                            \<lparr>contacts := (contacts (solverData ctx'))
                               [i := (contacts (solverData ctx') ! i)
                                       \<lparr>lambdaN := lambdaN contact\<rparr>]\<rparr>\<rparr>))
              else Inl (OutOfBounds i))
           ctx0)"

subsection \<open>Solver: velocities\<close>

text \<open>
  \<^verbatim>\<open>setVelocities\<close>, per entity; the divisions by \<open>h\<close> are not guarded by the code.
  With \<open>h = 0\<close> the velocity it stores in the entity is infinite or NaN.
\<close>

definition setVelocities :: "Context \<Rightarrow> Entity \<Rightarrow> error + Context" where
  "setVelocities ctx e =
     (let solver = solverData ctx;
          h' = h solver
      in if h' = 0 then Inl NonFinite
         else
           (let linear' = sdiv (vsub (position ctx e) (prevPosition (prevState ctx e))) h';
                cur_rotation = rotation ctx e;
                prev_rotation = prevRotation (prevState ctx e);
                delta_q = Quat_mul cur_rotation (Quat_inv prev_rotation);
                new_angular = smul (2 / h') \<lparr>vx = qx delta_q, vy = qy delta_q, vz = qz delta_q\<rparr>;
                angular' = (if qw delta_q > 0 then new_angular else vneg new_angular)
            in Inr (ctx\<lparr>velocity := (velocity ctx)
                          (e := \<lparr>linear = linear', angular = angular'\<rparr>)\<rparr>)))"

text \<open>
  \<^verbatim>\<open>applyVelocityUpdate\<close> returns the four velocities it updates through references:
  \<open>(v1, v2, omega1, omega2)\<close>. The division \<^verbatim>\<open>1.f / (w1 + w2)\<close> is not guarded by the
  code. With \<open>w1 + w2 = 0\<close> the quotient is \<open>+\<infinity>\<close>, the scaled magnitude is infinite
  or NaN and so is every component of the four velocities after the update: the
  outcome is \<open>NonFinite\<close>.
\<close>

type_synonym VelState = "Vector3 \<times> Vector3 \<times> Vector3 \<times> Vector3"

definition applyVelocityUpdate ::
  "VelState \<Rightarrow> Vector3 \<Rightarrow> Vector3 \<Rightarrow> real \<Rightarrow> real \<Rightarrow> Vector3 \<Rightarrow> Vector3
     \<Rightarrow> Vector3 \<Rightarrow> Vector3 \<Rightarrow> Vector3 \<Rightarrow> real \<Rightarrow> error + VelState" where
  "applyVelocityUpdate st r1 r2 inv_m1 inv_m2 inv_I1 inv_I2
       delta_v_world delta_v_l1 delta_v_l2 delta_v_magnitude =
     (case st of (v1, v2, omega1, omega2) \<Rightarrow>
        (let w1 = generalizedInverseMass r1 inv_m1 inv_I1 delta_v_l1;
             w2 = generalizedInverseMass r2 inv_m2 inv_I2 delta_v_l2
         in case fdiv 1 (w1 + w2) of
              Finite inv_w \<Rightarrow>
                (let magnitude = delta_v_magnitude * inv_w;
                     v1' = vadd v1 (smul inv_m1 (smul magnitude delta_v_world));
                     v2' = vsub v2 (smul inv_m2 (smul magnitude delta_v_world));
                     omega1' = vadd omega1 (multDiag inv_I1 (cross r1 (smul magnitude delta_v_l1)));
                     omega2' = vsub omega2 (multDiag inv_I2 (cross r2 (smul magnitude delta_v_l2)))
                 in Inr (v1', v2', omega1', omega2'))
            | _ \<Rightarrow> Inl NonFinite))"

text \<open>
  The body of the loop over the contact's points in \<^verbatim>\<open>updateVelocityFromContact\<close>,
  in two parts. First the dynamic friction block, which runs when \<open>vt_len != 0\<close> and
  \<open>dynamic_friction_magnitude != 0\<close>. The friction magnitude is the quotient of an
  unguarded division by \<open>h\<close> and may be non-finite: an infinite or NaN magnitude is
  \<open>!= 0\<close>, and \<^verbatim>\<open>fminf\<close> of \<open>+\<infinity>\<close> or NaN and \<open>vt_len\<close> is \<open>vt_len\<close>, so the block then
  runs with the finite magnitude \<open>- vt_len\<close>; only \<open>-\<infinity>\<close> gives an infinite
  \<open>corrected_magnitude\<close>, with which the update makes the four velocities non-finite.
\<close>

definition updateVelocityFromContact_friction ::
  "Quat \<Rightarrow> Quat \<Rightarrow> RigidBodyMetadata \<Rightarrow> RigidBodyMetadata \<Rightarrow> ext
     \<Rightarrow> Vector3 \<Rightarrow> Vector3 \<Rightarrow> Vector3 \<Rightarrow> VelState \<Rightarrow> error + VelState" where
  "updateVelocityFromContact_friction q1 q2 metadata1 metadata2 dynamic_friction_magnitude
       r1 r2 vt st =
     (let vt_len = Vector3_length vt
      in if vt_len \<noteq> 0 \<and> ext_nonzero dynamic_friction_magnitude then
           (case ext_neg (fminf dynamic_friction_magnitude vt_len) of
              Finite corrected_magnitude \<Rightarrow>
                (let delta_world = sdiv vt vt_len;
                     delta_local1 = rotateVec (Quat_inv q1) delta_world;
                     delta_local2 = rotateVec (Quat_inv q2) delta_world
                 in applyVelocityUpdate st r1 r2 (invMass metadata1) (invMass metadata2)
                      (invInertiaTensor metadata1) (invInertiaTensor metadata2)
                      delta_world delta_local1 delta_local2 corrected_magnitude)
            | _ \<Rightarrow> Inl NonFinite)
         else Inr st)"

text \<open>
  The whole body: the relative velocity at the point, the friction block, then the
  restitution update along the normal. \<open>vn\<close> is taken before the friction block and
  used after it. Velocities that the friction block has made non-finite stay so
  through the restitution update, which adds to them.
\<close>

definition updateVelocityFromContact_point ::
  "Quat \<Rightarrow> Quat \<Rightarrow> SubstepStartState \<Rightarrow> SubstepStartState
     \<Rightarrow> SubstepVelocityState \<Rightarrow> SubstepVelocityState \<Rightarrow> RigidBodyMetadata \<Rightarrow> RigidBodyMetadata
     \<Rightarrow> Contact \<Rightarrow> ext \<Rightarrow> real \<Rightarrow> nat \<Rightarrow> VelState \<Rightarrow> error + VelState" where
  "updateVelocityFromContact_point q1 q2 start1 start2 prev_vel1 prev_vel2 metadata1 metadata2
       contact dynamic_friction_magnitude restitution_threshold i st =
     (case getLocalSpaceContacts start1 start2 contact i of (r1, r2) \<Rightarrow>
      case st of (v1, v2, omega1, omega2) \<Rightarrow>
        (let n = normal contact;
             v = vsub (vadd v1 (cross omega1 r1)) (vadd v2 (cross omega2 r2));
             vn = dot n v;
             vt = vsub v (smul vn n)
         in case updateVelocityFromContact_friction q1 q2 metadata1 metadata2
                   dynamic_friction_magnitude r1 r2 vt st of
              Inl err \<Rightarrow> Inl err
            | Inr st1 \<Rightarrow>
                (let v_bar = vsub (vadd (prevLinear prev_vel1) (cross (prevAngular prev_vel1) r1))
                                  (vadd (prevLinear prev_vel2) (cross (prevAngular prev_vel2) r2));
                     vn_bar = dot n v_bar;
                     e = (if \<bar>vn_bar\<bar> \<le> restitution_threshold then 0 else 0.4);
                     restitution_magnitude = min (- e * vn_bar) 0 - vn;
                     n_local1 = rotateVec (Quat_inv q1) n;
                     n_local2 = rotateVec (Quat_inv q2) n
                 in applyVelocityUpdate st1 r1 r2 (invMass metadata1) (invMass metadata2)
                      (invInertiaTensor metadata1) (invInertiaTensor metadata2)
                      n n_local1 n_local2 restitution_magnitude)))"

text \<open>
  \<^verbatim>\<open>updateVelocityFromContact\<close>. The friction magnitude
  \<^verbatim>\<open>mu_d * fabsf(contact.lambdaN) / h\<close> is computed once, before the loop, by an
  unguarded division; with \<open>h = 0\<close> it is infinite or NaN and the function goes on with
  it (see the friction block). Both velocities are written back, \<open>ref\<close> first, \<open>alt\<close>
  second. Velocities that a point has made non-finite stay so through the later
  points and are stored by the write back: the outcome is
  \<open>NonFiniteWritten ref alt\<close>.
\<close>

definition updateVelocityFromContact ::
  "Context \<Rightarrow> ObjectManager \<Rightarrow> Contact \<Rightarrow> real \<Rightarrow> real \<Rightarrow> error + Context" where
  "updateVelocityFromContact ctx obj_mgr contact h' restitution_threshold =
     (let q1 = rotation ctx (ref contact);
          start1 = startState ctx (ref contact);
          prev_vel1 = velState ctx (ref contact);
          metadata1 = metadata obj_mgr (objectID ctx (ref contact));
          q2 = rotation ctx (alt contact);
          start2 = startState ctx (alt contact);
          prev_vel2 = velState ctx (alt contact);
          metadata2 = metadata obj_mgr (objectID ctx (alt contact));
          v1 = linear (velocity ctx (ref contact));
          omega1 = angular (velocity ctx (ref contact));
          v2 = linear (velocity ctx (alt contact));
          omega2 = angular (velocity ctx (alt contact));
          mu_d = 0.5 * (muD metadata1 + muD metadata2);
          dynamic_friction_magnitude = fdiv (mu_d * \<bar>lambdaN contact\<bar>) h'
      in case forLoop 0 4
                (\<lambda>i st. if i \<ge> numPoints contact then Inr st
                         else updateVelocityFromContact_point q1 q2 start1 start2
                                prev_vel1 prev_vel2 metadata1 metadata2 contact
                                dynamic_friction_magnitude restitution_threshold i st)
                (v1, v2, omega1, omega2) of
           Inl err \<Rightarrow> Inl (NonFiniteWritten (ref contact) (alt contact))
         | Inr (v1', v2', omega1', omega2') \<Rightarrow>
             Inr (ctx\<lparr>velocity := (velocity ctx)
                    (ref contact := \<lparr>linear = v1', angular = omega1'\<rparr>,
                     alt contact := \<lparr>linear = v2', angular = omega2'\<rparr>)\<rparr>))"

text \<open>
  \<^verbatim>\<open>solveVelocities\<close>: serial over the first \<open>numContacts\<close> cells of the buffer, then
  the counter is reset. The run of the model ends at the first contact whose update
  stores non-finite velocities.
\<close>

definition solveVelocities :: "Context \<Rightarrow> error + Context" where
  "solveVelocities ctx0 =
     (let obj_mgr = objMgr ctx0;
          num_contacts = numContacts (solverData ctx0)
      in case forLoop 0 num_contacts
                (\<lambda>i ctx.
                   if i < length (contacts (solverData ctx)) then
                     updateVelocityFromContact ctx obj_mgr (contacts (solverData ctx) ! i)
                       (h (solverData ctx)) (restitutionThreshold (solverData ctx))
                   else Inl (OutOfBounds i))
                ctx0 of
           Inl e \<Rightarrow> Inl e
         | Inr ctx1 \<Rightarrow> Inr (ctx1\<lparr>solverData := (solverData ctx1)\<lparr>numContacts := 0\<rparr>\<rparr>))"

section \<open>Specification-level definitions and example worlds\<close>

subsection \<open>What the specification says the narrowphase appends\<close>

text \<open>Appending one contact: it is stored at the old count and the count grows by one.\<close>

definition appendContact :: "Context \<Rightarrow> Contact \<Rightarrow> Context" where
  "appendContact ctx c =
     ctx\<lparr>solverData := (solverData ctx)
            \<lparr>numContacts := numContacts (solverData ctx) + 1,
             contacts := (contacts (solverData ctx))[numContacts (solverData ctx) := c]\<rparr>\<rparr>"

text \<open>
  Sphere/sphere, in the specification's words: one contact at the midpoint
  \<open>a + (b - a) / 2\<close> with depth \<open>|b - a| / 2\<close> and normal \<open>(b - a) / |b - a|\<close>.
\<close>

definition spec_SphereSphere_contact :: "Entity \<Rightarrow> Entity \<Rightarrow> Vector3 \<Rightarrow> Vector3 \<Rightarrow> Contact" where
  "spec_SphereSphere_contact ea eb a b =
     \<lparr>ref = ea, alt = eb,
      points = Arr4 (makeVector4 (vadd a (sdiv (vsub b a) 2)) (Vector3_length (vsub b a) / 2))
                    Vector4_zero Vector4_zero Vector4_zero,
      numPoints = 1,
      normal = sdiv (vsub b a) (Vector3_length (vsub b a)),
      lambdaN = 0\<rparr>"

text \<open>
  Sphere/plane, in the specification's words: one contact at \<open>a_pos + n * rA\<close> with
  depth \<open>t\<close> and normal \<open>n\<close>, the sphere as \<open>ref\<close> and the plane as \<open>alt\<close>.
\<close>

definition spec_SpherePlane_contact ::
  "Entity \<Rightarrow> Entity \<Rightarrow> Vector3 \<Rightarrow> real \<Rightarrow> Vector3 \<Rightarrow> real \<Rightarrow> Contact" where
  "spec_SpherePlane_contact sphere_e plane_e a_pos rA n t =
     \<lparr>ref = sphere_e, alt = plane_e,
      points = Arr4 (makeVector4 (vadd a_pos (smul rA n)) t)
                    Vector4_zero Vector4_zero Vector4_zero,
      numPoints = 1,
      normal = n,
      lambdaN = 0\<rparr>"

text \<open>
  The contact invariant of the specification, read on a manifold returned by
  \<^verbatim>\<open>doSAT\<close> or \<^verbatim>\<open>doSATPlane\<close>: at most four points and, when there is a point, a
  unit normal and no negative depth.
\<close>

definition manifold_ok :: "Manifold \<Rightarrow> bool" where
  "manifold_ok m \<longleftrightarrow>
     numContactPoints m \<le> 4 \<and>
     (0 < numContactPoints m \<longrightarrow>
        Vector3_length (manifold_normal m) = 1 \<and>
        (\<forall>i < numContactPoints m. 0 \<le> pw (at4 (contactPoints m) i)))"

text \<open>The radius of the sphere when the pair is a sphere and a plane, in either order.\<close>

fun spherePlane_radius :: "CollisionPrimitive \<Rightarrow> CollisionPrimitive \<Rightarrow> real option" where
  "spherePlane_radius (Sphere r) Plane = Some r"
| "spherePlane_radius Plane (Sphere r) = Some r"
| "spherePlane_radius a b = None"

subsection \<open>Example worlds\<close>

definition Quat_id :: Quat where
  "Quat_id = \<lparr>qw = 1, qx = 0, qy = 0, qz = 0\<rparr>"

definition example_solver :: SolverData where
  "example_solver =
     \<lparr>contacts = [Contact_zero, Contact_zero], numContacts = 0, maxContacts = 2,
      deltaT = 1, h = 1, g = \<lparr>vx = 0, vy = 0, vz = - 10\<rparr>, gMagnitude = 10,
      restitutionThreshold = 20\<rparr>"

text \<open>A buffer of two cells with one contact already counted.\<close>

definition nearly_full_solver :: SolverData where
  "nearly_full_solver = example_solver\<lparr>numContacts := 1\<rparr>"

definition unit_metadata :: RigidBodyMetadata where
  "unit_metadata =
     \<lparr>invInertiaTensor = \<lparr>vx = 1, vy = 1, vz = 1\<rparr>, invMass = 1, muS = 1/2, muD = 1/2\<rparr>"

definition static_metadata :: RigidBodyMetadata where
  "static_metadata = \<lparr>invInertiaTensor = Vector3_zero, invMass = 0, muS = 1/2, muD = 1/2\<rparr>"

definition hull_mesh_A :: HalfEdgeMesh where
  "hull_mesh_A = \<lparr>mesh_vertices = [\<lparr>vx = 1, vy = 0, vz = 0\<rparr>]\<rparr>"

definition hull_mesh_B :: HalfEdgeMesh where
  "hull_mesh_B = \<lparr>mesh_vertices = [\<lparr>vx = 0, vy = 1, vz = 0\<rparr>, \<lparr>vx = 0, vy = 0, vz = 1\<rparr>]\<rparr>"

text \<open>
  Objects: 0 a unit sphere, 1 a static plane, 2 a hull with the one-vertex mesh
  \<open>hull_mesh_A\<close>, 3 a hull with the two-vertex mesh \<open>hull_mesh_B\<close>.
\<close>

definition example_objMgr :: ObjectManager where
  "example_objMgr =
     \<lparr>primitives = (\<lambda>i. if i = 0 then Sphere 1 else if i = 1 then Plane
                         else if i = 2 then Hull hull_mesh_A else Hull hull_mesh_B),
      metadata = (\<lambda>i. if i = 1 then static_metadata else unit_metadata)\<rparr>"

text \<open>
  Entities: 0 a sphere at \<open>p0\<close>, 1 the plane through the origin with normal
  \<open>(0, 0, 1)\<close>, 2 a sphere at \<open>(1, 0, 0)\<close>, 3 hull A at the origin, 4 hull B at
  \<open>(0, 0, 5)\<close>. Every rotation is the identity, every scale is 1 and everything is at
  rest.
\<close>

definition example_ctx :: "Vector3 \<Rightarrow> Context" where
  "example_ctx p0 =
     \<lparr>objectID = (\<lambda>e. if e = 0 then 0 else if e = 1 then 1 else if e = 2 then 0
                       else if e = 3 then 2 else 3),
      position = (\<lambda>e. if e = 0 then p0 else if e = 2 then \<lparr>vx = 1, vy = 0, vz = 0\<rparr>
                       else if e = 4 then \<lparr>vx = 0, vy = 0, vz = 5\<rparr> else Vector3_zero),
      rotation = (\<lambda>e. Quat_id),
      scale = (\<lambda>e. \<lparr>vx = 1, vy = 1, vz = 1\<rparr>),
      velocity = (\<lambda>e. \<lparr>linear = Vector3_zero, angular = Vector3_zero\<rparr>),
      prevState = (\<lambda>e. \<lparr>prevPosition = Vector3_zero, prevRotation = Quat_id\<rparr>),
      startState = (\<lambda>e. \<lparr>startPosition = Vector3_zero, startRotation = Quat_id\<rparr>),
      velState = (\<lambda>e. \<lparr>prevLinear = Vector3_zero, prevAngular = Vector3_zero\<rparr>),
      solverData = example_solver,
      objMgr = example_objMgr,
      collisionEvents = []\<rparr>"

definition no_manifold :: Manifold where
  "no_manifold = \<lparr>contactPoints = Arr4 Vector4_zero Vector4_zero Vector4_zero Vector4_zero,
     numContactPoints = 0, manifold_normal = Vector3_zero, aIsReference = True\<rparr>"

text \<open>The contact the sphere pair 0, 2 of \<open>example_ctx Vector3_zero\<close> produces.\<close>

definition sphere_pair_contact :: Contact where
  "sphere_pair_contact =
     \<lparr>ref = 0, alt = 2,
      points = Arr4 \<lparr>px = 1/2, py = 0, pz = 0, pw = 1/2\<rparr> Vector4_zero Vector4_zero Vector4_zero,
      numPoints = 1, normal = \<lparr>vx = 1, vy = 0, vz = 0\<rparr>, lambdaN = 0\<rparr>"

text \<open>A sphere whose centre is one unit below the plane.\<close>

definition below_plane_ctx :: Context where
  "below_plane_ctx = example_ctx \<lparr>vx = 0, vy = 0, vz = - 1\<rparr>"

definition below_plane_contact :: Contact where
  "below_plane_contact =
     \<lparr>ref = 0, alt = 1,
      points = Arr4 \<lparr>px = 0, py = 0, pz = 0, pw = - 1\<rparr> Vector4_zero Vector4_zero Vector4_zero,
      numPoints = 1, normal = \<lparr>vx = 0, vy = 0, vz = 1\<rparr>, lambdaN = 0\<rparr>"

text \<open>A sphere whose centre is half a unit above the plane (it reaches through it).\<close>

definition resting_ctx :: Context where
  "resting_ctx = example_ctx \<lparr>vx = 0, vy = 0, vz = 1/2\<rparr>"

definition resting_contact :: Contact where
  "resting_contact =
     \<lparr>ref = 0, alt = 1,
      points = Arr4 \<lparr>px = 0, py = 0, pz = 3/2, pw = 1/2\<rparr> Vector4_zero Vector4_zero Vector4_zero,
      numPoints = 1, normal = \<lparr>vx = 0, vy = 0, vz = 1\<rparr>, lambdaN = 0\<rparr>"

text \<open>
  A stand-in for \<^verbatim>\<open>doSAT\<close> that reports, as its number of contact points, the number
  of vertices of the second mesh it is given.
\<close>

definition count_B_doSAT :: "CollisionMesh \<Rightarrow> CollisionMesh \<Rightarrow> Manifold" where
  "count_B_doSAT A B = no_manifold\<lparr>numContactPoints := vertexCount B\<rparr>"

subsection \<open>Reading the outcome of a stage\<close>

definition position_after :: "error + Context \<Rightarrow> Entity \<Rightarrow> Vector3 option" where
  "position_after r e = (case r of Inl err \<Rightarrow> None | Inr c \<Rightarrow> Some (position c e))"

definition rotation_after :: "error + Context \<Rightarrow> Entity \<Rightarrow> Quat option" where
  "rotation_after r e = (case r of Inl err \<Rightarrow> None | Inr c \<Rightarrow> Some (rotation c e))"

definition velocity_after :: "error + Context \<Rightarrow> Entity \<Rightarrow> Velocity option" where
  "velocity_after r e = (case r of Inl err \<Rightarrow> None | Inr c \<Rightarrow> Some (velocity c e))"

subsection \<open>What the specification says the solver computes\<close>

text \<open>
  The integrator, in the specification's words: the inertia is the component-wise
  reciprocal of \<open>invInertiaTensor\<close> with \<open>0 \<mapsto> 0\<close>, and the angular velocity is
  advanced by the gyroscopic term only, \<open>\<omega> += h * invI \<odot> (- \<omega> \<times> (I \<odot> \<omega>))\<close>.
\<close>

definition inertia_of :: "Vector3 \<Rightarrow> Vector3" where
  "inertia_of inv_I =
     \<lparr>vx = (if vx inv_I = 0 then 0 else 1 / vx inv_I),
      vy = (if vy inv_I = 0 then 0 else 1 / vy inv_I),
      vz = (if vz inv_I = 0 then 0 else 1 / vz inv_I)\<rparr>"

definition spec_gyroscopic_update :: "real \<Rightarrow> Vector3 \<Rightarrow> Vector3 \<Rightarrow> Vector3" where
  "spec_gyroscopic_update h' inv_I omega =
     vadd omega (smul h' (multDiag inv_I (vneg (cross omega (multDiag (inertia_of inv_I) omega)))))"

text \<open>
  Velocity reconstruction, in the specification's words:
  \<open>\<Delta>q = rot * prevRotation\<inverse>\<close>, \<open>\<omega> = (2 / h) * \<Delta>q.xyz\<close>, negated if \<open>\<Delta>q.w < 0\<close>.
\<close>

definition spec_angular_velocity :: "real \<Rightarrow> Quat \<Rightarrow> Quat \<Rightarrow> Vector3" where
  "spec_angular_velocity h' rot prev_rot =
     (let delta_q = Quat_mul rot (Quat_inv prev_rot);
          omega = smul (2 / h') \<lparr>vx = qx delta_q, vy = qy delta_q, vz = qz delta_q\<rparr>
      in if qw delta_q < 0 then vneg omega else omega)"

text \<open>
  Restitution, in the specification's words: \<open>e = 0.4\<close> if
  \<open>|v\<bar>n| > restitutionThreshold\<close> else \<open>0\<close>; the normal impulse has magnitude
  \<open>min (- e * v\<bar>n) 0 - vn\<close>; \<open>v\<bar>n\<close> is the normal relative velocity of the two
  contact points computed from the velocities saved in \<^verbatim>\<open>SubstepVelocityState\<close>.
\<close>

definition spec_restitution_coefficient :: "real \<Rightarrow> real \<Rightarrow> real" where
  "spec_restitution_coefficient restitution_threshold vn_bar =
     (if \<bar>vn_bar\<bar> > restitution_threshold then 0.4 else 0)"

definition spec_normal_impulse :: "real \<Rightarrow> real \<Rightarrow> real \<Rightarrow> real" where
  "spec_normal_impulse restitution_threshold vn_bar vn =
     min (- spec_restitution_coefficient restitution_threshold vn_bar * vn_bar) 0 - vn"

definition spec_vn_bar ::
  "SubstepVelocityState \<Rightarrow> SubstepVelocityState \<Rightarrow> Vector3 \<Rightarrow> Vector3 \<Rightarrow> Vector3 \<Rightarrow> real" where
  "spec_vn_bar prev_vel1 prev_vel2 r1 r2 n =
     dot n (vsub (vadd (prevLinear prev_vel1) (cross (prevAngular prev_vel1) r1))
                 (vadd (prevLinear prev_vel2) (cross (prevAngular prev_vel2) r2)))"

text \<open>
  The normal and the tangential part of the current relative velocity
  \<open>(v1 + \<omega>1 \<times> r1) - (v2 + \<omega>2 \<times> r2)\<close> of the two contact points.
\<close>

definition relative_vn :: "VelState \<Rightarrow> Vector3 \<Rightarrow> Vector3 \<Rightarrow> Vector3 \<Rightarrow> real" where
  "relative_vn st r1 r2 n =
     (case st of (v1, v2, omega1, omega2) \<Rightarrow>
        dot n (vsub (vadd v1 (cross omega1 r1)) (vadd v2 (cross omega2 r2))))"

definition relative_vt :: "VelState \<Rightarrow> Vector3 \<Rightarrow> Vector3 \<Rightarrow> Vector3 \<Rightarrow> Vector3" where
  "relative_vt st r1 r2 n =
     (case st of (v1, v2, omega1, omega2) \<Rightarrow>
        (let v = vsub (vadd v1 (cross omega1 r1)) (vadd v2 (cross omega2 r2))
         in vsub v (smul (dot n v) n)))"

text \<open>
  A serial pass over a list, in the order of the list, which ends at the first element
  whose step ends the run.
\<close>

primrec foldE :: "('a \<Rightarrow> 's \<Rightarrow> error + 's) \<Rightarrow> 'a list \<Rightarrow> 's \<Rightarrow> error + 's" where
  "foldE f [] s = Inr s"
| "foldE f (x # xs) s = (case f x s of Inl e \<Rightarrow> Inl e | Inr s' \<Rightarrow> foldE f xs s')"

text \<open>
  The velocity solve, in the specification's words. For one point of a contact: the
  local offsets \<open>r1\<close>, \<open>r2\<close> from the start states, the dynamic friction impulse on the
  tangential relative velocity, then the restitution impulse of magnitude
  \<open>min (- e * v\<bar>n) 0 - vn\<close> along \<open>n\<close>, with \<open>v\<bar>n\<close> from the two
  \<^verbatim>\<open>SubstepVelocityState\<close>s and \<open>vn\<close> the normal relative velocity at the start of the
  point's update.
\<close>

definition spec_point_update ::
  "Quat \<Rightarrow> Quat \<Rightarrow> SubstepStartState \<Rightarrow> SubstepStartState
     \<Rightarrow> SubstepVelocityState \<Rightarrow> SubstepVelocityState \<Rightarrow> RigidBodyMetadata \<Rightarrow> RigidBodyMetadata
     \<Rightarrow> Contact \<Rightarrow> ext \<Rightarrow> real \<Rightarrow> nat \<Rightarrow> VelState \<Rightarrow> error + VelState" where
  "spec_point_update q1 q2 start1 start2 prev_vel1 prev_vel2 md1 md2 contact dynMag
       restitution_threshold i st =
     (case getLocalSpaceContacts start1 start2 contact i of (r1, r2) \<Rightarrow>
        (let n = normal contact;
             vn = relative_vn st r1 r2 n;
             vn_bar = spec_vn_bar prev_vel1 prev_vel2 r1 r2 n
         in case updateVelocityFromContact_friction q1 q2 md1 md2 dynMag r1 r2
                   (relative_vt st r1 r2 n) st of
              Inl err \<Rightarrow> Inl err
            | Inr st1 \<Rightarrow>
                applyVelocityUpdate st1 r1 r2 (invMass md1) (invMass md2)
                  (invInertiaTensor md1) (invInertiaTensor md2)
                  n (rotateVec (Quat_inv q1) n) (rotateVec (Quat_inv q2) n)
                  (spec_normal_impulse restitution_threshold vn_bar vn)))"

text \<open>
  For one contact: the rotations, start states, saved velocities and metadata of \<open>ref\<close>
  and \<open>alt\<close> are read, \<open>dynMag = \<mu>d * |\<lambda>n| / h\<close> with the averaged \<open>\<mu>d\<close>, each of the
  contact's points (at most four) is updated in turn starting from the stored
  velocities of the pair, and both velocities are stored, \<open>ref\<close> first.
\<close>

definition spec_contact_velocity_update ::
  "Context \<Rightarrow> ObjectManager \<Rightarrow> Contact \<Rightarrow> real \<Rightarrow> real \<Rightarrow> error + Context" where
  "spec_contact_velocity_update ctx obj_mgr c h' restitution_threshold =
     (let a = ref c;
          b = alt c;
          md1 = metadata obj_mgr (objectID ctx a);
          md2 = metadata obj_mgr (objectID ctx b);
          dynMag = fdiv (0.5 * (muD md1 + muD md2) * \<bar>lambdaN c\<bar>) h'
      in case foldE (spec_point_update (rotation ctx a) (rotation ctx b)
                       (startState ctx a) (startState ctx b) (velState ctx a) (velState ctx b)
                       md1 md2 c dynMag restitution_threshold)
                [0..<min (numPoints c) 4]
                (linear (velocity ctx a), linear (velocity ctx b),
                 angular (velocity ctx a), angular (velocity ctx b)) of
           Inl err \<Rightarrow> Inl (NonFiniteWritten a b)
         | Inr (v1, v2, omega1, omega2) \<Rightarrow>
             Inr (ctx\<lparr>velocity := (velocity ctx)
                    (a := \<lparr>linear = v1, angular = omega1\<rparr>,
                     b := \<lparr>linear = v2, angular = omega2\<rparr>)\<rparr>))"

text \<open>Serial over the contacts, each with the step \<open>h\<close> and the restitution threshold.\<close>

definition spec_velocity_solve ::
  "ObjectManager \<Rightarrow> real \<Rightarrow> real \<Rightarrow> Contact list \<Rightarrow> Context \<Rightarrow> error + Context" where
  "spec_velocity_solve obj_mgr h' restitution_threshold cs ctx =
     foldE (\<lambda>c ctx'. spec_contact_velocity_update ctx' obj_mgr c h' restitution_threshold) cs ctx"

subsection \<open>Conditions on the bodies of a contact\<close>

text \<open>Inverse mass and inverse inertia of a body are not negative.\<close>

definition physical_metadata :: "RigidBodyMetadata \<Rightarrow> bool" where
  "physical_metadata md \<longleftrightarrow>
     0 \<le> invMass md \<and> 0 \<le> vx (invInertiaTensor md) \<and> 0 \<le> vy (invInertiaTensor md)
     \<and> 0 \<le> vz (invInertiaTensor md)"

text \<open>At least one body of the contact has a positive inverse mass.\<close>

definition has_dynamic_body :: "Context \<Rightarrow> Contact \<Rightarrow> bool" where
  "has_dynamic_body ctx c \<longleftrightarrow>
     0 < invMass (metadata (objMgr ctx) (objectID ctx (ref c)))
         + invMass (metadata (objMgr ctx) (objectID ctx (alt c)))"

text \<open>Both bodies of the contact have inverse mass and inverse inertia zero.\<close>

definition static_pair :: "Context \<Rightarrow> Contact \<Rightarrow> bool" where
  "static_pair ctx c \<longleftrightarrow>
     invMass (metadata (objMgr ctx) (objectID ctx (ref c))) = 0
     \<and> invInertiaTensor (metadata (objMgr ctx) (objectID ctx (ref c))) = Vector3_zero
     \<and> invMass (metadata (objMgr ctx) (objectID ctx (alt c))) = 0
     \<and> invInertiaTensor (metadata (objMgr ctx) (objectID ctx (alt c))) = Vector3_zero"

text \<open>
  The value \<open>d\<close> that \<^verbatim>\<open>handleContactConstraint\<close> computes for point \<open>i\<close> of a contact
  from the positions and rotations stored in the context: the two contact points are
  corrected when \<open>d > 0\<close>.
\<close>

definition separation :: "Context \<Rightarrow> Contact \<Rightarrow> nat \<Rightarrow> real" where
  "separation ctx c i =
     (case getLocalSpaceContacts (startState ctx (ref c)) (startState ctx (alt c)) c i of
        (r1, r2) \<Rightarrow>
          dot (vsub (vadd (rotateVec (rotation ctx (ref c)) r1) (position ctx (ref c)))
                    (vadd (rotateVec (rotation ctx (alt c)) r2) (position ctx (alt c))))
              (normal c))"

subsection \<open>Example worlds for the solver\<close>

text \<open>The example world with every body, the static plane included, moving along x.\<close>

definition moving_ctx :: Context where
  "moving_ctx = (example_ctx Vector3_zero)
     \<lparr>velocity := (\<lambda>e. \<lparr>linear = \<lparr>vx = 1, vy = 0, vz = 0\<rparr>, angular = Vector3_zero\<rparr>)\<rparr>"

text \<open>
  The sphere resting half a unit above the plane, with the contact of the pair in the
  buffer and the substep states of every body at its current position.
\<close>

definition solve_ctx :: Context where
  "solve_ctx = (appendContact resting_ctx resting_contact)
     \<lparr>prevState := (\<lambda>e. \<lparr>prevPosition = position resting_ctx e, prevRotation = Quat_id\<rparr>),
      startState := (\<lambda>e. \<lparr>startPosition = position resting_ctx e, startRotation = Quat_id\<rparr>)\<rparr>"

text \<open>Every body turned by half a turn about x since the start of the substep.\<close>

definition half_turn_ctx :: Context where
  "half_turn_ctx = (example_ctx Vector3_zero)
     \<lparr>rotation := (\<lambda>e. \<lparr>qw = 0, qx = 1, qy = 0, qz = 0\<rparr>)\<rparr>"

text \<open>The solver singleton built for one contact, \<open>deltaT = 1\<close>, two substeps, unit gravity.\<close>

definition unit_gravity :: Vector3 where
  "unit_gravity = \<lparr>vx = 0, vy = 0, vz = - 1\<rparr>"

definition init_solver :: SolverData where
  "init_solver =
     \<lparr>contacts = [Contact_zero], numContacts = 0, maxContacts = 1,
      deltaT = 1, h = 1/2, g = unit_gravity, gMagnitude = 1, restitutionThreshold = 1\<rparr>"

text \<open>
  The world of \<open>solve_ctx\<close> with every body static: the contact in the buffer is
  between two bodies of inverse mass and inverse inertia zero.
\<close>

definition static_pair_ctx :: Context where
  "static_pair_ctx = solve_ctx\<lparr>objMgr := example_objMgr\<lparr>metadata := (\<lambda>i. static_metadata)\<rparr>\<rparr>"

text \<open>
  A body with three different moments of inertia, and the example world with such
  bodies moving along x and spinning about \<open>(1, 1, 0)\<close>.
\<close>

definition oblong_metadata :: RigidBodyMetadata where
  "oblong_metadata =
     \<lparr>invInertiaTensor = \<lparr>vx = 1, vy = 1/2, vz = 1/4\<rparr>, invMass = 1, muS = 1/2, muD = 1/2\<rparr>"

definition spin_ctx :: Context where
  "spin_ctx = (example_ctx Vector3_zero)
     \<lparr>objMgr := example_objMgr\<lparr>metadata := (\<lambda>i. oblong_metadata)\<rparr>,
      velocity := (\<lambda>e. \<lparr>linear = \<lparr>vx = 1, vy = 0, vz = 0\<rparr>,
                          angular = \<lparr>vx = 1, vy = 1, vz = 0\<rparr>\<rparr>)\<rparr>"

text \<open>
  The sphere on the plane with the contact of the pair in the buffer of the solver
  \<open>init_solver\<close>: the sphere moves away from the plane at speed 3 along the normal,
  and at the start of the substep it did so at speed 5.
\<close>

definition bounce_ctx :: Context where
  "bounce_ctx = (example_ctx Vector3_zero)
     \<lparr>solverData := init_solver\<lparr>contacts := [resting_contact], numContacts := 1\<rparr>,
      velocity := (\<lambda>e. if e = 0 then \<lparr>linear = \<lparr>vx = 0, vy = 0, vz = 3\<rparr>, angular = Vector3_zero\<rparr>
                        else \<lparr>linear = Vector3_zero, angular = Vector3_zero\<rparr>),
      velState := (\<lambda>e. if e = 0 then \<lparr>prevLinear = \<lparr>vx = 0, vy = 0, vz = 5\<rparr>, prevAngular = Vector3_zero\<rparr>
                        else \<lparr>prevLinear = Vector3_zero, prevAngular = Vector3_zero\<rparr>)\<rparr>"

text \<open>The same world with the sphere at \<open>- 2\<close> along the normal and the buffer reset.\<close>

definition bounce_ctx_solved :: Context where
  "bounce_ctx_solved = bounce_ctx
     \<lparr>velocity := (velocity bounce_ctx)
        (0 := \<lparr>linear = \<lparr>vx = 0, vy = 0, vz = - 2\<rparr>, angular = Vector3_zero\<rparr>,
         1 := \<lparr>linear = Vector3_zero, angular = Vector3_zero\<rparr>),
      solverData := (solverData bounce_ctx)\<lparr>numContacts := 0\<rparr>\<rparr>"

section \<open>Properties\<close>

subsection \<open>The contact buffer\<close>

lemma writeContacts_ok:
  "idx + length cs \<le> length buf \<Longrightarrow>
   \<exists>buf'. writeContacts buf idx cs = Inr buf' \<and> length buf' = length buf"
proof (induction cs arbitrary: buf idx)
  case Nil
  then show ?case by simp
next
  case (Cons c cs)
  from Cons.prems have lt: "idx < length buf"
    and le: "Suc idx + length cs \<le> length (buf[idx := c])"
    by simp_all
  from Cons.IH [OF le] lt show ?case by simp
qed

text \<open>
  A call that fits: when the old count plus the size of the span stays within the
  allocation, the call succeeds, the buffer keeps its size and the count stays within
  \<open>maxContacts\<close>.
\<close>

lemma addContacts_within_capacity:
  assumes "numContacts s + length cs \<le> maxContacts s"
      and "maxContacts s = length (contacts s)"
      and "cs \<noteq> []"
  shows "\<exists>s'. addContacts s cs = Inr s' \<and> numContacts s' = numContacts s + length cs
           \<and> numContacts s' \<le> maxContacts s' \<and> length (contacts s') = length (contacts s)
           \<and> maxContacts s' = maxContacts s"
proof -
  from assms(3) have "0 < length cs" by simp
  with assms(1) have lt: "numContacts s < maxContacts s" by linarith
  from assms(1,2) have "numContacts s + length cs \<le> length (contacts s)" by simp
  from writeContacts_ok [OF this] obtain buf' where
    w: "writeContacts (contacts s) (numContacts s) cs = Inr buf'"
    and l: "length buf' = length (contacts s)" by blast
  show ?thesis using lt w l assms(1) by (simp add: addContacts_def Let_def)
qed

lemma addContacts_single:
  "numContacts s < maxContacts s \<Longrightarrow> maxContacts s \<le> length (contacts s) \<Longrightarrow>
   addContacts s [c] =
     Inr (s\<lparr>numContacts := numContacts s + 1, contacts := (contacts s)[numContacts s := c]\<rparr>)"
  by (simp add: addContacts_def Let_def)

lemma withContacts_single:
  "numContacts (solverData ctx) < maxContacts (solverData ctx) \<Longrightarrow>
   maxContacts (solverData ctx) \<le> length (contacts (solverData ctx)) \<Longrightarrow>
   withContacts ctx [c] = Inr (appendContact ctx c)"
  by (simp add: withContacts_def addContacts_single appendContact_def)

text \<open>
  Claim C2. The claim: no sequence of \<^verbatim>\<open>addContacts\<close> calls writes at an index at or
  beyond \<open>maxContacts\<close>, and in particular the assert of \<^verbatim>\<open>addContacts\<close> keeps a call of
  more than one contact that starts at index \<open>maxContacts - 1\<close> inside the buffer.
  The code at that input: with a buffer of two cells and one contact counted, a span of
  two contacts passes the assert (\<open>1 < 2\<close>), the count becomes 3 and the copy loop
  writes cell 1 and then reaches index 2, outside the allocation.
\<close>

theorem addContacts_span_overflows:
  "addContacts nearly_full_solver [Contact_zero, Contact_zero] = Inl (OutOfBounds 2)"
  by (simp add: addContacts_def nearly_full_solver_def example_solver_def)

subsection \<open>Narrowphase: dispatch\<close>

text \<open>
  Which branch a candidate pair reaches, by the primitives of its two entities. The
  pair is ordered by raw type first, so (plane, sphere) and (plane, hull) run the
  branch of the swapped pair.
\<close>

lemma dispatch_SphereSphere:
  "primitives (objMgr ctx) (objectID ctx (cand_a cc)) = Sphere rA \<Longrightarrow>
   primitives (objMgr ctx) (objectID ctx (cand_b cc)) = Sphere rB \<Longrightarrow>
   runNarrowphase doSAT doSATPlane ctx cc =
     narrowphase_SphereSphere ctx cc (cand_a cc) (cand_b cc) rA rB
       (position ctx (cand_a cc)) (position ctx (cand_b cc))"
  by (simp add: runNarrowphase_def Let_def NarrowphaseTest_of_def)

lemma dispatch_SpherePlane:
  "primitives (objMgr ctx) (objectID ctx (cand_a cc)) = Sphere rA \<Longrightarrow>
   primitives (objMgr ctx) (objectID ctx (cand_b cc)) = Plane \<Longrightarrow>
   runNarrowphase doSAT doSATPlane ctx cc =
     narrowphase_SpherePlane ctx (cand_a cc) (cand_b cc) rA
       (position ctx (cand_a cc)) (position ctx (cand_b cc))"
  by (simp add: runNarrowphase_def Let_def NarrowphaseTest_of_def)

lemma dispatch_PlaneSphere:
  "primitives (objMgr ctx) (objectID ctx (cand_a cc)) = Plane \<Longrightarrow>
   primitives (objMgr ctx) (objectID ctx (cand_b cc)) = Sphere rA \<Longrightarrow>
   runNarrowphase doSAT doSATPlane ctx cc =
     narrowphase_SpherePlane ctx (cand_b cc) (cand_a cc) rA
       (position ctx (cand_b cc)) (position ctx (cand_a cc))"
  by (simp add: runNarrowphase_def Let_def NarrowphaseTest_of_def)

lemma dispatch_HullHull:
  "primitives (objMgr ctx) (objectID ctx (cand_a cc)) = Hull mA \<Longrightarrow>
   primitives (objMgr ctx) (objectID ctx (cand_b cc)) = Hull mB \<Longrightarrow>
   runNarrowphase doSAT doSATPlane ctx cc =
     narrowphase_HullHull doSAT ctx (cand_a cc) (cand_b cc) mA mB
       (position ctx (cand_a cc)) (position ctx (cand_b cc))"
  by (simp add: runNarrowphase_def Let_def NarrowphaseTest_of_def)

lemma dispatch_HullPlane:
  "primitives (objMgr ctx) (objectID ctx (cand_a cc)) = Hull mA \<Longrightarrow>
   primitives (objMgr ctx) (objectID ctx (cand_b cc)) = Plane \<Longrightarrow>
   runNarrowphase doSAT doSATPlane ctx cc =
     narrowphase_HullPlane doSATPlane ctx (cand_a cc) (cand_b cc) mA
       (position ctx (cand_a cc)) (position ctx (cand_b cc))"
  by (simp add: runNarrowphase_def Let_def NarrowphaseTest_of_def)

lemma dispatch_PlaneHull:
  "primitives (objMgr ctx) (objectID ctx (cand_a cc)) = Plane \<Longrightarrow>
   primitives (objMgr ctx) (objectID ctx (cand_b cc)) = Hull mA \<Longrightarrow>
   runNarrowphase doSAT doSATPlane ctx cc =
     narrowphase_HullPlane doSATPlane ctx (cand_b cc) (cand_a cc) mA
       (position ctx (cand_b cc)) (position ctx (cand_a cc))"
  by (simp add: runNarrowphase_def Let_def NarrowphaseTest_of_def)

lemma dispatch_PlanePlane:
  "primitives (objMgr ctx) (objectID ctx (cand_a cc)) = Plane \<Longrightarrow>
   primitives (objMgr ctx) (objectID ctx (cand_b cc)) = Plane \<Longrightarrow>
   runNarrowphase doSAT doSATPlane ctx cc = Inr ctx"
  by (simp add: runNarrowphase_def Let_def NarrowphaseTest_of_def)

lemma dispatch_SphereHull:
  "primitives (objMgr ctx) (objectID ctx (cand_a cc)) = Sphere r \<Longrightarrow>
   primitives (objMgr ctx) (objectID ctx (cand_b cc)) = Hull m \<Longrightarrow>
   runNarrowphase doSAT doSATPlane ctx cc = Inl AssertFailed"
  by (simp add: runNarrowphase_def Let_def NarrowphaseTest_of_def)

lemma dispatch_HullSphere:
  "primitives (objMgr ctx) (objectID ctx (cand_a cc)) = Hull m \<Longrightarrow>
   primitives (objMgr ctx) (objectID ctx (cand_b cc)) = Sphere r \<Longrightarrow>
   runNarrowphase doSAT doSATPlane ctx cc = Inl AssertFailed"
  by (simp add: runNarrowphase_def Let_def NarrowphaseTest_of_def)

subsection \<open>Narrowphase: unit normals\<close>

lemma sum_sq_div:
  fixes a b c r :: real
  shows "a / r * (a / r) + b / r * (b / r) + c / r * (c / r) = (a * a + b * b + c * c) / (r * r)"
  by (simp add: add_divide_distrib)

lemma unit_normalised:
  assumes pos: "0 < Vector3_length v"
  shows "Vector3_length (sdiv v (Vector3_length v)) = 1"
proof -
  define s where "s = vx v * vx v + vy v * vy v + vz v * vz v"
  have s: "0 < s" using pos by (simp add: Vector3_length_def s_def)
  have "vx v / sqrt s * (vx v / sqrt s) + vy v / sqrt s * (vy v / sqrt s)
        + vz v / sqrt s * (vz v / sqrt s) = s / (sqrt s * sqrt s)"
    unfolding s_def [symmetric] sum_sq_div by (simp only: s_def)
  also have "\<dots> = 1" using s by simp
  finally have "sqrt (vx v / sqrt s * (vx v / sqrt s) + vy v / sqrt s * (vy v / sqrt s)
        + vz v / sqrt s * (vz v / sqrt s)) = 1" by simp
  then show ?thesis unfolding s_def by (simp only: Vector3_length_def sdiv_def Vector3.simps)
qed

lemma rotate_base_unit:
  assumes "Quat_length q = 1"
  shows "Vector3_length (rotateVec q base_normal) = 1"
proof -
  let ?S = "qw q * qw q + qx q * qx q + qy q * qy q + qz q * qz q"
  have "sqrt ?S = 1" using assms by (simp add: Quat_length_def)
  then have S: "?S = 1" by simp
  let ?v = "rotateVec q base_normal"
  have "vx ?v * vx ?v + vy ?v * vy ?v + vz ?v * vz ?v
         = 4 * (qz q * qz q + qw q * qw q) * (?S - 1) + 1"
    by (simp add: rotateVec_def base_normal_def Let_def vadd_def smul_def dot_def cross_def
                  algebra_simps)
  also have "\<dots> = 1" using S by simp
  finally show ?thesis by (simp add: Vector3_length_def)
qed

lemma Quat_id_unit: "Quat_length Quat_id = 1"
  by (simp add: Quat_length_def Quat_id_def)

lemma no_manifold_ok: "manifold_ok no_manifold"
  by (simp add: manifold_ok_def no_manifold_def)

subsection \<open>Narrowphase: the hull/hull meshes\<close>

text \<open>
  Claim C1. The claim: in the hull/hull test each hull's world-space collision mesh is
  built from that hull's own half-edge mesh, transformed by its own entity's scale,
  rotation and position. The code on the pair of hull A (entity 3, one vertex
  \<open>(1, 0, 0)\<close>, at the origin) and hull B (entity 4, two vertices, at \<open>(0, 0, 5)\<close>):
  the mesh built for B holds the one vertex of A's mesh moved by B's transform, and a
  \<^verbatim>\<open>doSAT\<close> that counts the vertices of its second mesh sees one vertex where hull B
  has two.
\<close>

theorem hullHull_meshB_built_from_meshA:
  "hullHullMeshes (example_ctx Vector3_zero) 3 4 hull_mesh_A hull_mesh_B
       Vector3_zero \<lparr>vx = 0, vy = 0, vz = 5\<rparr> =
     (\<lparr>halfEdgeMesh = hull_mesh_A, vertexCount = 1,
       vertices = [\<lparr>vx = 1, vy = 0, vz = 0\<rparr>], center = Vector3_zero\<rparr>,
      \<lparr>halfEdgeMesh = hull_mesh_A, vertexCount = 1,
       vertices = [\<lparr>vx = 1, vy = 0, vz = 5\<rparr>], center = \<lparr>vx = 0, vy = 0, vz = 5\<rparr>\<rparr>)
   \<and> getVertexCount hull_mesh_B = 2
   \<and> runNarrowphase count_B_doSAT (\<lambda>P A. no_manifold) (example_ctx Vector3_zero)
         \<lparr>cand_a = 3, cand_b = 4\<rparr> =
       Inr (appendContact (example_ctx Vector3_zero)
              \<lparr>ref = 3, alt = 4,
               points = Arr4 Vector4_zero Vector4_zero Vector4_zero Vector4_zero,
               numPoints = 1, normal = Vector3_zero, lambdaN = 0\<rparr>)"
proof -
  have meshes:
    "hullHullMeshes (example_ctx Vector3_zero) 3 4 hull_mesh_A hull_mesh_B
       Vector3_zero \<lparr>vx = 0, vy = 0, vz = 5\<rparr> =
     (\<lparr>halfEdgeMesh = hull_mesh_A, vertexCount = 1,
       vertices = [\<lparr>vx = 1, vy = 0, vz = 0\<rparr>], center = Vector3_zero\<rparr>,
      \<lparr>halfEdgeMesh = hull_mesh_A, vertexCount = 1,
       vertices = [\<lparr>vx = 1, vy = 0, vz = 5\<rparr>], center = \<lparr>vx = 0, vy = 0, vz = 5\<rparr>\<rparr>)"
    by (simp add: hullHullMeshes_def makeCollisionMesh_def getVertexCount_def vertex_def
          transformVertex_def hull_mesh_A_def example_ctx_def Quat_id_def Vector3_zero_def
          rotateVec_def vadd_def smul_def vmul_def dot_def cross_def Let_def)
  have count: "getVertexCount hull_mesh_B = 2"
    by (simp add: getVertexCount_def hull_mesh_B_def)
  have a: "primitives (objMgr (example_ctx Vector3_zero))
             (objectID (example_ctx Vector3_zero) (cand_a \<lparr>cand_a = 3, cand_b = 4\<rparr>))
           = Hull hull_mesh_A"
    by (simp add: example_ctx_def example_objMgr_def)
  have b: "primitives (objMgr (example_ctx Vector3_zero))
             (objectID (example_ctx Vector3_zero) (cand_b \<lparr>cand_a = 3, cand_b = 4\<rparr>))
           = Hull hull_mesh_B"
    by (simp add: example_ctx_def example_objMgr_def)
  have pos: "position (example_ctx Vector3_zero) 3 = Vector3_zero"
    "position (example_ctx Vector3_zero) 4 = \<lparr>vx = 0, vy = 0, vz = 5\<rparr>"
    by (simp_all add: example_ctx_def)
  have cap: "numContacts (solverData (example_ctx Vector3_zero))
               < maxContacts (solverData (example_ctx Vector3_zero))"
    "maxContacts (solverData (example_ctx Vector3_zero))
       \<le> length (contacts (solverData (example_ctx Vector3_zero)))"
    by (simp_all add: example_ctx_def example_solver_def)
  have run: "runNarrowphase count_B_doSAT (\<lambda>P A. no_manifold) (example_ctx Vector3_zero)
         \<lparr>cand_a = 3, cand_b = 4\<rparr> =
       Inr (appendContact (example_ctx Vector3_zero)
              \<lparr>ref = 3, alt = 4,
               points = Arr4 Vector4_zero Vector4_zero Vector4_zero Vector4_zero,
               numPoints = 1, normal = Vector3_zero, lambdaN = 0\<rparr>)"
    by (simp add: dispatch_HullHull [OF a b] narrowphase_HullHull_def pos meshes
          count_B_doSAT_def no_manifold_def withContacts_single [OF cap])
  from meshes count run show ?thesis by simp
qed

subsection \<open>Narrowphase: the sphere branches\<close>

text \<open>
  Claim C5. For a candidate pair of two spheres with centres \<open>a\<close>, \<open>b\<close> and radii
  \<open>rA\<close>, \<open>rB\<close>, and a buffer with a free cell: a contact is appended exactly when
  \<open>0 < |b - a| < rA + rB\<close>; it is the one-point contact at the midpoint with depth
  \<open>|b - a| / 2\<close> and normal \<open>(b - a) / |b - a|\<close>; otherwise the context, and with it
  the contact buffer, is returned unchanged.
\<close>

theorem sphereSphere_contact:
  assumes "primitives (objMgr ctx) (objectID ctx (cand_a cc)) = Sphere rA"
      and "primitives (objMgr ctx) (objectID ctx (cand_b cc)) = Sphere rB"
      and "numContacts (solverData ctx) < maxContacts (solverData ctx)"
      and "maxContacts (solverData ctx) \<le> length (contacts (solverData ctx))"
  shows "runNarrowphase doSAT doSATPlane ctx cc =
     (let a = position ctx (cand_a cc); b = position ctx (cand_b cc);
          dist = Vector3_length (vsub b a)
      in if 0 < dist \<and> dist < rA + rB
         then Inr ((appendContact ctx (spec_SphereSphere_contact (cand_a cc) (cand_b cc) a b))
                     \<lparr>collisionEvents := collisionEvents ctx @
                         [\<lparr>ev_a = cand_a cc, ev_b = cand_b cc\<rparr>]\<rparr>)
         else Inr ctx)"
  using assms
  by (simp add: dispatch_SphereSphere [OF assms(1,2)] narrowphase_SphereSphere_def Let_def
        withContacts_single spec_SphereSphere_contact_def appendContact_def)

text \<open>The pair of unit spheres at the origin and at \<open>(1, 0, 0)\<close>.\<close>

theorem sphereSphere_contact_witness:
  "runNarrowphase (\<lambda>A B. no_manifold) (\<lambda>P A. no_manifold) (example_ctx Vector3_zero)
       \<lparr>cand_a = 0, cand_b = 2\<rparr> =
     Inr ((appendContact (example_ctx Vector3_zero) sphere_pair_contact)
            \<lparr>collisionEvents := [\<lparr>ev_a = 0, ev_b = 2\<rparr>]\<rparr>)"
  using sphereSphere_contact [of "example_ctx Vector3_zero" "\<lparr>cand_a = 0, cand_b = 2\<rparr>" 1 1
          "\<lambda>A B. no_manifold" "\<lambda>P A. no_manifold"]
  by (simp add: example_ctx_def example_objMgr_def example_solver_def appendContact_def
        spec_SphereSphere_contact_def sphere_pair_contact_def Vector3_zero_def
        Vector3_length_def vsub_def vadd_def sdiv_def makeVector4_def Let_def)

text \<open>
  Claim C4. For a candidate pair of a sphere \<open>s\<close> of radius \<open>rA\<close> and a plane \<open>p\<close>, in
  either order, and a buffer with a free cell: with \<open>n\<close> the plane's rotation applied
  to \<open>(0, 0, 1)\<close> and \<open>t = n \<cdot> a_pos - n \<cdot> b_pos\<close>, a contact is appended exactly
  when \<open>t < rA\<close>; it is the one-point contact at \<open>a_pos + n * rA\<close> with depth \<open>t\<close> and
  normal \<open>n\<close>, the sphere as \<open>ref\<close> and the plane as \<open>alt\<close>; otherwise the context is
  returned unchanged.
\<close>

theorem spherePlane_contact:
  assumes "(cand_a cc = s \<and> cand_b cc = p) \<or> (cand_a cc = p \<and> cand_b cc = s)"
      and "primitives (objMgr ctx) (objectID ctx s) = Sphere rA"
      and "primitives (objMgr ctx) (objectID ctx p) = Plane"
      and "numContacts (solverData ctx) < maxContacts (solverData ctx)"
      and "maxContacts (solverData ctx) \<le> length (contacts (solverData ctx))"
  shows "runNarrowphase doSAT doSATPlane ctx cc =
     (let a_pos = position ctx s; b_pos = position ctx p;
          n = rotateVec (rotation ctx p) \<lparr>vx = 0, vy = 0, vz = 1\<rparr>;
          t = dot n a_pos - dot n b_pos
      in if t < rA
         then Inr (appendContact ctx (spec_SpherePlane_contact s p a_pos rA n t))
         else Inr ctx)"
proof -
  from assms(1) show ?thesis
  proof
    assume "cand_a cc = s \<and> cand_b cc = p"
    with assms(2,3) have a: "primitives (objMgr ctx) (objectID ctx (cand_a cc)) = Sphere rA"
      and b: "primitives (objMgr ctx) (objectID ctx (cand_b cc)) = Plane"
      and e: "cand_a cc = s" "cand_b cc = p" by simp_all
    show ?thesis using assms(4,5)
      by (simp add: dispatch_SpherePlane [OF a b] e narrowphase_SpherePlane_def Let_def
            withContacts_single spec_SpherePlane_contact_def base_normal_def)
  next
    assume "cand_a cc = p \<and> cand_b cc = s"
    with assms(2,3) have a: "primitives (objMgr ctx) (objectID ctx (cand_a cc)) = Plane"
      and b: "primitives (objMgr ctx) (objectID ctx (cand_b cc)) = Sphere rA"
      and e: "cand_a cc = p" "cand_b cc = s" by simp_all
    show ?thesis using assms(4,5)
      by (simp add: dispatch_PlaneSphere [OF a b] e narrowphase_SpherePlane_def Let_def
            withContacts_single spec_SpherePlane_contact_def base_normal_def)
  qed
qed

text \<open>The plane first and the sphere second, the sphere's centre at height 1/2.\<close>

theorem spherePlane_contact_witness:
  "runNarrowphase (\<lambda>A B. no_manifold) (\<lambda>P A. no_manifold) resting_ctx
       \<lparr>cand_a = 1, cand_b = 0\<rparr> =
     Inr (appendContact resting_ctx resting_contact)"
  using spherePlane_contact [of "\<lparr>cand_a = 1, cand_b = 0\<rparr>" 0 1 resting_ctx 1
          "\<lambda>A B. no_manifold" "\<lambda>P A. no_manifold"]
  by (simp add: resting_ctx_def resting_contact_def example_ctx_def example_objMgr_def
        example_solver_def appendContact_def spec_SpherePlane_contact_def Vector3_zero_def
        Quat_id_def rotateVec_def dot_def cross_def smul_def vadd_def makeVector4_def Let_def)

subsection \<open>Narrowphase: the shape of an appended contact\<close>

lemma withContacts_Inr:
  assumes "withContacts ctx [c] = Inr ctx'"
  shows "ctx' = appendContact ctx c \<and> numContacts (solverData ctx) < length (contacts (solverData ctx))"
  using assms
  by (auto simp: withContacts_def addContacts_def appendContact_def Let_def
           split: if_splits sum.splits)

lemma appendContact_nth:
  "numContacts (solverData ctx) < length (contacts (solverData ctx)) \<Longrightarrow>
   contacts (solverData (appendContact ctx c)) ! numContacts (solverData ctx) = c"
  by (simp add: appendContact_def)

lemma at4_copy: "Arr4 (at4 a 0) (at4 a (Suc 0)) (at4 a 2) (at4 a 3) = a"
  by (cases a) simp

lemma SphereSphere_shape:
  assumes run: "narrowphase_SphereSphere ctx cc ea eb rA rB a b = Inr ctx'"
      and app: "numContacts (solverData ctx') \<noteq> numContacts (solverData ctx)"
  shows "numPoints (contacts (solverData ctx') ! numContacts (solverData ctx)) = 1 \<and>
         Vector3_length (normal (contacts (solverData ctx') ! numContacts (solverData ctx))) = 1 \<and>
         0 \<le> pw (at4 (points (contacts (solverData ctx') ! numContacts (solverData ctx))) 0)"
proof (cases "0 < Vector3_length (vsub b a) \<and> Vector3_length (vsub b a) < rA + rB")
  case False
  with run have "ctx' = ctx" by (auto simp: narrowphase_SphereSphere_def Let_def)
  with app show ?thesis by simp
next
  case True
  let ?c = "spec_SphereSphere_contact ea eb a b"
  from run True obtain ctx1 where w: "withContacts ctx [?c] = Inr ctx1"
    and c': "ctx' = ctx1\<lparr>collisionEvents := collisionEvents ctx1 @
                         [\<lparr>ev_a = cand_a cc, ev_b = cand_b cc\<rparr>]\<rparr>"
    by (auto simp: narrowphase_SphereSphere_def Let_def spec_SphereSphere_contact_def
             split: sum.splits)
  from withContacts_Inr [OF w] have c1: "ctx1 = appendContact ctx ?c"
    and lt: "numContacts (solverData ctx) < length (contacts (solverData ctx))" by simp_all
  have nth: "contacts (solverData ctx') ! numContacts (solverData ctx) = ?c"
    using appendContact_nth [OF lt, of ?c] by (simp add: c' c1)
  from True have "Vector3_length (sdiv (vsub b a) (Vector3_length (vsub b a))) = 1"
    by (simp add: unit_normalised)
  with True show ?thesis
    by (simp add: nth spec_SphereSphere_contact_def makeVector4_def)
qed

lemma SpherePlane_shape:
  assumes run: "narrowphase_SpherePlane ctx ea eb r a b = Inr ctx'"
      and app: "numContacts (solverData ctx') \<noteq> numContacts (solverData ctx)"
      and unit: "Quat_length (rotation ctx eb) = 1"
  shows "numPoints (contacts (solverData ctx') ! numContacts (solverData ctx)) = 1 \<and>
         Vector3_length (normal (contacts (solverData ctx') ! numContacts (solverData ctx))) = 1 \<and>
         pw (at4 (points (contacts (solverData ctx') ! numContacts (solverData ctx))) 0) < r"
proof -
  let ?n = "rotateVec (rotation ctx eb) base_normal"
  let ?t = "dot ?n a - dot ?n b"
  show ?thesis
  proof (cases "?t < r")
    case False
    with run have "ctx' = ctx" by (auto simp: narrowphase_SpherePlane_def Let_def)
    with app show ?thesis by simp
  next
    case True
    let ?c = "spec_SpherePlane_contact ea eb a r ?n ?t"
    from run True have w: "withContacts ctx [?c] = Inr ctx'"
      by (simp add: narrowphase_SpherePlane_def Let_def spec_SpherePlane_contact_def)
    from withContacts_Inr [OF w] have c1: "ctx' = appendContact ctx ?c"
      and lt: "numContacts (solverData ctx) < length (contacts (solverData ctx))" by simp_all
    have nth: "contacts (solverData ctx') ! numContacts (solverData ctx) = ?c"
      using appendContact_nth [OF lt, of ?c] by (simp add: c1)
    from True rotate_base_unit [OF unit] show ?thesis
      by (simp add: nth spec_SpherePlane_contact_def makeVector4_def)
  qed
qed

lemma manifold_contact_shape:
  assumes w: "withContacts ctx
                [\<lparr>ref = r, alt = a,
                  points = Arr4 (at4 (contactPoints m) 0) (at4 (contactPoints m) 1)
                                (at4 (contactPoints m) 2) (at4 (contactPoints m) 3),
                  numPoints = numContactPoints m, normal = manifold_normal m,
                  lambdaN = 0\<rparr>] = Inr ctx'"
      and pos: "0 < numContactPoints m"
      and ok: "manifold_ok m"
  shows "1 \<le> numPoints (contacts (solverData ctx') ! numContacts (solverData ctx)) \<and>
         numPoints (contacts (solverData ctx') ! numContacts (solverData ctx)) \<le> 4 \<and>
         Vector3_length (normal (contacts (solverData ctx') ! numContacts (solverData ctx))) = 1 \<and>
         (\<forall>i < numPoints (contacts (solverData ctx') ! numContacts (solverData ctx)).
            0 \<le> pw (at4 (points (contacts (solverData ctx') ! numContacts (solverData ctx))) i))"
proof -
  let ?c = "\<lparr>ref = r, alt = a, points = contactPoints m,
             numPoints = numContactPoints m, normal = manifold_normal m, lambdaN = 0\<rparr>"
  from w have w': "withContacts ctx [?c] = Inr ctx'" by (simp add: at4_copy)
  from withContacts_Inr [OF w'] have c1: "ctx' = appendContact ctx ?c"
    and lt: "numContacts (solverData ctx) < length (contacts (solverData ctx))" by simp_all
  have nth: "contacts (solverData ctx') ! numContacts (solverData ctx) = ?c"
    using appendContact_nth [OF lt, of ?c] by (simp add: c1)
  from pos ok show ?thesis by (simp add: nth manifold_ok_def)
qed

lemma HullHull_shape:
  assumes run: "narrowphase_HullHull doSAT ctx ea eb mA mB a b = Inr ctx'"
      and app: "numContacts (solverData ctx') \<noteq> numContacts (solverData ctx)"
      and ok: "\<And>A B. manifold_ok (doSAT A B)"
  shows "1 \<le> numPoints (contacts (solverData ctx') ! numContacts (solverData ctx)) \<and>
         numPoints (contacts (solverData ctx') ! numContacts (solverData ctx)) \<le> 4 \<and>
         Vector3_length (normal (contacts (solverData ctx') ! numContacts (solverData ctx))) = 1 \<and>
         (\<forall>i < numPoints (contacts (solverData ctx') ! numContacts (solverData ctx)).
            0 \<le> pw (at4 (points (contacts (solverData ctx') ! numContacts (solverData ctx))) i))"
proof -
  obtain A B where AB: "hullHullMeshes ctx ea eb mA mB a b = (A, B)" by (cases "hullHullMeshes ctx ea eb mA mB a b")
  show ?thesis
  proof (cases "0 < numContactPoints (doSAT A B)")
    case False
    with run AB have "ctx' = ctx" by (simp add: narrowphase_HullHull_def Let_def)
    with app show ?thesis by simp
  next
    case True
    with run AB show ?thesis
      by (intro manifold_contact_shape [OF _ True ok])
         (simp add: narrowphase_HullHull_def Let_def)
  qed
qed

lemma HullPlane_shape:
  assumes run: "narrowphase_HullPlane doSATPlane ctx ea eb mA a b = Inr ctx'"
      and app: "numContacts (solverData ctx') \<noteq> numContacts (solverData ctx)"
      and ok: "\<And>P A. manifold_ok (doSATPlane P A)"
  shows "1 \<le> numPoints (contacts (solverData ctx') ! numContacts (solverData ctx)) \<and>
         numPoints (contacts (solverData ctx') ! numContacts (solverData ctx)) \<le> 4 \<and>
         Vector3_length (normal (contacts (solverData ctx') ! numContacts (solverData ctx))) = 1 \<and>
         (\<forall>i < numPoints (contacts (solverData ctx') ! numContacts (solverData ctx)).
            0 \<le> pw (at4 (points (contacts (solverData ctx') ! numContacts (solverData ctx))) i))"
proof -
  let ?m = "doSATPlane \<lparr>plane_point = b, plane_normal = rotateVec (rotation ctx eb) base_normal\<rparr>
              (makeCollisionMesh ctx mA ea a)"
  show ?thesis
  proof (cases "0 < numContactPoints ?m")
    case False
    with run have "ctx' = ctx" by (simp add: narrowphase_HullPlane_def Let_def)
    with app show ?thesis by simp
  next
    case True
    with run show ?thesis
      by (intro manifold_contact_shape [OF _ True ok])
         (simp add: narrowphase_HullPlane_def Let_def)
  qed
qed

lemma example_sphereSphere_run:
  "runNarrowphase (\<lambda>A B. no_manifold) (\<lambda>P A. no_manifold) (example_ctx Vector3_zero)
       \<lparr>cand_a = 0, cand_b = 2\<rparr> =
     Inr ((appendContact (example_ctx Vector3_zero) sphere_pair_contact)
            \<lparr>collisionEvents := [\<lparr>ev_a = 0, ev_b = 2\<rparr>]\<rparr>)"
  by (simp add: runNarrowphase_def NarrowphaseTest_of_def narrowphase_SphereSphere_def
        withContacts_def addContacts_def appendContact_def sphere_pair_contact_def
        example_ctx_def example_objMgr_def example_solver_def Vector3_zero_def Vector3_length_def
        vsub_def vadd_def sdiv_def makeVector4_def Let_def)

text \<open>
  Claim C3, the claim as stated fails. The claim: every contact the narrowphase appends
  has \<open>numPoints\<close> in \<open>[1, 4]\<close>, a unit normal and no negative depth, and in particular
  the sphere/plane branch never stores a negative depth \<open>t\<close>. The code on a unit
  sphere whose centre is one unit below the plane: \<open>t = - 1 < 1\<close>, the contact is
  appended and its stored depth is \<open>- 1\<close>.
\<close>

theorem spherePlane_negative_depth:
  "runNarrowphase (\<lambda>A B. no_manifold) (\<lambda>P A. no_manifold) below_plane_ctx
       \<lparr>cand_a = 0, cand_b = 1\<rparr> =
     Inr (appendContact below_plane_ctx below_plane_contact)
   \<and> contacts (solverData (appendContact below_plane_ctx below_plane_contact)) ! 0
       = below_plane_contact
   \<and> pw (at4 (points below_plane_contact) 0) < 0"
  by (simp add: runNarrowphase_def NarrowphaseTest_of_def narrowphase_SpherePlane_def
        withContacts_def addContacts_def appendContact_def base_normal_def
        below_plane_ctx_def below_plane_contact_def example_ctx_def example_objMgr_def
        example_solver_def Vector3_zero_def Quat_id_def rotateVec_def dot_def cross_def
        smul_def vadd_def makeVector4_def Let_def)

text \<open>
  Claim C3, amended. Let every rotation be a unit quaternion and let \<^verbatim>\<open>doSAT\<close> and
  \<^verbatim>\<open>doSATPlane\<close> return manifolds with at most four points, a unit normal and no
  negative depth. Then every contact the narrowphase appends has \<open>numPoints\<close> in
  \<open>[1, 4]\<close> and a unit normal; its depths are not negative, except in the sphere/plane
  branch, where the one stored depth is the signed distance \<open>t\<close>, which is below the
  sphere's radius and has no lower bound.
\<close>

theorem narrowphase_contact_shape:
  assumes run: "runNarrowphase doSAT doSATPlane ctx cc = Inr ctx'"
      and app: "numContacts (solverData ctx') \<noteq> numContacts (solverData ctx)"
      and unit: "\<And>e. Quat_length (rotation ctx e) = 1"
      and sat: "\<And>A B. manifold_ok (doSAT A B)"
      and satp: "\<And>P A. manifold_ok (doSATPlane P A)"
  shows "1 \<le> numPoints (contacts (solverData ctx') ! numContacts (solverData ctx)) \<and>
         numPoints (contacts (solverData ctx') ! numContacts (solverData ctx)) \<le> 4 \<and>
         Vector3_length (normal (contacts (solverData ctx') ! numContacts (solverData ctx))) = 1 \<and>
         (case spherePlane_radius (primitives (objMgr ctx) (objectID ctx (cand_a cc)))
                                  (primitives (objMgr ctx) (objectID ctx (cand_b cc))) of
            Some r \<Rightarrow>
              pw (at4 (points (contacts (solverData ctx') ! numContacts (solverData ctx))) 0) < r
          | None \<Rightarrow>
              (\<forall>i < numPoints (contacts (solverData ctx') ! numContacts (solverData ctx)).
                 0 \<le> pw (at4 (points (contacts (solverData ctx') ! numContacts (solverData ctx))) i)))"
proof (cases "primitives (objMgr ctx) (objectID ctx (cand_a cc))")
  case a: (Sphere rA)
  show ?thesis
  proof (cases "primitives (objMgr ctx) (objectID ctx (cand_b cc))")
    case b: (Sphere rB)
    from SphereSphere_shape [OF run [unfolded dispatch_SphereSphere [OF a b]] app]
    show ?thesis by (simp add: a b)
  next
    case b: (Hull mB)
    from run show ?thesis by (simp add: dispatch_SphereHull [OF a b])
  next
    case b: Plane
    from SpherePlane_shape [OF run [unfolded dispatch_SpherePlane [OF a b]] app unit]
    show ?thesis by (simp add: a b)
  qed
next
  case a: (Hull mA)
  show ?thesis
  proof (cases "primitives (objMgr ctx) (objectID ctx (cand_b cc))")
    case b: (Sphere rB)
    from run show ?thesis by (simp add: dispatch_HullSphere [OF a b])
  next
    case b: (Hull mB)
    from HullHull_shape [OF run [unfolded dispatch_HullHull [OF a b]] app sat]
    show ?thesis by (simp add: a b)
  next
    case b: Plane
    from HullPlane_shape [OF run [unfolded dispatch_HullPlane [OF a b]] app satp]
    show ?thesis by (simp add: a b)
  qed
next
  case a: Plane
  show ?thesis
  proof (cases "primitives (objMgr ctx) (objectID ctx (cand_b cc))")
    case b: (Sphere rB)
    from SpherePlane_shape [OF run [unfolded dispatch_PlaneSphere [OF a b]] app unit]
    show ?thesis by (simp add: a b)
  next
    case b: (Hull mB)
    from HullPlane_shape [OF run [unfolded dispatch_PlaneHull [OF a b]] app satp]
    show ?thesis by (simp add: a b)
  next
    case b: Plane
    from run app show ?thesis by (simp add: dispatch_PlanePlane [OF a b])
  qed
qed

theorem narrowphase_contact_shape_witness:
  "runNarrowphase (\<lambda>A B. no_manifold) (\<lambda>P A. no_manifold) (example_ctx Vector3_zero)
       \<lparr>cand_a = 0, cand_b = 2\<rparr> =
     Inr ((appendContact (example_ctx Vector3_zero) sphere_pair_contact)
            \<lparr>collisionEvents := [\<lparr>ev_a = 0, ev_b = 2\<rparr>]\<rparr>)
   \<and> numContacts (solverData ((appendContact (example_ctx Vector3_zero) sphere_pair_contact)
            \<lparr>collisionEvents := [\<lparr>ev_a = 0, ev_b = 2\<rparr>]\<rparr>))
       \<noteq> numContacts (solverData (example_ctx Vector3_zero))
   \<and> manifold_ok no_manifold
   \<and> 1 \<le> numPoints sphere_pair_contact \<and> numPoints sphere_pair_contact \<le> 4
   \<and> Vector3_length (normal sphere_pair_contact) = 1
   \<and> 0 \<le> pw (at4 (points sphere_pair_contact) 0)"
proof -
  let ?ctx' = "(appendContact (example_ctx Vector3_zero) sphere_pair_contact)
                 \<lparr>collisionEvents := [\<lparr>ev_a = 0, ev_b = 2\<rparr>]\<rparr>"
  have app: "numContacts (solverData ?ctx') \<noteq> numContacts (solverData (example_ctx Vector3_zero))"
    by (simp add: appendContact_def)
  have unit: "\<And>e. Quat_length (rotation (example_ctx Vector3_zero) e) = 1"
    by (simp add: example_ctx_def Quat_id_unit)
  have nth: "contacts (solverData ?ctx') ! numContacts (solverData (example_ctx Vector3_zero))
               = sphere_pair_contact"
    by (simp add: appendContact_def example_ctx_def example_solver_def)
  have prims: "spherePlane_radius
      (primitives (objMgr (example_ctx Vector3_zero))
         (objectID (example_ctx Vector3_zero) (cand_a \<lparr>cand_a = 0, cand_b = 2\<rparr>)))
      (primitives (objMgr (example_ctx Vector3_zero))
         (objectID (example_ctx Vector3_zero) (cand_b \<lparr>cand_a = 0, cand_b = 2\<rparr>))) = None"
    by (simp add: example_ctx_def example_objMgr_def)
  have one: "numPoints sphere_pair_contact = 1" by (simp add: sphere_pair_contact_def)
  from narrowphase_contact_shape [OF example_sphereSphere_run app unit no_manifold_ok
         no_manifold_ok, unfolded nth prims]
  show ?thesis using example_sphereSphere_run app no_manifold_ok by (simp add: one)
qed

subsection \<open>Narrowphase: collision events\<close>

text \<open>
  Claim C7. The claim: whenever the narrowphase appends a contact for a candidate pair,
  in any branch, a \<^verbatim>\<open>CollisionEvent\<close> recording the pair is created as well. The code
  on a unit sphere whose centre is half a unit above the plane: the sphere/plane branch
  appends the contact (the count goes from 0 to 1) and the list of collision events
  stays empty; only the sphere/sphere branch creates an event.
\<close>

theorem spherePlane_contact_without_event:
  "runNarrowphase (\<lambda>A B. no_manifold) (\<lambda>P A. no_manifold) resting_ctx
       \<lparr>cand_a = 0, cand_b = 1\<rparr> =
     Inr (appendContact resting_ctx resting_contact)
   \<and> numContacts (solverData resting_ctx) = 0
   \<and> numContacts (solverData (appendContact resting_ctx resting_contact)) = 1
   \<and> collisionEvents (appendContact resting_ctx resting_contact) = []"
  by (simp add: runNarrowphase_def NarrowphaseTest_of_def narrowphase_SpherePlane_def
        withContacts_def addContacts_def appendContact_def base_normal_def
        resting_ctx_def resting_contact_def example_ctx_def example_objMgr_def
        example_solver_def Vector3_zero_def Quat_id_def rotateVec_def dot_def cross_def
        smul_def vadd_def makeVector4_def Let_def)

subsection \<open>Counted loops: invariants, totality and folds\<close>

lemma forLoop_invariant:
  assumes "forLoop i n body s = Inr s'"
      and "P s"
      and "\<And>j t t'. P t \<Longrightarrow> body j t = Inr t' \<Longrightarrow> P t'"
  shows "P s'"
  using assms
proof (induction i n body s rule: forLoop.induct)
  case (1 i n body s)
  show ?case
  proof (cases "i < n")
    case False
    with "1.prems"(1,2) show ?thesis by (simp add: forLoop.simps [of i n body s])
  next
    case True
    with "1.prems"(1) obtain t where b: "body i s = Inr t"
      and rest: "forLoop (Suc i) n body t = Inr s'"
      by (auto simp: forLoop.simps [of i n body s] split: sum.splits)
    from "1.prems"(3) [OF "1.prems"(2) b] have "P t" .
    from "1.IH" [OF True b rest this "1.prems"(3)] show ?thesis .
  qed
qed

lemma forLoop_total:
  assumes "P s"
      and "\<And>j t. i \<le> j \<Longrightarrow> j < n \<Longrightarrow> P t \<Longrightarrow> \<exists>t'. body j t = Inr t' \<and> P t'"
  shows "\<exists>s'. forLoop i n body s = Inr s' \<and> P s'"
  using assms
proof (induction i n body s rule: forLoop.induct)
  case (1 i n body s)
  show ?case
  proof (cases "i < n")
    case False
    with "1.prems"(1) show ?thesis by (simp add: forLoop.simps [of i n body s])
  next
    case True
    from "1.prems"(2) [OF le_refl True "1.prems"(1)] obtain t where
      b: "body i s = Inr t" and Pt: "P t" by blast
    have step: "\<And>j u. Suc i \<le> j \<Longrightarrow> j < n \<Longrightarrow> P u \<Longrightarrow> \<exists>u'. body j u = Inr u' \<and> P u'"
      using "1.prems"(2) by (simp add: Suc_leD)
    from "1.IH" [OF True b Pt step] obtain s' where
      "forLoop (Suc i) n body t = Inr s'" and "P s'" by blast
    with True b show ?thesis by (simp add: forLoop.simps [of i n body s])
  qed
qed

lemma foldE_append:
  "foldE f (xs @ ys) s = (case foldE f xs s of Inl e \<Rightarrow> Inl e | Inr s' \<Rightarrow> foldE f ys s')"
  by (induction xs arbitrary: s) (auto split: sum.splits)

lemma foldE_cong_set:
  "(\<And>x t. x \<in> set xs \<Longrightarrow> f x t = f2 x t) \<Longrightarrow> foldE f xs s = foldE f2 xs s"
  by (induction xs arbitrary: s) (auto split: sum.splits)

lemma foldE_skip:
  "(\<And>x t. x \<in> set xs \<Longrightarrow> f x t = Inr t) \<Longrightarrow> foldE f xs s = Inr s"
  by (induction xs arbitrary: s) auto

lemma forLoop_foldE: "forLoop i n body s = foldE body [i..<n] s"
proof (induction i n body s rule: forLoop.induct)
  case (1 i n body s)
  show ?case
  proof (cases "i < n")
    case False
    then show ?thesis by (simp add: forLoop.simps [of i n body s])
  next
    case True
    then have u: "[i..<n] = i # [Suc i..<n]" by (simp add: upt_conv_Cons)
    show ?thesis
    proof (cases "body i s")
      case (Inl e)
      with True show ?thesis by (simp add: forLoop.simps [of i n body s] u)
    next
      case (Inr t)
      with True "1.IH" [OF True Inr] show ?thesis
        by (simp add: forLoop.simps [of i n body s] u)
    qed
  qed
qed

lemma points_loop_foldE:
  "forLoop 0 4 (\<lambda>i st. if i \<ge> np then Inr st else f i st) s = foldE f [0..<min np 4] s"
proof -
  let ?body = "\<lambda>i st. if i \<ge> np then Inr st else f i st"
  have split: "[0..<4] = [0..<min np 4] @ [min np 4..<4]"
    by (metis le_add_diff_inverse min.cobounded2 upt_add_eq_append zero_le)
  have first: "foldE ?body [0..<min np 4] s = foldE f [0..<min np 4] s"
    by (rule foldE_cong_set) auto
  have rest: "\<And>t. foldE ?body [min np 4..<4] t = Inr t"
    by (rule foldE_skip) auto
  show ?thesis
    unfolding forLoop_foldE split foldE_append first
    by (simp add: rest split: sum.splits)
qed

subsection \<open>Small facts of the vector and quaternion algebra\<close>

lemma vadd_smul_zero: "vadd x (smul 0 p) = x"
  by (simp add: vadd_def smul_def)

lemma vsub_smul_zero: "vsub x (smul 0 p) = x"
  by (simp add: vsub_def smul_def)

lemma vsub_zero_left: "vsub Vector3_zero x = vneg x"
  by (simp add: vsub_def vneg_def Vector3_zero_def)

lemma sdiv_vsub_vadd:
  assumes "s \<noteq> 0"
  shows "sdiv (vsub (vadd p (smul s w)) p) s = w"
  using assms by (simp add: sdiv_def vsub_def vadd_def smul_def)

lemma Quat_normalize_unit:
  assumes "Quat_length q = 1"
  shows "Quat_normalize q = Inr q"
  using assms by (simp add: Quat_normalize_def Let_def)

lemma zero_spin_rotation:
  "Quat_add q (Quat_mul (fromAngularVec (smul a (vadd Vector3_zero
      (smul b (multDiag d (vsub Vector3_zero (cross Vector3_zero w))))))) q) = q"
  by (simp add: Quat_add_def Quat_mul_def fromAngularVec_def smul_def vadd_def vsub_def
        multDiag_def cross_def Vector3_zero_def)

lemma rotateVec_id: "rotateVec Quat_id v = v"
  by (simp add: rotateVec_def Quat_id_def Let_def vadd_def smul_def dot_def cross_def)

lemma Quat_inv_id: "Quat_inv Quat_id = Quat_id"
  by (simp add: Quat_inv_def Quat_id_def)

text \<open>
  The norm of \<open>q \<plusminus> (0, v) * q\<close> is \<open>sqrt (1 + |v|\<^sup>2)\<close> times the norm of \<open>q\<close>: the
  rotation update of the integrator and of the positional solve never produces the
  zero quaternion from a non-zero one, and its normalisation divides by a non-zero
  length.
\<close>

lemma Quat_length_nonzero_iff:
  "Quat_length q \<noteq> 0 \<longleftrightarrow> qw q * qw q + qx q * qx q + qy q * qy q + qz q * qz q \<noteq> 0"
  by (simp add: Quat_length_def)

lemma Quat_sq_add_spin:
  "qw (Quat_add q (Quat_mul (fromAngularVec v) q)) * qw (Quat_add q (Quat_mul (fromAngularVec v) q))
   + qx (Quat_add q (Quat_mul (fromAngularVec v) q)) * qx (Quat_add q (Quat_mul (fromAngularVec v) q))
   + qy (Quat_add q (Quat_mul (fromAngularVec v) q)) * qy (Quat_add q (Quat_mul (fromAngularVec v) q))
   + qz (Quat_add q (Quat_mul (fromAngularVec v) q)) * qz (Quat_add q (Quat_mul (fromAngularVec v) q))
   = (1 + (vx v * vx v + vy v * vy v + vz v * vz v))
     * (qw q * qw q + qx q * qx q + qy q * qy q + qz q * qz q)"
  by (simp add: Quat_add_def Quat_mul_def fromAngularVec_def algebra_simps)

lemma Quat_sq_sub_spin:
  "qw (Quat_sub q (Quat_mul (fromAngularVec v) q)) * qw (Quat_sub q (Quat_mul (fromAngularVec v) q))
   + qx (Quat_sub q (Quat_mul (fromAngularVec v) q)) * qx (Quat_sub q (Quat_mul (fromAngularVec v) q))
   + qy (Quat_sub q (Quat_mul (fromAngularVec v) q)) * qy (Quat_sub q (Quat_mul (fromAngularVec v) q))
   + qz (Quat_sub q (Quat_mul (fromAngularVec v) q)) * qz (Quat_sub q (Quat_mul (fromAngularVec v) q))
   = (1 + (vx v * vx v + vy v * vy v + vz v * vz v))
     * (qw q * qw q + qx q * qx q + qy q * qy q + qz q * qz q)"
  by (simp add: Quat_sub_def Quat_mul_def fromAngularVec_def algebra_simps)

lemma spin_factor_pos: "0 < 1 + (a * a + b * b + c * (c::real))"
proof -
  have "0 \<le> a * a" "0 \<le> b * b" "0 \<le> c * c" by simp_all
  then show ?thesis by linarith
qed

lemma Quat_add_spin_nonzero:
  assumes "Quat_length q \<noteq> 0"
  shows "Quat_length (Quat_add q (Quat_mul (fromAngularVec v) q)) \<noteq> 0"
proof -
  from assms have "qw q * qw q + qx q * qx q + qy q * qy q + qz q * qz q \<noteq> 0"
    unfolding Quat_length_nonzero_iff .
  with spin_factor_pos [of "vx v" "vy v" "vz v"]
  have "(1 + (vx v * vx v + vy v * vy v + vz v * vz v))
     * (qw q * qw q + qx q * qx q + qy q * qy q + qz q * qz q) \<noteq> 0" by simp
  then show ?thesis unfolding Quat_length_nonzero_iff Quat_sq_add_spin .
qed

lemma Quat_sub_spin_nonzero:
  assumes "Quat_length q \<noteq> 0"
  shows "Quat_length (Quat_sub q (Quat_mul (fromAngularVec v) q)) \<noteq> 0"
proof -
  from assms have "qw q * qw q + qx q * qx q + qy q * qy q + qz q * qz q \<noteq> 0"
    unfolding Quat_length_nonzero_iff .
  with spin_factor_pos [of "vx v" "vy v" "vz v"]
  have "(1 + (vx v * vx v + vy v * vy v + vz v * vz v))
     * (qw q * qw q + qx q * qx q + qy q * qy q + qz q * qz q) \<noteq> 0" by simp
  then show ?thesis unfolding Quat_length_nonzero_iff Quat_sq_sub_spin .
qed

lemma sum_sq_div4:
  fixes a b c d r :: real
  shows "a / r * (a / r) + b / r * (b / r) + c / r * (c / r) + d / r * (d / r)
         = (a * a + b * b + c * c + d * d) / (r * r)"
  by (simp add: add_divide_distrib)

lemma Quat_normalize_total:
  assumes nz: "Quat_length q \<noteq> 0"
  shows "\<exists>q'. Quat_normalize q = Inr q' \<and> Quat_length q' = 1"
proof -
  define s where "s = qw q * qw q + qx q * qx q + qy q * qy q + qz q * qz q"
  have l: "Quat_length q = sqrt s" by (simp add: Quat_length_def s_def)
  have s0: "0 \<le> s" unfolding s_def by simp
  from nz l have "s \<noteq> 0" by simp
  with s0 have s: "0 < s" by simp
  let ?q' = "\<lparr>qw = qw q / sqrt s, qx = qx q / sqrt s, qy = qy q / sqrt s, qz = qz q / sqrt s\<rparr>"
  have "qw q / sqrt s * (qw q / sqrt s) + qx q / sqrt s * (qx q / sqrt s)
        + qy q / sqrt s * (qy q / sqrt s) + qz q / sqrt s * (qz q / sqrt s) = s / (sqrt s * sqrt s)"
    unfolding sum_sq_div4 by (simp only: s_def)
  also have "\<dots> = 1" using s by simp
  finally have one: "Quat_length ?q' = 1" by (simp add: Quat_length_def)
  have "Quat_normalize q = Inr ?q'" using nz l by (simp add: Quat_normalize_def Let_def)
  with one show ?thesis by blast
qed

lemma Quat_normalize_Inr_unit:
  assumes "Quat_normalize q = Inr q'"
  shows "Quat_length q' = 1"
proof -
  from assms have "Quat_length q \<noteq> 0"
    by (auto simp: Quat_normalize_def Let_def split: if_splits)
  from Quat_normalize_total [OF this] assms show ?thesis by auto
qed

lemma spin_normalizes:
  assumes "Quat_length q \<noteq> 0"
  shows "Quat_normalize (Quat_add q (Quat_mul (fromAngularVec v) q)) \<noteq> Inl err"
  using Quat_normalize_total [OF Quat_add_spin_nonzero [OF assms, of v]] by auto

lemma substepRigidBodies_returns:
  assumes "Quat_length (rotation ctx e) \<noteq> 0"
  shows "\<exists>ctx'. substepRigidBodies ctx e = Inr ctx'"
  using spin_normalizes [OF assms]
  by (auto simp: substepRigidBodies_def Let_def split: sum.splits)

subsection \<open>The substep integrator writes the angular velocity only\<close>

text \<open>
  Claim C10. For every body, static or not, whose rotation is not the zero quaternion,
  whatever its linear and angular velocity: the substep returns, leaves
  \<open>Velocity.linear\<close> as it was and stores in \<open>Velocity.angular\<close> the old angular
  velocity advanced by the gyroscopic term \<open>h * invI \<odot> (- \<omega> \<times> (I \<odot> \<omega>))\<close>, whatever
  the inverse mass. Gravity enters only the local copy that advances the position
  (and only when \<open>invMass > 0\<close>); the velocities of the other bodies are untouched; and
  the gravity term reaches the stored linear velocity when \<^verbatim>\<open>setVelocities\<close> runs on
  the substepped body with \<open>h \<noteq> 0\<close>: it then stores \<open>v + h * g\<close>.
\<close>

theorem substep_writes_angular_only:
  assumes rot: "Quat_length (rotation ctx e) \<noteq> 0"
  shows "\<exists>ctx'. substepRigidBodies ctx e = Inr ctx'
       \<and> linear (velocity ctx' e) = linear (velocity ctx e)
       \<and> angular (velocity ctx' e) =
           spec_gyroscopic_update (h (solverData ctx))
             (invInertiaTensor (metadata (objMgr ctx) (objectID ctx e)))
             (angular (velocity ctx e))
       \<and> position ctx' e =
           vadd (position ctx e)
             (smul (h (solverData ctx))
                (if 0 < invMass (metadata (objMgr ctx) (objectID ctx e))
                 then vadd (linear (velocity ctx e))
                        (smul (h (solverData ctx)) (g (solverData ctx)))
                 else linear (velocity ctx e)))
       \<and> (\<forall>e'. e' \<noteq> e \<longrightarrow> velocity ctx' e' = velocity ctx e')
       \<and> (h (solverData ctx) \<noteq> 0 \<longrightarrow>
            (\<exists>ctx''. setVelocities ctx' e = Inr ctx'' \<and>
               linear (velocity ctx'' e) =
                 (if 0 < invMass (metadata (objMgr ctx) (objectID ctx e))
                  then vadd (linear (velocity ctx e))
                         (smul (h (solverData ctx)) (g (solverData ctx)))
                  else linear (velocity ctx e))))"
proof -
  let ?w = "if 0 < invMass (metadata (objMgr ctx) (objectID ctx e))
            then vadd (linear (velocity ctx e)) (smul (h (solverData ctx)) (g (solverData ctx)))
            else linear (velocity ctx e)"
  from substepRigidBodies_returns [OF rot] obtain ctx' where
    run: "substepRigidBodies ctx e = Inr ctx'" by blast
  from run have lin: "linear (velocity ctx' e) = linear (velocity ctx e)"
    by (auto simp: substepRigidBodies_def Let_def split: sum.splits)
  from run have ang: "angular (velocity ctx' e) =
           spec_gyroscopic_update (h (solverData ctx))
             (invInertiaTensor (metadata (objMgr ctx) (objectID ctx e)))
             (angular (velocity ctx e))"
    by (auto simp: substepRigidBodies_def Let_def spec_gyroscopic_update_def inertia_of_def
          vsub_zero_left split: sum.splits)
  from run have pos: "position ctx' e = vadd (position ctx e) (smul (h (solverData ctx)) ?w)"
    by (auto simp: substepRigidBodies_def Let_def split: sum.splits)
  from run have others: "\<forall>e'. e' \<noteq> e \<longrightarrow> velocity ctx' e' = velocity ctx e'"
    by (auto simp: substepRigidBodies_def Let_def split: sum.splits)
  from run have prev: "prevPosition (prevState ctx' e) = position ctx e"
    and hh: "h (solverData ctx') = h (solverData ctx)"
    by (auto simp: substepRigidBodies_def Let_def split: sum.splits)
  have later: "h (solverData ctx) \<noteq> 0 \<longrightarrow>
      (\<exists>ctx''. setVelocities ctx' e = Inr ctx'' \<and> linear (velocity ctx'' e) = ?w)"
  proof
    assume h0: "h (solverData ctx) \<noteq> 0"
    then obtain ctx'' where sv: "setVelocities ctx' e = Inr ctx''"
      by (auto simp: setVelocities_def Let_def hh)
    from sv h0 have "linear (velocity ctx'' e) =
        sdiv (vsub (position ctx' e) (prevPosition (prevState ctx' e))) (h (solverData ctx))"
      by (auto simp: setVelocities_def Let_def hh split: if_splits)
    also have "\<dots> = ?w" unfolding pos prev by (rule sdiv_vsub_vadd [OF h0])
    finally have "linear (velocity ctx'' e) = ?w" .
    with sv show "\<exists>ctx''. setVelocities ctx' e = Inr ctx'' \<and> linear (velocity ctx'' e) = ?w"
      by blast
  qed
  from run lin ang pos others later show ?thesis by blast
qed

text \<open>
  The body 0 of \<open>spin_ctx\<close>, with inverse inertia \<open>(1, 1/2, 1/4)\<close>, linear velocity
  \<open>(1, 0, 0)\<close> and angular velocity \<open>(1, 1, 0)\<close>, \<open>h = 1\<close> and gravity \<open>(0, 0, - 10)\<close>:
  the gyroscopic term is \<open>(0, 0, - 1/4)\<close>, the stored linear velocity stays
  \<open>(1, 0, 0)\<close> while the position goes to \<open>(1, 0, - 10)\<close>, and \<^verbatim>\<open>setVelocities\<close> then
  stores \<open>(1, 0, - 10)\<close>.
\<close>

theorem substep_writes_angular_only_witness:
  "Quat_length (rotation spin_ctx 0) \<noteq> 0
   \<and> linear (velocity spin_ctx 0) = \<lparr>vx = 1, vy = 0, vz = 0\<rparr>
   \<and> angular (velocity spin_ctx 0) = \<lparr>vx = 1, vy = 1, vz = 0\<rparr>
   \<and> velocity_after (substepRigidBodies spin_ctx 0) 0 =
       Some \<lparr>linear = \<lparr>vx = 1, vy = 0, vz = 0\<rparr>, angular = \<lparr>vx = 1, vy = 1, vz = - 1/4\<rparr>\<rparr>
   \<and> position_after (substepRigidBodies spin_ctx 0) 0 = Some \<lparr>vx = 1, vy = 0, vz = - 10\<rparr>
   \<and> velocity_after (substepRigidBodies spin_ctx 0) 1 = Some (velocity spin_ctx 1)
   \<and> h (solverData spin_ctx) \<noteq> 0
   \<and> (\<exists>c c2. substepRigidBodies spin_ctx 0 = Inr c \<and> setVelocities c 0 = Inr c2
              \<and> linear (velocity c2 0) = \<lparr>vx = 1, vy = 0, vz = - 10\<rparr>)"
proof -
  have rot: "Quat_length (rotation spin_ctx 0) \<noteq> 0"
    by (simp add: spin_ctx_def example_ctx_def Quat_id_unit)
  have lin0: "linear (velocity spin_ctx 0) = \<lparr>vx = 1, vy = 0, vz = 0\<rparr>"
    and ang0: "angular (velocity spin_ctx 0) = \<lparr>vx = 1, vy = 1, vz = 0\<rparr>"
    by (simp_all add: spin_ctx_def)
  have md: "invMass (metadata (objMgr spin_ctx) (objectID spin_ctx 0)) = 1"
    "invInertiaTensor (metadata (objMgr spin_ctx) (objectID spin_ctx 0))
       = \<lparr>vx = 1, vy = 1/2, vz = 1/4\<rparr>"
    by (simp_all add: spin_ctx_def oblong_metadata_def)
  have sd: "h (solverData spin_ctx) = 1"
    "g (solverData spin_ctx) = \<lparr>vx = 0, vy = 0, vz = - 10\<rparr>"
    by (simp_all add: spin_ctx_def example_ctx_def example_solver_def)
  have p0: "position spin_ctx 0 = Vector3_zero"
    by (simp add: spin_ctx_def example_ctx_def)
  have gyro: "spec_gyroscopic_update 1 \<lparr>vx = 1, vy = 1/2, vz = 1/4\<rparr> \<lparr>vx = 1, vy = 1, vz = 0\<rparr>
                = \<lparr>vx = 1, vy = 1, vz = - 1/4\<rparr>"
    by (simp add: spec_gyroscopic_update_def inertia_of_def multDiag_def cross_def vneg_def
          vadd_def smul_def)
  from substep_writes_angular_only [OF rot] obtain c where
    run: "substepRigidBodies spin_ctx 0 = Inr c"
    and lin: "linear (velocity c 0) = linear (velocity spin_ctx 0)"
    and ang: "angular (velocity c 0) =
           spec_gyroscopic_update (h (solverData spin_ctx))
             (invInertiaTensor (metadata (objMgr spin_ctx) (objectID spin_ctx 0)))
             (angular (velocity spin_ctx 0))"
    and pos: "position c 0 =
           vadd (position spin_ctx 0)
             (smul (h (solverData spin_ctx))
                (if 0 < invMass (metadata (objMgr spin_ctx) (objectID spin_ctx 0))
                 then vadd (linear (velocity spin_ctx 0))
                        (smul (h (solverData spin_ctx)) (g (solverData spin_ctx)))
                 else linear (velocity spin_ctx 0)))"
    and oth: "\<forall>e'. e' \<noteq> 0 \<longrightarrow> velocity c e' = velocity spin_ctx e'"
    and later: "h (solverData spin_ctx) \<noteq> 0 \<longrightarrow>
            (\<exists>ctx''. setVelocities c 0 = Inr ctx'' \<and>
               linear (velocity ctx'' 0) =
                 (if 0 < invMass (metadata (objMgr spin_ctx) (objectID spin_ctx 0))
                  then vadd (linear (velocity spin_ctx 0))
                         (smul (h (solverData spin_ctx)) (g (solverData spin_ctx)))
                  else linear (velocity spin_ctx 0)))"
    by blast
  have h0: "h (solverData spin_ctx) \<noteq> 0" by (simp add: sd)
  with later obtain c2 where sv: "setVelocities c 0 = Inr c2"
    and l2: "linear (velocity c2 0) =
                 (if 0 < invMass (metadata (objMgr spin_ctx) (objectID spin_ctx 0))
                  then vadd (linear (velocity spin_ctx 0))
                         (smul (h (solverData spin_ctx)) (g (solverData spin_ctx)))
                  else linear (velocity spin_ctx 0))" by blast
  from l2 have l2': "linear (velocity c2 0) = \<lparr>vx = 1, vy = 0, vz = - 10\<rparr>"
    by (simp add: lin0 md sd vadd_def smul_def)
  from run sv l2' have fin: "\<exists>c c2. substepRigidBodies spin_ctx 0 = Inr c \<and>
      setVelocities c 0 = Inr c2 \<and> linear (velocity c2 0) = \<lparr>vx = 1, vy = 0, vz = - 10\<rparr>"
    by blast
  from lin ang have "linear (velocity c 0) = \<lparr>vx = 1, vy = 0, vz = 0\<rparr> \<and>
                     angular (velocity c 0) = \<lparr>vx = 1, vy = 1, vz = - 1/4\<rparr>"
    by (simp add: lin0 ang0 md sd gyro)
  then have v: "velocity c 0 =
      \<lparr>linear = \<lparr>vx = 1, vy = 0, vz = 0\<rparr>, angular = \<lparr>vx = 1, vy = 1, vz = - 1/4\<rparr>\<rparr>"
    by (cases "velocity c 0") simp
  from pos have p: "position c 0 = \<lparr>vx = 1, vy = 0, vz = - 10\<rparr>"
    by (simp add: lin0 md sd p0 vadd_def smul_def Vector3_zero_def)
  from oth have o: "velocity c 1 = velocity spin_ctx 1" by simp
  show ?thesis
    unfolding velocity_after_def position_after_def
    using rot lin0 ang0 v p o h0 fin run by simp
qed

subsection \<open>Static bodies\<close>

lemma generalizedInverseMass_ge:
  assumes "0 \<le> vx inv_I" "0 \<le> vy inv_I" "0 \<le> vz inv_I"
  shows "inv_m \<le> generalizedInverseMass r inv_m inv_I n"
proof -
  have "\<And>a b :: real. 0 \<le> a \<Longrightarrow> 0 \<le> a * b * b"
    by (metis mult.assoc mult_nonneg_nonneg zero_le_square)
  with assms show ?thesis
    by (simp add: generalizedInverseMass_def Let_def dot_def multDiag_def add_nonneg_nonneg)
qed

lemma generalizedInverseMass_static:
  "generalizedInverseMass r 0 Vector3_zero n = 0"
  by (simp add: generalizedInverseMass_def Let_def multDiag_def dot_def Vector3_zero_def)

lemma applyPositionalUpdate_static:
  assumes "applyPositionalUpdate x1 x2 q1 q2 r1 r2 inv_m1 inv_m2 inv_I1 inv_I2
             n_world n1 n2 c alpha lam chk = Inr (x1', x2', q1', q2', lam')"
  shows "(inv_m1 = 0 \<longrightarrow> x1' = x1) \<and> (inv_m2 = 0 \<longrightarrow> x2' = x2)"
  using assms
  by (auto simp: applyPositionalUpdate_def Let_def vadd_smul_zero vsub_smul_zero
           split: if_splits sum.splits ext.splits)

lemma applyPositionalUpdate_total:
  assumes w: "generalizedInverseMass r1 inv_m1 inv_I1 n1
                + generalizedInverseMass r2 inv_m2 inv_I2 n2 \<noteq> 0"
      and q1: "Quat_length q1 \<noteq> 0" and q2: "Quat_length q2 \<noteq> 0"
  shows "\<exists>x1' x2' q1' q2' lam'.
           applyPositionalUpdate x1 x2 q1 q2 r1 r2 inv_m1 inv_m2 inv_I1 inv_I2
             n_world n1 n2 c 0 lam chk = Inr (x1', x2', q1', q2', lam')
           \<and> Quat_length q1' \<noteq> 0 \<and> Quat_length q2' \<noteq> 0"
proof -
  let ?dl = "(- c) / (generalizedInverseMass r1 inv_m1 inv_I1 n1
                + generalizedInverseMass r2 inv_m2 inv_I2 n2)"
  have d: "fdiv (- c - 0 * lam) (generalizedInverseMass r1 inv_m1 inv_I1 n1
                + generalizedInverseMass r2 inv_m2 inv_I2 n2 + 0) = Finite ?dl"
    using w by (simp add: fdiv_def)
  show ?thesis
  proof (cases "chk (lam + ?dl)")
    case True
    with d q1 q2 show ?thesis by (simp add: applyPositionalUpdate_def Let_def)
  next
    case False
    let ?v1 = "smul 0.5 (multDiag inv_I1 (cross r1 (smul ?dl n1)))"
    let ?v2 = "smul 0.5 (multDiag inv_I2 (cross r2 (smul ?dl n2)))"
    from Quat_normalize_total [OF Quat_add_spin_nonzero [OF q1, of ?v1]] obtain a where
      a: "Quat_normalize (Quat_add q1 (Quat_mul (fromAngularVec ?v1) q1)) = Inr a"
      and la: "Quat_length a = 1" by blast
    from Quat_normalize_total [OF Quat_sub_spin_nonzero [OF q2, of ?v2]] obtain b where
      b: "Quat_normalize (Quat_sub q2 (Quat_mul (fromAngularVec ?v2) q2)) = Inr b"
      and lb: "Quat_length b = 1" by blast
    have "applyPositionalUpdate x1 x2 q1 q2 r1 r2 inv_m1 inv_m2 inv_I1 inv_I2
             n_world n1 n2 c 0 lam chk
          = Inr (vadd x1 (smul inv_m1 (smul ?dl n_world)),
                 vsub x2 (smul inv_m2 (smul ?dl n_world)), a, b, lam + ?dl)"
      unfolding applyPositionalUpdate_def Let_def d using False a b by simp
    with la lb show ?thesis by simp
  qed
qed

lemma applyPositionalUpdate_keeps_rotations:
  assumes "applyPositionalUpdate x1 x2 q1 q2 r1 r2 inv_m1 inv_m2 inv_I1 inv_I2
             n_world n1 n2 c alpha lam chk = Inr (x1', x2', q1', q2', lam')"
      and "Quat_length q1 \<noteq> 0" and "Quat_length q2 \<noteq> 0"
  shows "Quat_length q1' \<noteq> 0 \<and> Quat_length q2' \<noteq> 0"
  using assms
  by (auto simp: applyPositionalUpdate_def Let_def
           split: if_splits sum.splits ext.splits dest!: Quat_normalize_Inr_unit)

lemma applyPositionalUpdate_not_Inl:
  assumes i1: "0 \<le> vx inv_I1" "0 \<le> vy inv_I1" "0 \<le> vz inv_I1"
      and i2: "0 \<le> vx inv_I2" "0 \<le> vy inv_I2" "0 \<le> vz inv_I2"
      and dyn: "0 < inv_m1 + inv_m2"
      and q1: "Quat_length q1 \<noteq> 0" and q2: "Quat_length q2 \<noteq> 0"
  shows "applyPositionalUpdate x1 x2 q1 q2 r1 r2 inv_m1 inv_m2 inv_I1 inv_I2
             n_world n1 n2 c 0 lam chk \<noteq> Inl err"
proof -
  from generalizedInverseMass_ge [OF i1, of inv_m1 r1 n1]
       generalizedInverseMass_ge [OF i2, of inv_m2 r2 n2] dyn
  have "generalizedInverseMass r1 inv_m1 inv_I1 n1
          + generalizedInverseMass r2 inv_m2 inv_I2 n2 \<noteq> 0" by linarith
  from applyPositionalUpdate_total [OF this q1 q2, of x1 x2 n_world c lam chk]
  show ?thesis by auto
qed

lemma applyPositionalUpdate_static_pair:
  assumes "0 < c"
  shows "applyPositionalUpdate x1 x2 q1 q2 r1 r2 0 0 Vector3_zero Vector3_zero
           n_world n1 n2 c 0 lambda lambda_check = Inl NonFinite"
  using assms
  by (simp add: applyPositionalUpdate_def generalizedInverseMass_static fdiv_def Let_def)

lemma handleContactConstraint_static:
  assumes "handleContactConstraint (x1, x2, q1, q2, lamn, lamt) prev1 prev2 inv_m1 inv_m2
             inv_I1 inv_I2 mu_s1 mu_s2 r1 r2 n_world = Inr (x1', x2', q1', q2', lamn', lamt')"
  shows "(inv_m1 = 0 \<longrightarrow> x1' = x1) \<and> (inv_m2 = 0 \<longrightarrow> x2' = x2)"
proof (cases "dot (vsub (vadd (rotateVec q1 r1) x1) (vadd (rotateVec q2 r2) x2)) n_world \<le> 0")
  case True
  with assms show ?thesis by (simp add: handleContactConstraint_def Let_def)
next
  case False
  let ?d = "dot (vsub (vadd (rotateVec q1 r1) x1) (vadd (rotateVec q2 r2) x2)) n_world"
  from assms False obtain x1a x2a q1a q2a lna where
    first: "applyPositionalUpdate x1 x2 q1 q2 r1 r2 inv_m1 inv_m2 inv_I1 inv_I2 n_world
              (rotateVec (Quat_inv q1) n_world) (rotateVec (Quat_inv q2) n_world)
              ?d 0 lamn (\<lambda>l. False) = Inr (x1a, x2a, q1a, q2a, lna)"
    by (auto simp: handleContactConstraint_def Let_def split: sum.splits)
  from applyPositionalUpdate_static [OF first]
  have a: "(inv_m1 = 0 \<longrightarrow> x1a = x1) \<and> (inv_m2 = 0 \<longrightarrow> x2a = x2)" .
  from assms False first
  have "(x1' = x1a \<and> x2' = x2a) \<or>
        (\<exists>n' nl1 nl2 c chk lam. applyPositionalUpdate x1a x2a q1a q2a r1 r2 inv_m1 inv_m2
            inv_I1 inv_I2 n' nl1 nl2 c 0 lam chk = Inr (x1', x2', q1', q2', lamt'))"
    by (auto simp: handleContactConstraint_def Let_def split: sum.splits if_splits)
  then show ?thesis
  proof
    assume "x1' = x1a \<and> x2' = x2a"
    with a show ?thesis by simp
  next
    assume "\<exists>n' nl1 nl2 c chk lam. applyPositionalUpdate x1a x2a q1a q2a r1 r2 inv_m1 inv_m2
            inv_I1 inv_I2 n' nl1 nl2 c 0 lam chk = Inr (x1', x2', q1', q2', lamt')"
    then obtain n' nl1 nl2 c chk lam where
      second: "applyPositionalUpdate x1a x2a q1a q2a r1 r2 inv_m1 inv_m2
            inv_I1 inv_I2 n' nl1 nl2 c 0 lam chk = Inr (x1', x2', q1', q2', lamt')" by blast
    from applyPositionalUpdate_static [OF second] a show ?thesis by simp
  qed
qed

lemma handleContactConstraint_total:
  assumes i1: "0 \<le> vx inv_I1" "0 \<le> vy inv_I1" "0 \<le> vz inv_I1"
      and i2: "0 \<le> vx inv_I2" "0 \<le> vy inv_I2" "0 \<le> vz inv_I2"
      and dyn: "0 < inv_m1 + inv_m2"
      and q1: "Quat_length q1 \<noteq> 0" and q2: "Quat_length q2 \<noteq> 0"
  shows "\<exists>x1' x2' q1' q2' lamn' lamt'.
           handleContactConstraint (x1, x2, q1, q2, lamn, lamt) prev1 prev2 inv_m1 inv_m2
             inv_I1 inv_I2 mu_s1 mu_s2 r1 r2 n_world = Inr (x1', x2', q1', q2', lamn', lamt')
           \<and> Quat_length q1' \<noteq> 0 \<and> Quat_length q2' \<noteq> 0"
proof -
  note nI = applyPositionalUpdate_not_Inl [OF i1 i2 dyn]
  have keep: "\<And>x1 x2 q1 q2 nw n1 n2 c lam chk x1' x2' q1' q2' lam'.
      applyPositionalUpdate x1 x2 q1 q2 r1 r2 inv_m1 inv_m2 inv_I1 inv_I2
        nw n1 n2 c 0 lam chk = Inr (x1', x2', q1', q2', lam') \<Longrightarrow>
      Quat_length q1 \<noteq> 0 \<Longrightarrow> Quat_length q2 \<noteq> 0 \<Longrightarrow>
      Quat_length q1' \<noteq> 0 \<and> Quat_length q2' \<noteq> 0"
    by (rule applyPositionalUpdate_keeps_rotations)
  show ?thesis
  proof (cases "dot (vsub (vadd (rotateVec q1 r1) x1) (vadd (rotateVec q2 r2) x2)) n_world \<le> 0")
    case True
    with q1 q2 show ?thesis by (simp add: handleContactConstraint_def Let_def)
  next
    case False
    let ?d = "dot (vsub (vadd (rotateVec q1 r1) x1) (vadd (rotateVec q2 r2) x2)) n_world"
    let ?first = "applyPositionalUpdate x1 x2 q1 q2 r1 r2 inv_m1 inv_m2 inv_I1 inv_I2 n_world
                (rotateVec (Quat_inv q1) n_world) (rotateVec (Quat_inv q2) n_world)
                ?d 0 lamn (\<lambda>l. False)"
    from nI [OF q1 q2] obtain x1a x2a q1a q2a lna where
      first: "?first = Inr (x1a, x2a, q1a, q2a, lna)"
      by (cases ?first) auto
    from keep [OF first q1 q2]
    have qa: "Quat_length q1a \<noteq> 0" "Quat_length q2a \<noteq> 0" by simp_all
    note nI2 = nI [OF qa]
    note keep2 = keep [OF _ qa]
    from False first qa show ?thesis
      unfolding handleContactConstraint_def Let_def
      by (auto simp: nI2 split: sum.splits dest: keep2)
  qed
qed

lemma handleContact_static:
  assumes run: "handleContact ctx obj_mgr contact = Inr (ctx', contact')"
      and static: "invMass (metadata obj_mgr (objectID ctx e)) = 0"
  shows "position ctx' e = position ctx e"
proof -
  let ?m1 = "invMass (metadata obj_mgr (objectID ctx (ref contact)))"
  let ?m2 = "invMass (metadata obj_mgr (objectID ctx (alt contact)))"
  let ?P = "\<lambda>st :: PairState. (?m1 = 0 \<longrightarrow> fst st = position ctx (ref contact)) \<and>
                              (?m2 = 0 \<longrightarrow> fst (snd st) = position ctx (alt contact))"
  let ?body = "\<lambda>i st. if i \<ge> numPoints contact then Inr st
                 else (case getLocalSpaceContacts (startState ctx (ref contact))
                              (startState ctx (alt contact)) contact i of
                         (r1, r2) \<Rightarrow>
                           handleContactConstraint st (prevState ctx (ref contact))
                             (prevState ctx (alt contact)) ?m1 ?m2
                             (invInertiaTensor (metadata obj_mgr (objectID ctx (ref contact))))
                             (invInertiaTensor (metadata obj_mgr (objectID ctx (alt contact))))
                             (muS (metadata obj_mgr (objectID ctx (ref contact))))
                             (muS (metadata obj_mgr (objectID ctx (alt contact))))
                             r1 r2 (normal contact))"
  let ?s0 = "(position ctx (ref contact), position ctx (alt contact),
              rotation ctx (ref contact), rotation ctx (alt contact), 0::real, 0::real)"
  from run obtain p1' p2' q1' q2' lamn' lamt' where
    loop: "forLoop 0 4 ?body ?s0 = Inr (p1', p2', q1', q2', lamn', lamt')"
    and ctx': "ctx' = ctx\<lparr>position := (position ctx)(ref contact := p1', alt contact := p2'),
                          rotation := (rotation ctx)(ref contact := q1', alt contact := q2')\<rparr>"
    by (auto simp: handleContact_def Let_def split: sum.splits)
  have step: "\<And>j t t'. ?P t \<Longrightarrow> ?body j t = Inr t' \<Longrightarrow> ?P t'"
  proof -
    fix j and t t' :: PairState
    assume P: "?P t" and b: "?body j t = Inr t'"
    obtain x1 x2 q1 q2 lamn lamt where t: "t = (x1, x2, q1, q2, lamn, lamt)" by (cases t)
    obtain y1 y2 u1 u2 kn kt where t': "t' = (y1, y2, u1, u2, kn, kt)" by (cases t')
    show "?P t'"
    proof (cases "j \<ge> numPoints contact")
      case True
      with b P show ?thesis by simp
    next
      case False
      obtain r1 r2 where r: "getLocalSpaceContacts (startState ctx (ref contact))
                              (startState ctx (alt contact)) contact j = (r1, r2)"
        by (cases "getLocalSpaceContacts (startState ctx (ref contact))
                              (startState ctx (alt contact)) contact j")
      from b False r t t' have
        "handleContactConstraint (x1, x2, q1, q2, lamn, lamt) (prevState ctx (ref contact))
           (prevState ctx (alt contact)) ?m1 ?m2
           (invInertiaTensor (metadata obj_mgr (objectID ctx (ref contact))))
           (invInertiaTensor (metadata obj_mgr (objectID ctx (alt contact))))
           (muS (metadata obj_mgr (objectID ctx (ref contact))))
           (muS (metadata obj_mgr (objectID ctx (alt contact))))
           r1 r2 (normal contact) = Inr (y1, y2, u1, u2, kn, kt)" by simp
      from handleContactConstraint_static [OF this] P t t' show ?thesis by simp
    qed
  qed
  have "?P ?s0" by simp
  from forLoop_invariant [where P = ?P, OF loop this step]
  have fin: "(?m1 = 0 \<longrightarrow> p1' = position ctx (ref contact)) \<and>
             (?m2 = 0 \<longrightarrow> p2' = position ctx (alt contact))" by simp
  show ?thesis
  proof (cases "e = alt contact")
    case True
    with static fin ctx' show ?thesis by simp
  next
    case False
    show ?thesis
    proof (cases "e = ref contact")
      case True
      with False static fin ctx' show ?thesis by simp
    next
      case notref: False
      with False ctx' show ?thesis by simp
    qed
  qed
qed

lemma handleContact_frame:
  assumes "handleContact ctx obj_mgr contact = Inr (ctx', contact')"
  shows "objectID ctx' = objectID ctx \<and> objMgr ctx' = objMgr ctx \<and>
         solverData ctx' = solverData ctx"
  using assms by (auto simp: handleContact_def Let_def split: sum.splits)

lemma handleContact_total:
  assumes p1: "physical_metadata (metadata obj_mgr (objectID ctx (ref contact)))"
      and p2: "physical_metadata (metadata obj_mgr (objectID ctx (alt contact)))"
      and dyn: "0 < invMass (metadata obj_mgr (objectID ctx (ref contact)))
                    + invMass (metadata obj_mgr (objectID ctx (alt contact)))"
      and rot: "\<And>e. Quat_length (rotation ctx e) \<noteq> 0"
  shows "\<exists>ctx' contact'. handleContact ctx obj_mgr contact = Inr (ctx', contact')
           \<and> (\<forall>e. Quat_length (rotation ctx' e) \<noteq> 0)
           \<and> ref contact' = ref contact \<and> alt contact' = alt contact"
proof -
  let ?md1 = "metadata obj_mgr (objectID ctx (ref contact))"
  let ?md2 = "metadata obj_mgr (objectID ctx (alt contact))"
  let ?P = "\<lambda>st :: PairState. case st of (x1, x2, q1, q2, lamn, lamt) \<Rightarrow>
              Quat_length q1 \<noteq> 0 \<and> Quat_length q2 \<noteq> 0"
  let ?body = "\<lambda>i st. if i \<ge> numPoints contact then Inr st
                 else (case getLocalSpaceContacts (startState ctx (ref contact))
                              (startState ctx (alt contact)) contact i of
                         (r1, r2) \<Rightarrow>
                           handleContactConstraint st (prevState ctx (ref contact))
                             (prevState ctx (alt contact)) (invMass ?md1) (invMass ?md2)
                             (invInertiaTensor ?md1) (invInertiaTensor ?md2)
                             (muS ?md1) (muS ?md2) r1 r2 (normal contact))"
  let ?s0 = "(position ctx (ref contact), position ctx (alt contact),
              rotation ctx (ref contact), rotation ctx (alt contact), 0::real, 0::real)"
  from p1 have i1: "0 \<le> vx (invInertiaTensor ?md1)" "0 \<le> vy (invInertiaTensor ?md1)"
    "0 \<le> vz (invInertiaTensor ?md1)" by (simp_all add: physical_metadata_def)
  from p2 have i2: "0 \<le> vx (invInertiaTensor ?md2)" "0 \<le> vy (invInertiaTensor ?md2)"
    "0 \<le> vz (invInertiaTensor ?md2)" by (simp_all add: physical_metadata_def)
  have step: "\<And>j t. 0 \<le> j \<Longrightarrow> j < 4 \<Longrightarrow> ?P t \<Longrightarrow> \<exists>t'. ?body j t = Inr t' \<and> ?P t'"
  proof -
    fix j :: nat and t :: PairState
    assume P: "?P t"
    obtain x1 x2 q1 q2 lamn lamt where t: "t = (x1, x2, q1, q2, lamn, lamt)" by (cases t)
    from P t have q: "Quat_length q1 \<noteq> 0" "Quat_length q2 \<noteq> 0" by simp_all
    show "\<exists>t'. ?body j t = Inr t' \<and> ?P t'"
    proof (cases "j \<ge> numPoints contact")
      case True
      with P show ?thesis by simp
    next
      case False
      obtain r1 r2 where r: "getLocalSpaceContacts (startState ctx (ref contact))
                              (startState ctx (alt contact)) contact j = (r1, r2)"
        by (cases "getLocalSpaceContacts (startState ctx (ref contact))
                              (startState ctx (alt contact)) contact j")
      from handleContactConstraint_total [OF i1 i2 dyn q, of x1 x2 lamn lamt
             "prevState ctx (ref contact)" "prevState ctx (alt contact)"
             "muS ?md1" "muS ?md2" r1 r2 "normal contact"]
      obtain x1' x2' q1' q2' lamn' lamt' where
        hc: "handleContactConstraint (x1, x2, q1, q2, lamn, lamt) (prevState ctx (ref contact))
               (prevState ctx (alt contact)) (invMass ?md1) (invMass ?md2)
               (invInertiaTensor ?md1) (invInertiaTensor ?md2) (muS ?md1) (muS ?md2)
               r1 r2 (normal contact) = Inr (x1', x2', q1', q2', lamn', lamt')"
        and qq: "Quat_length q1' \<noteq> 0" "Quat_length q2' \<noteq> 0" by blast
      have "?body j t = Inr (x1', x2', q1', q2', lamn', lamt')"
        using False r t hc by simp
      with qq show ?thesis by simp
    qed
  qed
  have "?P ?s0" using rot by simp
  from forLoop_total [where P = ?P and body = ?body and i = 0 and n = 4, OF this step]
  obtain s' where loop: "forLoop 0 4 ?body ?s0 = Inr s'" and Ps: "?P s'" by blast
  obtain p1' p2' q1' q2' lamn' lamt' where s': "s' = (p1', p2', q1', q2', lamn', lamt')"
    by (cases s')
  from Ps s' have q': "Quat_length q1' \<noteq> 0" "Quat_length q2' \<noteq> 0" by simp_all
  have "handleContact ctx obj_mgr contact =
          Inr (ctx\<lparr>position := (position ctx)(ref contact := p1', alt contact := p2'),
                   rotation := (rotation ctx)(ref contact := q1', alt contact := q2')\<rparr>,
               contact\<lparr>lambdaN := lamn'\<rparr>)"
    using loop s' by (simp add: handleContact_def Let_def)
  with q' rot show ?thesis by simp
qed

lemma handleContact_static_pair:
  assumes sp: "static_pair ctx c"
      and np: "0 < numPoints c"
      and pen: "0 < separation ctx c 0"
  shows "handleContact ctx (objMgr ctx) c = Inl (NonFiniteWritten (ref c) (alt c))"
proof -
  obtain r1 r2 where r: "getLocalSpaceContacts (startState ctx (ref c))
                           (startState ctx (alt c)) c 0 = (r1, r2)"
    by (cases "getLocalSpaceContacts (startState ctx (ref c)) (startState ctx (alt c)) c 0")
  from pen r have d: "0 < dot (vsub (vadd (rotateVec (rotation ctx (ref c)) r1) (position ctx (ref c)))
                    (vadd (rotateVec (rotation ctx (alt c)) r2) (position ctx (alt c))))
              (normal c)"
    by (simp add: separation_def)
  from sp have m: "invMass (metadata (objMgr ctx) (objectID ctx (ref c))) = 0"
    "invInertiaTensor (metadata (objMgr ctx) (objectID ctx (ref c))) = Vector3_zero"
    "invMass (metadata (objMgr ctx) (objectID ctx (alt c))) = 0"
    "invInertiaTensor (metadata (objMgr ctx) (objectID ctx (alt c))) = Vector3_zero"
    by (simp_all add: static_pair_def)
  show ?thesis
    using np d
    by (simp add: handleContact_def Let_def m forLoop.simps [of 0 4] r
          handleContactConstraint_def applyPositionalUpdate_static_pair)
qed

lemma solvePositions_static:
  assumes run: "solvePositions ctx = Inr ctx'"
      and static: "invMass (metadata (objMgr ctx) (objectID ctx e)) = 0"
  shows "position ctx' e = position ctx e"
proof -
  let ?P = "\<lambda>c. position c e = position ctx e \<and> objectID c = objectID ctx"
  let ?body = "\<lambda>i c.
              if i < length (contacts (solverData c)) then
                (case handleContact c (objMgr ctx) (contacts (solverData c) ! i) of
                   Inl e \<Rightarrow> Inl e
                 | Inr (c', contact) \<Rightarrow>
                     Inr (c'\<lparr>solverData := (solverData c')
                            \<lparr>contacts := (contacts (solverData c'))
                               [i := (contacts (solverData c') ! i)
                                       \<lparr>lambdaN := lambdaN contact\<rparr>]\<rparr>\<rparr>))
              else Inl (OutOfBounds i)"
  from run have loop: "forLoop 0 (numContacts (solverData ctx)) ?body ctx = Inr ctx'"
    by (simp add: solvePositions_def Let_def)
  have step: "\<And>j t t'. ?P t \<Longrightarrow> ?body j t = Inr t' \<Longrightarrow> ?P t'"
  proof -
    fix j and t t' :: Context
    assume P: "?P t" and b: "?body j t = Inr t'"
    from b obtain c' contact' where
      hc: "handleContact t (objMgr ctx) (contacts (solverData t) ! j) = Inr (c', contact')"
      and t': "t' = c'\<lparr>solverData := (solverData c')
                            \<lparr>contacts := (contacts (solverData c'))
                               [j := (contacts (solverData c') ! j)
                                       \<lparr>lambdaN := lambdaN contact'\<rparr>]\<rparr>\<rparr>"
      by (auto split: if_splits sum.splits)
    from static P have st: "invMass (metadata (objMgr ctx) (objectID t e)) = 0" by simp
    from handleContact_static [OF hc st] handleContact_frame [OF hc] P t'
    show "?P t'" by simp
  qed
  have "?P ctx" by simp
  from forLoop_invariant [where P = ?P, OF loop this step] show ?thesis by simp
qed

lemma list_update_lambdaN_ends:
  "j < length cs \<Longrightarrow> i < length cs \<Longrightarrow>
   ref ((cs[j := (cs ! j)\<lparr>lambdaN := l\<rparr>]) ! i) = ref (cs ! i) \<and>
   alt ((cs[j := (cs ! j)\<lparr>lambdaN := l\<rparr>]) ! i) = alt (cs ! i)"
  by (cases "i = j") simp_all

lemma solvePositions_total:
  assumes cap: "numContacts (solverData ctx) \<le> length (contacts (solverData ctx))"
      and phys: "\<And>k. physical_metadata (metadata (objMgr ctx) k)"
      and dyn: "\<And>i. i < numContacts (solverData ctx) \<Longrightarrow>
                  has_dynamic_body ctx (contacts (solverData ctx) ! i)"
      and rot: "\<And>e. Quat_length (rotation ctx e) \<noteq> 0"
  shows "\<exists>ctx'. solvePositions ctx = Inr ctx'"
proof -
  let ?n = "numContacts (solverData ctx)"
  let ?cs = "contacts (solverData ctx)"
  let ?P = "\<lambda>c. objectID c = objectID ctx \<and> (\<forall>e. Quat_length (rotation c e) \<noteq> 0) \<and>
                 length (contacts (solverData c)) = length ?cs \<and>
                 (\<forall>i < length ?cs. ref (contacts (solverData c) ! i) = ref (?cs ! i) \<and>
                                    alt (contacts (solverData c) ! i) = alt (?cs ! i))"
  let ?body = "\<lambda>i c.
              if i < length (contacts (solverData c)) then
                (case handleContact c (objMgr ctx) (contacts (solverData c) ! i) of
                   Inl e \<Rightarrow> Inl e
                 | Inr (c', contact) \<Rightarrow>
                     Inr (c'\<lparr>solverData := (solverData c')
                            \<lparr>contacts := (contacts (solverData c'))
                               [i := (contacts (solverData c') ! i)
                                       \<lparr>lambdaN := lambdaN contact\<rparr>]\<rparr>\<rparr>))
              else Inl (OutOfBounds i)"
  have step: "\<And>j t. 0 \<le> j \<Longrightarrow> j < ?n \<Longrightarrow> ?P t \<Longrightarrow> \<exists>t'. ?body j t = Inr t' \<and> ?P t'"
  proof -
    fix j :: nat and t :: Context
    assume jn: "j < ?n" and P: "?P t"
    from jn cap have jl: "j < length ?cs" by simp
    with P have jt: "j < length (contacts (solverData t))" by simp
    let ?k = "contacts (solverData t) ! j"
    from P jl have ends: "ref ?k = ref (?cs ! j)" "alt ?k = alt (?cs ! j)" by simp_all
    from dyn [OF jn] have d: "0 < invMass (metadata (objMgr ctx) (objectID t (ref ?k)))
                    + invMass (metadata (objMgr ctx) (objectID t (alt ?k)))"
      using P ends by (simp add: has_dynamic_body_def)
    from P have r: "\<And>e. Quat_length (rotation t e) \<noteq> 0" by simp
    from handleContact_total [OF phys phys d r] obtain c' k' where
      hc: "handleContact t (objMgr ctx) ?k = Inr (c', k')"
      and r': "\<forall>e. Quat_length (rotation c' e) \<noteq> 0" by blast
    from handleContact_frame [OF hc] have fr: "objectID c' = objectID t"
      "solverData c' = solverData t" by simp_all
    define t' where "t' = c'\<lparr>solverData := (solverData c')
                            \<lparr>contacts := (contacts (solverData c'))
                               [j := (contacts (solverData c') ! j)
                                       \<lparr>lambdaN := lambdaN k'\<rparr>]\<rparr>\<rparr>"
    have b: "?body j t = Inr t'" unfolding t'_def using jt hc by simp
    have o: "objectID t' = objectID ctx" unfolding t'_def using fr(1) P by simp
    have ro: "\<forall>e. Quat_length (rotation t' e) \<noteq> 0" unfolding t'_def using r' by simp
    have cs: "contacts (solverData t') =
                (contacts (solverData t))[j := (contacts (solverData t) ! j)\<lparr>lambdaN := lambdaN k'\<rparr>]"
      unfolding t'_def using fr(2) by simp
    have len: "length (contacts (solverData t')) = length ?cs" unfolding cs using P by simp
    have ends': "\<forall>i < length ?cs. ref (contacts (solverData t') ! i) = ref (?cs ! i) \<and>
                                    alt (contacts (solverData t') ! i) = alt (?cs ! i)"
    proof (intro allI impI)
      fix i assume il: "i < length ?cs"
      from P have lt: "length (contacts (solverData t)) = length ?cs" by blast
      from P il have old: "ref (contacts (solverData t) ! i) = ref (?cs ! i)"
        "alt (contacts (solverData t) ! i) = alt (?cs ! i)" by blast+
      from list_update_lambdaN_ends [of j "contacts (solverData t)" i "lambdaN k'"] jt il lt
      have "ref (contacts (solverData t') ! i) = ref (contacts (solverData t) ! i)"
           "alt (contacts (solverData t') ! i) = alt (contacts (solverData t) ! i)"
        unfolding cs by simp_all
      with old show "ref (contacts (solverData t') ! i) = ref (?cs ! i) \<and>
                     alt (contacts (solverData t') ! i) = alt (?cs ! i)" by simp
    qed
    from o ro len ends' have "?P t'" by blast
    with b show "\<exists>t'. ?body j t = Inr t' \<and> ?P t'" by blast
  qed
  have "?P ctx" using rot by simp
  from forLoop_total [where P = ?P and body = ?body and i = 0 and n = ?n, OF this step]
  obtain s' where "forLoop 0 ?n ?body ctx = Inr s'" by blast
  then show ?thesis by (simp add: solvePositions_def Let_def)
qed

lemma static_pair_ctx_facts:
  "static_pair static_pair_ctx resting_contact"
  "0 < numPoints resting_contact"
  "objMgr static_pair_ctx = example_objMgr\<lparr>metadata := (\<lambda>i. static_metadata)\<rparr>"
  "numContacts (solverData static_pair_ctx) = 1"
  "length (contacts (solverData static_pair_ctx)) = 2"
  "contacts (solverData static_pair_ctx) ! 0 = resting_contact"
  by (simp_all add: static_pair_def static_pair_ctx_def solve_ctx_def appendContact_def
        resting_ctx_def resting_contact_def example_ctx_def example_solver_def
        example_objMgr_def static_metadata_def)

lemma static_pair_ctx_separation: "separation static_pair_ctx resting_contact 0 = 1/2"
  by (simp add: separation_def getLocalSpaceContacts_def static_pair_ctx_def solve_ctx_def
        appendContact_def resting_ctx_def resting_contact_def example_ctx_def
        rotateVec_id Quat_inv_id xyz_def Vector3_zero_def vadd_def vsub_def smul_def dot_def
        Let_def)

lemma static_pair_ctx_solve:
  "solvePositions static_pair_ctx = Inl (NonFiniteWritten 0 1)"
proof -
  have pen: "0 < separation static_pair_ctx resting_contact 0"
    by (simp add: static_pair_ctx_separation)
  from handleContact_static_pair [OF static_pair_ctx_facts(1,2) pen]
  have hc: "handleContact static_pair_ctx (example_objMgr\<lparr>metadata := (\<lambda>i. static_metadata)\<rparr>)
              resting_contact = Inl (NonFiniteWritten 0 1)"
    by (simp add: static_pair_ctx_facts(3) resting_contact_def)
  show ?thesis
    by (simp add: solvePositions_def Let_def static_pair_ctx_facts(3-6) forLoop.simps [of 0] hc)
qed

text \<open>
  Claim C6, the claim as stated fails. The claim: a body with \<open>invMass = 0\<close> keeps its
  position and rotation across any integration substep, whatever its velocity, and the
  positional solve of any contact involving it leaves its position unchanged. The code
  on the static plane of \<open>moving_ctx\<close>, which has the linear velocity \<open>(1, 0, 0)\<close> and
  \<open>h = 1\<close>: the substep moves it from the origin to \<open>(1, 0, 0)\<close>; only the gravity
  term is guarded by \<open>inv_m > 0\<close>. And the code on the static plane of
  \<open>static_pair_ctx\<close>, in contact with a body that is static too: the positional solve
  divides \<open>- d = - 1/2\<close> by \<open>w1 + w2 = 0\<close> and stores non-finite values in the
  positions of both bodies.
\<close>

theorem static_body_with_velocity_moves:
  "invMass (metadata (objMgr moving_ctx) (objectID moving_ctx 1)) = 0
   \<and> position moving_ctx 1 = Vector3_zero
   \<and> position_after (substepRigidBodies moving_ctx 1) 1 = Some \<lparr>vx = 1, vy = 0, vz = 0\<rparr>
   \<and> invMass (metadata (objMgr static_pair_ctx) (objectID static_pair_ctx 1)) = 0
   \<and> handleContact static_pair_ctx (objMgr static_pair_ctx) resting_contact
        = Inl (NonFiniteWritten 0 1)
   \<and> solvePositions static_pair_ctx = Inl (NonFiniteWritten 0 1)"
proof -
  have a: "invMass (metadata (objMgr moving_ctx) (objectID moving_ctx 1)) = 0
   \<and> position moving_ctx 1 = Vector3_zero
   \<and> position_after (substepRigidBodies moving_ctx 1) 1 = Some \<lparr>vx = 1, vy = 0, vz = 0\<rparr>"
    by (simp add: position_after_def substepRigidBodies_def moving_ctx_def example_ctx_def
        example_solver_def example_objMgr_def static_metadata_def Quat_normalize_def
        Quat_length_def Quat_id_def Quat_add_def Quat_mul_def fromAngularVec_def multDiag_def
        Vector3_zero_def vadd_def vsub_def smul_def cross_def Let_def)
  have b: "invMass (metadata (objMgr static_pair_ctx) (objectID static_pair_ctx 1)) = 0"
    by (simp add: static_pair_ctx_facts(3) static_metadata_def)
  have pen: "0 < separation static_pair_ctx resting_contact 0"
    by (simp add: static_pair_ctx_separation)
  from handleContact_static_pair [OF static_pair_ctx_facts(1,2) pen]
  have c: "handleContact static_pair_ctx (objMgr static_pair_ctx) resting_contact
        = Inl (NonFiniteWritten 0 1)"
    by (simp add: resting_contact_def)
  from a b c static_pair_ctx_solve show ?thesis by simp
qed

text \<open>
  Claim C6, amended. For a body with \<open>invMass = 0\<close>:

  \<^item> if its rotation is not the zero quaternion, the substep returns and advances its
    position by \<open>h * v\<close>, its own linear velocity, with no gravity added;
  \<^item> if the body is at rest (zero linear and angular velocity) and its rotation is a
    unit quaternion, the substep returns and leaves its position and rotation
    unchanged;
  \<^item> the positional solve of a contact returns and leaves the body's position
    unchanged when the two bodies of the contact have non-negative inverse masses and
    inverse inertias, one of them has a positive inverse mass, and no rotation is the
    zero quaternion; so does the positional solve over the contact buffer when this
    holds of every contact in it and the count is within the buffer;
  \<^item> whatever the contact or the buffer, a positional solve in which no division is by
    zero leaves the body's position unchanged;
  \<^item> the positional solve of a contact between two bodies of inverse mass and inverse
    inertia zero whose first point has \<open>d > 0\<close> divides by zero: non-finite values are
    stored in the positions and rotations of both bodies.
\<close>

theorem static_body_stays:
  assumes static: "invMass (metadata (objMgr ctx) (objectID ctx e)) = 0"
  shows "(Quat_length (rotation ctx e) \<noteq> 0 \<longrightarrow>
            (\<exists>ctx'. substepRigidBodies ctx e = Inr ctx' \<and>
               position ctx' e =
                 vadd (position ctx e) (smul (h (solverData ctx)) (linear (velocity ctx e)))))
       \<and> (linear (velocity ctx e) = Vector3_zero \<and> angular (velocity ctx e) = Vector3_zero
            \<and> Quat_length (rotation ctx e) = 1 \<longrightarrow>
          (\<exists>ctx'. substepRigidBodies ctx e = Inr ctx' \<and> position ctx' e = position ctx e
                   \<and> rotation ctx' e = rotation ctx e))
       \<and> (\<forall>c. physical_metadata (metadata (objMgr ctx) (objectID ctx (ref c)))
               \<and> physical_metadata (metadata (objMgr ctx) (objectID ctx (alt c)))
               \<and> has_dynamic_body ctx c
               \<and> (\<forall>e'. Quat_length (rotation ctx e') \<noteq> 0) \<longrightarrow>
             (\<exists>ctx' c'. handleContact ctx (objMgr ctx) c = Inr (ctx', c')
                       \<and> position ctx' e = position ctx e))
       \<and> (numContacts (solverData ctx) \<le> length (contacts (solverData ctx))
            \<and> (\<forall>k. physical_metadata (metadata (objMgr ctx) k))
            \<and> (\<forall>i < numContacts (solverData ctx).
                   has_dynamic_body ctx (contacts (solverData ctx) ! i))
            \<and> (\<forall>e'. Quat_length (rotation ctx e') \<noteq> 0) \<longrightarrow>
          (\<exists>ctx'. solvePositions ctx = Inr ctx' \<and> position ctx' e = position ctx e))
       \<and> (\<forall>c ctx' c'. handleContact ctx (objMgr ctx) c = Inr (ctx', c') \<longrightarrow>
             position ctx' e = position ctx e)
       \<and> (\<forall>ctx'. solvePositions ctx = Inr ctx' \<longrightarrow> position ctx' e = position ctx e)
       \<and> (\<forall>c. static_pair ctx c \<and> 0 < numPoints c \<and> 0 < separation ctx c 0 \<longrightarrow>
             handleContact ctx (objMgr ctx) c = Inl (NonFiniteWritten (ref c) (alt c)))"
proof (intro conjI allI impI)
  assume rot: "Quat_length (rotation ctx e) \<noteq> 0"
  from substepRigidBodies_returns [OF rot] obtain ctx' where
    run: "substepRigidBodies ctx e = Inr ctx'" by blast
  with static have "position ctx' e =
      vadd (position ctx e) (smul (h (solverData ctx)) (linear (velocity ctx e)))"
    by (auto simp: substepRigidBodies_def Let_def split: sum.splits)
  with run show "\<exists>ctx'. substepRigidBodies ctx e = Inr ctx' \<and> position ctx' e =
      vadd (position ctx e) (smul (h (solverData ctx)) (linear (velocity ctx e)))" by blast
next
  assume rest: "linear (velocity ctx e) = Vector3_zero \<and> angular (velocity ctx e) = Vector3_zero
            \<and> Quat_length (rotation ctx e) = 1"
  then have unit: "Quat_length (rotation ctx e) = 1" by simp
  have z: "vadd (position ctx e) (smul (h (solverData ctx)) Vector3_zero) = position ctx e"
    by (simp add: vadd_def smul_def Vector3_zero_def)
  from static rest show "\<exists>ctx'. substepRigidBodies ctx e = Inr ctx' \<and>
       position ctx' e = position ctx e \<and> rotation ctx' e = rotation ctx e"
    by (simp add: substepRigidBodies_def Let_def zero_spin_rotation z Quat_normalize_unit [OF unit])
next
  fix c
  assume hyp: "physical_metadata (metadata (objMgr ctx) (objectID ctx (ref c)))
               \<and> physical_metadata (metadata (objMgr ctx) (objectID ctx (alt c)))
               \<and> has_dynamic_body ctx c
               \<and> (\<forall>e'. Quat_length (rotation ctx e') \<noteq> 0)"
  then have p1: "physical_metadata (metadata (objMgr ctx) (objectID ctx (ref c)))"
    and p2: "physical_metadata (metadata (objMgr ctx) (objectID ctx (alt c)))"
    and dyn: "0 < invMass (metadata (objMgr ctx) (objectID ctx (ref c)))
                    + invMass (metadata (objMgr ctx) (objectID ctx (alt c)))"
    and rot: "\<And>e'. Quat_length (rotation ctx e') \<noteq> 0"
    by (simp_all add: has_dynamic_body_def)
  from handleContact_total [OF p1 p2 dyn rot] obtain ctx' c' where
    run: "handleContact ctx (objMgr ctx) c = Inr (ctx', c')" by blast
  from handleContact_static [OF run static] run
  show "\<exists>ctx' c'. handleContact ctx (objMgr ctx) c = Inr (ctx', c')
                       \<and> position ctx' e = position ctx e" by blast
next
  assume hyp: "numContacts (solverData ctx) \<le> length (contacts (solverData ctx))
            \<and> (\<forall>k. physical_metadata (metadata (objMgr ctx) k))
            \<and> (\<forall>i < numContacts (solverData ctx).
                   has_dynamic_body ctx (contacts (solverData ctx) ! i))
            \<and> (\<forall>e'. Quat_length (rotation ctx e') \<noteq> 0)"
  then have cap: "numContacts (solverData ctx) \<le> length (contacts (solverData ctx))"
    and phys: "\<And>k. physical_metadata (metadata (objMgr ctx) k)"
    and dyn: "\<And>i. i < numContacts (solverData ctx) \<Longrightarrow>
                  has_dynamic_body ctx (contacts (solverData ctx) ! i)"
    and rot: "\<And>e'. Quat_length (rotation ctx e') \<noteq> 0"
    by simp_all
  from solvePositions_total [OF cap phys dyn rot] obtain ctx' where
    run: "solvePositions ctx = Inr ctx'" by blast
  from solvePositions_static [OF run static] run
  show "\<exists>ctx'. solvePositions ctx = Inr ctx' \<and> position ctx' e = position ctx e" by blast
next
  fix c ctx' c'
  assume "handleContact ctx (objMgr ctx) c = Inr (ctx', c')"
  from handleContact_static [OF this static] show "position ctx' e = position ctx e" .
next
  fix ctx'
  assume "solvePositions ctx = Inr ctx'"
  from solvePositions_static [OF this static] show "position ctx' e = position ctx e" .
next
  fix c
  assume "static_pair ctx c \<and> 0 < numPoints c \<and> 0 < separation ctx c 0"
  then show "handleContact ctx (objMgr ctx) c = Inl (NonFiniteWritten (ref c) (alt c))"
    using handleContact_static_pair by blast
qed

lemma solve_ctx_facts:
  "objMgr solve_ctx = example_objMgr"
  "numContacts (solverData solve_ctx) = 1"
  "length (contacts (solverData solve_ctx)) = 2"
  "contacts (solverData solve_ctx) ! 0 = resting_contact"
  "rotation solve_ctx = (\<lambda>e. Quat_id)"
  "velocity solve_ctx = (\<lambda>e. \<lparr>linear = Vector3_zero, angular = Vector3_zero\<rparr>)"
  "objectID solve_ctx 0 = 0" "objectID solve_ctx 1 = 1"
  by (simp_all add: solve_ctx_def appendContact_def resting_ctx_def example_ctx_def
        example_solver_def)

lemma example_objMgr_physical: "physical_metadata (metadata example_objMgr k)"
  by (simp add: physical_metadata_def example_objMgr_def static_metadata_def unit_metadata_def
        Vector3_zero_def)

lemma solve_ctx_dynamic: "has_dynamic_body solve_ctx resting_contact"
  by (simp add: has_dynamic_body_def solve_ctx_facts resting_contact_def example_objMgr_def
        static_metadata_def unit_metadata_def)

lemma solve_ctx_handleContact:
  "\<exists>c k. handleContact solve_ctx example_objMgr resting_contact = Inr (c, k)
         \<and> position c 0 = Vector3_zero \<and> solverData c = solverData solve_ctx"
  by (simp add: handleContact_def forLoop.simps handleContactConstraint_def
        applyPositionalUpdate_def generalizedInverseMass_def getLocalSpaceContacts_def
        fdiv_def rotateVec_id Quat_inv_id Quat_normalize_def Quat_length_def
        solve_ctx_def appendContact_def resting_ctx_def resting_contact_def
        example_ctx_def example_solver_def example_objMgr_def unit_metadata_def
        static_metadata_def Quat_id_def Quat_add_def Quat_sub_def Quat_mul_def
        fromAngularVec_def multDiag_def Vector3_zero_def Vector3_length_def xyz_def
        vadd_def vsub_def smul_def sdiv_def dot_def cross_def Let_def)

lemma solve_ctx_solved:
  "\<exists>c. solvePositions solve_ctx = Inr c \<and> position c 0 = Vector3_zero"
proof -
  from solve_ctx_handleContact obtain c k where
    hc: "handleContact solve_ctx example_objMgr resting_contact = Inr (c, k)"
    and p: "position c 0 = Vector3_zero" and sd: "solverData c = solverData solve_ctx" by blast
  show ?thesis
    by (simp add: solvePositions_def Let_def solve_ctx_facts(1-4) forLoop.simps hc p)
qed

text \<open>
  The static plane of \<open>solve_ctx\<close> in contact with the dynamic sphere: it stays, while
  the positional solve of the contact moves the sphere to the origin. The same plane
  in \<open>static_pair_ctx\<close>, where the sphere is static too: the solve of the contact, with
  \<open>d = 1/2\<close>, stores non-finite values in both.
\<close>

theorem static_body_stays_witness:
  "invMass (metadata (objMgr solve_ctx) (objectID solve_ctx 1)) = 0
   \<and> position_after (substepRigidBodies solve_ctx 1) 1 = Some (position solve_ctx 1)
   \<and> rotation_after (substepRigidBodies solve_ctx 1) 1 = Some (rotation solve_ctx 1)
   \<and> has_dynamic_body solve_ctx resting_contact
   \<and> (\<exists>c k. handleContact solve_ctx (objMgr solve_ctx) resting_contact = Inr (c, k)
            \<and> position c 1 = position solve_ctx 1)
   \<and> position_after (solvePositions solve_ctx) 0 = Some Vector3_zero
   \<and> position_after (solvePositions solve_ctx) 1 = Some (position solve_ctx 1)
   \<and> invMass (metadata (objMgr static_pair_ctx) (objectID static_pair_ctx 1)) = 0
   \<and> static_pair static_pair_ctx resting_contact
   \<and> separation static_pair_ctx resting_contact 0 = 1/2
   \<and> handleContact static_pair_ctx (objMgr static_pair_ctx) resting_contact
        = Inl (NonFiniteWritten (ref resting_contact) (alt resting_contact))"
proof -
  have static: "invMass (metadata (objMgr solve_ctx) (objectID solve_ctx 1)) = 0"
    by (simp add: solve_ctx_def appendContact_def resting_ctx_def example_ctx_def
          example_objMgr_def static_metadata_def)
  have rest: "linear (velocity solve_ctx 1) = Vector3_zero \<and>
              angular (velocity solve_ctx 1) = Vector3_zero \<and>
              Quat_length (rotation solve_ctx 1) = 1"
    by (simp add: solve_ctx_facts Quat_id_unit)
  have rot: "\<forall>e'. Quat_length (rotation solve_ctx e') \<noteq> 0"
    by (simp add: solve_ctx_facts Quat_id_unit)
  have phys: "\<forall>k. physical_metadata (metadata (objMgr solve_ctx) k)"
    by (simp add: solve_ctx_facts(1) example_objMgr_physical)
  have dyn: "\<forall>i < numContacts (solverData solve_ctx).
               has_dynamic_body solve_ctx (contacts (solverData solve_ctx) ! i)"
    by (simp add: solve_ctx_facts(2,4) solve_ctx_dynamic)
  have cap: "numContacts (solverData solve_ctx) \<le> length (contacts (solverData solve_ctx))"
    by (simp add: solve_ctx_facts(2,3))
  note stays = static_body_stays [OF static]
  from stays rest obtain c1 where
    s1: "substepRigidBodies solve_ctx 1 = Inr c1" and p1: "position c1 1 = position solve_ctx 1"
    and r1: "rotation c1 1 = rotation solve_ctx 1" by blast
  from stays phys solve_ctx_dynamic rot have
    hc: "\<exists>c k. handleContact solve_ctx (objMgr solve_ctx) resting_contact = Inr (c, k)
            \<and> position c 1 = position solve_ctx 1" by blast
  from stays cap phys dyn rot obtain c2 where
    s2: "solvePositions solve_ctx = Inr c2" and p2: "position c2 1 = position solve_ctx 1"
    by blast
  from solve_ctx_solved s2 have p0: "position c2 0 = Vector3_zero" by simp
  have static2: "invMass (metadata (objMgr static_pair_ctx) (objectID static_pair_ctx 1)) = 0"
    by (simp add: static_pair_ctx_facts(3) static_metadata_def)
  note stays2 = static_body_stays [OF static2]
  have pen: "0 < separation static_pair_ctx resting_contact 0"
    by (simp add: static_pair_ctx_separation)
  from stays2 static_pair_ctx_facts(1,2) pen have
    nf: "handleContact static_pair_ctx (objMgr static_pair_ctx) resting_contact
        = Inl (NonFiniteWritten (ref resting_contact) (alt resting_contact))" by blast
  show ?thesis
    unfolding position_after_def rotation_after_def s1 s2
    using static p1 r1 p0 p2 hc solve_ctx_dynamic static2 static_pair_ctx_facts(1)
      static_pair_ctx_separation nf by simp
qed

subsection \<open>Velocity reconstruction\<close>

text \<open>
  Claim C8, the claim as stated fails. The claim: the angular velocity is
  \<open>(2 / h) * \<Delta>q.xyz\<close>, negated exactly when \<open>\<Delta>q.w < 0\<close>. The code on a body turned by
  half a turn about x, where \<open>\<Delta>q = (w = 0, x = 1, y = 0, z = 0)\<close> and \<open>h = 1\<close>: it
  stores \<open>(- 2, 0, 0)\<close>, the negated vector, where the claim's rule gives \<open>(2, 0, 0)\<close>.
\<close>

theorem setVelocities_half_turn:
  "velocity_after (setVelocities half_turn_ctx 0) 0 =
     Some \<lparr>linear = Vector3_zero, angular = \<lparr>vx = - 2, vy = 0, vz = 0\<rparr>\<rparr>
   \<and> spec_angular_velocity (h (solverData half_turn_ctx)) (rotation half_turn_ctx 0)
        (prevRotation (prevState half_turn_ctx 0)) = \<lparr>vx = 2, vy = 0, vz = 0\<rparr>"
  by (simp add: velocity_after_def setVelocities_def spec_angular_velocity_def half_turn_ctx_def
        example_ctx_def example_solver_def Quat_id_def Quat_mul_def Quat_inv_def
        Vector3_zero_def vsub_def sdiv_def smul_def vneg_def Let_def)

text \<open>
  Claim C8, amended. When \<^verbatim>\<open>setVelocities\<close> returns, the linear velocity is
  \<open>(pos - prevPosition) / h\<close> and the angular velocity is \<open>(2 / h) * \<Delta>q.xyz\<close> with
  \<open>\<Delta>q = rot * prevRotation\<inverse>\<close>, negated exactly when \<open>\<Delta>q.w \<le> 0\<close> (the code keeps the
  sign only when \<open>\<Delta>q.w > 0\<close>).
\<close>

theorem setVelocities_result:
  assumes run: "setVelocities ctx e = Inr ctx'"
  shows "linear (velocity ctx' e) =
           sdiv (vsub (position ctx e) (prevPosition (prevState ctx e))) (h (solverData ctx))
       \<and> angular (velocity ctx' e) =
           (let delta_q = Quat_mul (rotation ctx e) (Quat_inv (prevRotation (prevState ctx e)));
                omega = smul (2 / h (solverData ctx))
                          \<lparr>vx = qx delta_q, vy = qy delta_q, vz = qz delta_q\<rparr>
            in if qw delta_q \<le> 0 then vneg omega else omega)"
  using run by (auto simp: setVelocities_def Let_def split: if_splits)

theorem setVelocities_result_witness:
  "velocity_after (setVelocities half_turn_ctx 0) 0 =
     Some \<lparr>linear = Vector3_zero, angular = \<lparr>vx = - 2, vy = 0, vz = 0\<rparr>\<rparr>"
proof -
  have "\<exists>c. setVelocities half_turn_ctx 0 = Inr c"
    by (simp add: setVelocities_def half_turn_ctx_def example_ctx_def example_solver_def Let_def)
  then obtain c where run: "setVelocities half_turn_ctx 0 = Inr c" by blast
  from setVelocities_result [OF run]
  have "linear (velocity c 0) = Vector3_zero \<and> angular (velocity c 0) = \<lparr>vx = - 2, vy = 0, vz = 0\<rparr>"
    by (simp add: half_turn_ctx_def example_ctx_def example_solver_def Quat_id_def Quat_mul_def
          Quat_inv_def Vector3_zero_def vsub_def sdiv_def smul_def vneg_def Let_def)
  then have "velocity c 0 = \<lparr>linear = Vector3_zero, angular = \<lparr>vx = - 2, vy = 0, vz = 0\<rparr>\<rparr>"
    by (cases "velocity c 0") simp
  with run show ?thesis by (simp add: velocity_after_def)
qed

subsection \<open>Restitution\<close>

lemma SolverData_init_fields:
  assumes "SolverData_init max_c dt n_sub gr = Inr s"
  shows "h s = dt / real n_sub \<and> restitutionThreshold s = 2 * Vector3_length gr * h s"
  using assms by (auto simp: SolverData_init_def Let_def split: if_splits)

lemma point_update_refines:
  "updateVelocityFromContact_point q1 q2 start1 start2 pv1 pv2 md1 md2 contact dfm thr i st =
   spec_point_update q1 q2 start1 start2 pv1 pv2 md1 md2 contact dfm thr i st"
proof -
  obtain r1 r2 where r: "getLocalSpaceContacts start1 start2 contact i = (r1, r2)"
    by (cases "getLocalSpaceContacts start1 start2 contact i")
  obtain a b c d where st: "st = (a, b, c, d)" by (cases st)
  show ?thesis
    by (auto simp: updateVelocityFromContact_point_def spec_point_update_def r st Let_def
          spec_restitution_coefficient_def spec_normal_impulse_def spec_vn_bar_def
          relative_vn_def relative_vt_def split: sum.splits)
qed

lemma contact_update_refines:
  "updateVelocityFromContact ctx om c hh thr = spec_contact_velocity_update ctx om c hh thr"
  by (simp add: updateVelocityFromContact_def spec_contact_velocity_update_def Let_def
        points_loop_foldE point_update_refines [abs_def])

lemma spec_contact_velocity_update_frame:
  assumes "spec_contact_velocity_update ctx om c hh thr = Inr ctx'"
  shows "solverData ctx' = solverData ctx \<and> objMgr ctx' = objMgr ctx"
  using assms
  by (auto simp: spec_contact_velocity_update_def Let_def split: sum.splits)

lemma contacts_loop_refines:
  assumes "k \<le> length cs"
  shows "solverData ctx = sd \<Longrightarrow> contacts sd = cs \<Longrightarrow>
         foldE (\<lambda>i c. if i < length (contacts (solverData c)) then
                          updateVelocityFromContact c om (contacts (solverData c) ! i)
                            (h (solverData c)) (restitutionThreshold (solverData c))
                        else Inl (OutOfBounds i)) [j..<k] ctx =
         spec_velocity_solve om (h sd) (restitutionThreshold sd) (drop j (take k cs)) ctx"
proof (induction "k - j" arbitrary: j ctx)
  case 0
  then show ?case by (simp add: spec_velocity_solve_def)
next
  case (Suc d)
  then have jk: "j < k" by simp
  with assms have jl: "j < length cs" by simp
  have u: "[j..<k] = j # [Suc j..<k]" using jk by (simp add: upt_conv_Cons)
  have dr: "drop j (take k cs) = cs ! j # drop (Suc j) (take k cs)"
    using jk jl by (simp add: Cons_nth_drop_Suc [symmetric])
  show ?case
  proof (cases "spec_contact_velocity_update ctx om (cs ! j) (h sd) (restitutionThreshold sd)")
    case (Inl e)
    with Suc.prems jl show ?thesis
      by (simp add: u dr spec_velocity_solve_def contact_update_refines)
  next
    case (Inr ctx')
    from spec_contact_velocity_update_frame [OF Inr] Suc.prems
    have sd': "solverData ctx' = sd" by simp
    from Suc.hyps(2) jk have "d = k - Suc j" by simp
    from Suc.hyps(1) [OF this sd' Suc.prems(2)] Inr Suc.prems jl show ?thesis
      by (simp add: u dr spec_velocity_solve_def contact_update_refines)
  qed
qed

text \<open>
  Claim C9. The solver singleton built at init has \<open>h = deltaT / numSubsteps\<close> and
  \<open>restitutionThreshold = 2 * |g| * h\<close>. The update of one contact by
  \<^verbatim>\<open>updateVelocityFromContact\<close> is the update of the specification: it reads the
  \<^verbatim>\<open>SubstepVelocityState\<close> of \<open>ref\<close> and \<open>alt\<close>, applies to each point of the contact the
  restitution impulse of magnitude \<open>min (- e * v\<bar>n) 0 - vn\<close> along the contact normal,
  with \<open>e = 0.4\<close> if \<open>|v\<bar>n| > restitutionThreshold\<close> and \<open>0\<close> otherwise, and stores both
  velocities. And \<^verbatim>\<open>solveVelocities\<close>, on a context whose solver is the one built at
  init with \<open>k\<close> contacts in its buffer, is that update over the first \<open>k\<close> contacts in
  order, with \<open>h = deltaT / numSubsteps\<close> and the threshold \<open>2 * |g| * h\<close>, followed by
  the reset of the count.
\<close>

theorem restitution_in_velocity_solve:
  assumes init: "SolverData_init max_c dt n_sub gr = Inr s"
      and sd: "solverData ctx = s\<lparr>contacts := cs, numContacts := k\<rparr>"
      and k: "k \<le> length cs"
  shows "h s = dt / real n_sub
       \<and> restitutionThreshold s = 2 * Vector3_length gr * h s
       \<and> updateVelocityFromContact ctx0 om c hh thr =
           spec_contact_velocity_update ctx0 om c hh thr
       \<and> solveVelocities ctx =
           (case spec_velocity_solve (objMgr ctx) (dt / real n_sub)
                   (2 * Vector3_length gr * (dt / real n_sub)) (take k cs) ctx of
              Inl e \<Rightarrow> Inl e
            | Inr ctx1 \<Rightarrow> Inr (ctx1\<lparr>solverData := (solverData ctx1)\<lparr>numContacts := 0\<rparr>\<rparr>))"
proof -
  note f = SolverData_init_fields [OF init]
  have hs: "h (solverData ctx) = dt / real n_sub"
    and ts: "restitutionThreshold (solverData ctx) = 2 * Vector3_length gr * (dt / real n_sub)"
    and cs: "contacts (solverData ctx) = cs" and nk: "numContacts (solverData ctx) = k"
    using f by (simp_all add: sd)
  from contacts_loop_refines [OF k refl cs, of "objMgr ctx" 0]
  have "solveVelocities ctx =
           (case spec_velocity_solve (objMgr ctx) (dt / real n_sub)
                   (2 * Vector3_length gr * (dt / real n_sub)) (take k cs) ctx of
              Inl e \<Rightarrow> Inl e
            | Inr ctx1 \<Rightarrow> Inr (ctx1\<lparr>solverData := (solverData ctx1)\<lparr>numContacts := 0\<rparr>\<rparr>))"
    by (simp add: solveVelocities_def Let_def forLoop_foldE nk hs ts)
  with f contact_update_refines show ?thesis by simp
qed

lemma init_solver_init: "SolverData_init 1 1 2 unit_gravity = Inr init_solver"
  by (simp add: SolverData_init_def init_solver_def unit_gravity_def Vector3_length_def Let_def)

lemma bounce_spec:
  "spec_velocity_solve (objMgr bounce_ctx) (1 / real 2)
     (2 * Vector3_length unit_gravity * (1 / real 2)) (take 1 [resting_contact]) bounce_ctx =
   Inr (bounce_ctx
     \<lparr>velocity := (velocity bounce_ctx)
        (0 := \<lparr>linear = \<lparr>vx = 0, vy = 0, vz = - 2\<rparr>, angular = Vector3_zero\<rparr>,
         1 := \<lparr>linear = Vector3_zero, angular = Vector3_zero\<rparr>)\<rparr>)"
  by (simp add: spec_velocity_solve_def spec_contact_velocity_update_def spec_point_update_def
        updateVelocityFromContact_friction_def applyVelocityUpdate_def fdiv_def
        generalizedInverseMass_def getLocalSpaceContacts_def
        spec_normal_impulse_def spec_restitution_coefficient_def spec_vn_bar_def
        relative_vn_def relative_vt_def
        rotateVec_id Quat_inv_id bounce_ctx_def resting_contact_def example_ctx_def
        example_objMgr_def unit_metadata_def static_metadata_def init_solver_def
        unit_gravity_def multDiag_def Vector3_zero_def Vector3_length_def xyz_def
        vadd_def vsub_def smul_def sdiv_def dot_def cross_def Let_def)

text \<open>
  The sphere of \<open>bounce_ctx\<close>: \<open>v\<bar>n = 5\<close> is above the threshold \<open>1\<close>, so \<open>e = 0.4\<close>;
  with \<open>vn = 3\<close> the impulse is \<open>min (- 2) 0 - 3 = - 5\<close> and the velocity solve
  stores \<open>3 - 5 = - 2\<close> along the normal (with \<open>e = 0\<close> it would store \<open>0\<close>).
\<close>

theorem restitution_in_velocity_solve_witness:
  "SolverData_init 1 1 2 unit_gravity = Inr init_solver
   \<and> solverData bounce_ctx = init_solver\<lparr>contacts := [resting_contact], numContacts := 1\<rparr>
   \<and> h init_solver = 1 / 2
   \<and> restitutionThreshold init_solver = 1
   \<and> prevLinear (velState bounce_ctx 0) = \<lparr>vx = 0, vy = 0, vz = 5\<rparr>
   \<and> linear (velocity bounce_ctx 0) = \<lparr>vx = 0, vy = 0, vz = 3\<rparr>
   \<and> solveVelocities bounce_ctx = Inr bounce_ctx_solved
   \<and> linear (velocity bounce_ctx_solved 0) = \<lparr>vx = 0, vy = 0, vz = - 2\<rparr>"
proof -
  have sd: "solverData bounce_ctx = init_solver\<lparr>contacts := [resting_contact], numContacts := 1\<rparr>"
    by (simp add: bounce_ctx_def)
  have k: "1 \<le> length [resting_contact]" by simp
  have len: "Vector3_length unit_gravity = 1"
    by (simp add: Vector3_length_def unit_gravity_def)
  note r = restitution_in_velocity_solve [OF init_solver_init sd k]
  note c1 = r [THEN conjunct1]
  note c2 = r [THEN conjunct2, THEN conjunct1]
  note c4 = r [THEN conjunct2, THEN conjunct2, THEN conjunct2, unfolded bounce_spec]
  from c1 have hh: "h init_solver = 1 / 2" by simp
  from c2 have tt: "restitutionThreshold init_solver = 1" by (simp add: len hh)
  from c4 have run: "solveVelocities bounce_ctx = Inr bounce_ctx_solved"
    by (simp add: bounce_ctx_solved_def)
  have pv: "prevLinear (velState bounce_ctx 0) = \<lparr>vx = 0, vy = 0, vz = 5\<rparr>"
    and v0: "linear (velocity bounce_ctx 0) = \<lparr>vx = 0, vy = 0, vz = 3\<rparr>"
    by (simp_all add: bounce_ctx_def)
  have v1: "linear (velocity bounce_ctx_solved 0) = \<lparr>vx = 0, vy = 0, vz = - 2\<rparr>"
    by (simp add: bounce_ctx_solved_def)
  from init_solver_init sd hh tt pv v0 run v1 show ?thesis by simp
qed

end
